theory Spec2Isabelle
  imports Main "HOL-Library.Word"
begin

unbundle bit_operations_syntax

section \<open>Target bytecode operands and instructions\<close>

type_synonym u8 = "8 word"
type_synonym u32 = "32 word"
type_synonym u64 = "64 word"

text \<open>
  Modelled from the spec: \<open>dxbc::Index\<close>, \<open>dxbc::Src\<close>, \<open>dxbc::Dest\<close> and the
  assembler are declared in \<open>dxbc.h\<close>, which is not among the source files. The
  spec (4.1) describes a source reference as a register, constant-buffer or literal
  reference with an addressing (a static index or an index register plus offset), a
  swizzle (2 bits per lane, 4 lanes) and the absolute-value and negate modifiers; a
  destination as a register reference with a 4-bit write mask. The assembler appends
  one encoded instruction to the code buffer per call; here the code buffer is the list
  of the calls made, in order.
\<close>

datatype OperandType =
  kTemp | kInput | kOutput | kIndexableTemp | kImmediate32 | kConstantBuffer
  | kOutputDepth | kNull

record Index =
  index :: u32
  index_temp :: "(u32 \<times> u32) option"

definition Index_static :: "u32 \<Rightarrow> Index" where
  "Index_static i = \<lparr>index = i, index_temp = None\<rparr>"

definition Index_dynamic :: "u32 \<Rightarrow> u32 \<Rightarrow> u32 \<Rightarrow> Index" where
  "Index_dynamic temp component offset = \<lparr>index = offset, index_temp = Some (temp, component)\<rparr>"

definition kXYZW :: u32 where "kXYZW = 0b11100100"
definition kXXXX :: u32 where "kXXXX = 0b00000000"
definition kYYYY :: u32 where "kYYYY = 0b01010101"
definition kZZZZ :: u32 where "kZZZZ = 0b10101010"
definition kWWWW :: u32 where "kWWWW = 0b11111111"

record Src =
  src_type :: OperandType
  src_indices :: "Index list"
  swizzle :: u32
  absolute :: bool
  negate :: bool
  immediate :: "u32 list"

record Dest =
  dest_type :: OperandType
  dest_indices :: "Index list"
  write_mask :: u32

text \<open>Literals are kept as their four 32-bit patterns; \<open>0.0f\<close> is 0 and \<open>1.0f\<close> is 0x3F800000.\<close>

definition float_0 :: u32 where "float_0 = 0"
definition float_1 :: u32 where "float_1 = 0x3F800000"

definition Src_LU4 :: "u32 \<Rightarrow> u32 \<Rightarrow> u32 \<Rightarrow> u32 \<Rightarrow> Src" where
  "Src_LU4 x y z w =
     \<lparr>src_type = kImmediate32, src_indices = [], swizzle = kXYZW,
      absolute = False, negate = False, immediate = [x, y, z, w]\<rparr>"

definition Src_LU :: "u32 \<Rightarrow> Src" where
  "Src_LU x = Src_LU4 x x x x"

definition Src_LF4 :: "u32 \<Rightarrow> u32 \<Rightarrow> u32 \<Rightarrow> u32 \<Rightarrow> Src" where
  "Src_LF4 x y z w = Src_LU4 x y z w"

definition Src_LF :: "u32 \<Rightarrow> Src" where
  "Src_LF x = Src_LF4 x x x x"

definition Src_R :: "u32 \<Rightarrow> u32 \<Rightarrow> Src" where
  "Src_R idx sw =
     \<lparr>src_type = kTemp, src_indices = [Index_static idx], swizzle = sw,
      absolute = False, negate = False, immediate = []\<rparr>"

definition Src_X :: "u32 \<Rightarrow> Index \<Rightarrow> Src" where
  "Src_X index_1d index_2d =
     \<lparr>src_type = kIndexableTemp, src_indices = [Index_static index_1d, index_2d],
      swizzle = kXYZW, absolute = False, negate = False, immediate = []\<rparr>"

definition Src_CB :: "u32 \<Rightarrow> u32 \<Rightarrow> Index \<Rightarrow> Src" where
  "Src_CB index_1d index_2d index_3d =
     \<lparr>src_type = kConstantBuffer,
      src_indices = [Index_static index_1d, Index_static index_2d, index_3d],
      swizzle = kXYZW, absolute = False, negate = False, immediate = []\<rparr>"

definition Swizzle :: "u32 \<Rightarrow> Src \<Rightarrow> Src" where
  "Swizzle sw src = src\<lparr>swizzle := sw\<rparr>"

definition Select :: "u32 \<Rightarrow> Src \<Rightarrow> Src" where
  "Select component src = src\<lparr>swizzle := component * 0b01010101\<rparr>"

definition WithModifiers :: "bool \<Rightarrow> bool \<Rightarrow> Src \<Rightarrow> Src" where
  "WithModifiers is_absolute is_negated src = src\<lparr>absolute := is_absolute, negate := is_negated\<rparr>"

definition Dest_Null :: Dest where
  "Dest_Null = \<lparr>dest_type = kNull, dest_indices = [], write_mask = 0b0000\<rparr>"

definition Dest_R :: "u32 \<Rightarrow> u32 \<Rightarrow> Dest" where
  "Dest_R idx m = \<lparr>dest_type = kTemp, dest_indices = [Index_static idx], write_mask = m\<rparr>"

definition Dest_O :: "u32 \<Rightarrow> u32 \<Rightarrow> Dest" where
  "Dest_O idx m = \<lparr>dest_type = kOutput, dest_indices = [Index_static idx], write_mask = m\<rparr>"

definition Dest_X :: "u32 \<Rightarrow> Index \<Rightarrow> Dest" where
  "Dest_X index_1d index_2d =
     \<lparr>dest_type = kIndexableTemp, dest_indices = [Index_static index_1d, index_2d], write_mask = 0b1111\<rparr>"

definition Dest_ODepth :: Dest where
  "Dest_ODepth = \<lparr>dest_type = kOutputDepth, dest_indices = [], write_mask = 0b0001\<rparr>"

definition Mask :: "u32 \<Rightarrow> Dest \<Rightarrow> Dest" where
  "Mask m dest = dest\<lparr>write_mask := m\<rparr>"

definition SwizzleSwizzled :: "u32 \<Rightarrow> Src \<Rightarrow> Src" where
  "SwizzleSwizzled sw src =
     src\<lparr>swizzle :=
       foldl (\<lambda>acc i.
                acc OR push_bit (i * 2)
                  (drop_bit (unat (drop_bit (i * 2) sw AND 3) * 2) (swizzle src) AND 3))
             0 [0..<4]\<rparr>"

datatype dxbc_op =
  OpMov Dest Src bool
  | OpMovC Dest Src Src Src
  | OpAnd Dest Src Src
  | OpOr Dest Src Src
  | OpUGE Dest Src Src
  | OpIAdd Dest Src Src
  | OpUBFE Dest Src Src Src
  | OpIBFE Dest Src Src Src
  | OpIf bool Src
  | OpElse
  | OpEndIf
  | OpBreak
  | OpContinue
  | OpCase Src
  | OpCustomData string

section \<open>Parsed guest instructions\<close>

text \<open>
  The decoded instruction records come from the upstream decoder (\<open>shader.h\<close>, not among
  the source files); only the members that the translator functions below read are kept.
  \<open>GetComponent\<close> and \<open>GetUsedWriteMask\<close> are methods declared there: their results are
  taken as given, as members of the records. \<open>disassembly\<close> members hold the text that
  \<open>Disassemble\<close> writes to the disassembly buffer.
\<close>

datatype SwizzleSource = kX | kY | kZ | kW | k0 | k1

fun SwizzleSource_value :: "SwizzleSource \<Rightarrow> u32" where
  "SwizzleSource_value kX = 0"
| "SwizzleSource_value kY = 1"
| "SwizzleSource_value kZ = 2"
| "SwizzleSource_value kW = 3"
| "SwizzleSource_value k0 = 4"
| "SwizzleSource_value k1 = 5"

definition is_XYZW :: "SwizzleSource \<Rightarrow> bool" where
  "is_XYZW component = (SwizzleSource_value kX \<le> SwizzleSource_value component \<and>
                        SwizzleSource_value component \<le> SwizzleSource_value kW)"

datatype InstructionStorageAddressingMode = kStatic | kAddressAbsolute | kAddressRelative

datatype InstructionStorageSource =
  Source_kRegister | Source_kConstantFloat | Source_kVertexFetchConstant
  | Source_kTextureFetchConstant

datatype InstructionStorageTarget =
  Target_kNone | Target_kRegister | Target_kInterpolator | Target_kPosition
  | Target_kPointSizeEdgeFlagKillVertex | Target_kExportAddress | Target_kExportData
  | Target_kColor | Target_kDepth

record InstructionOperand =
  storage_source :: InstructionStorageSource
  storage_index :: u32
  storage_addressing_mode :: InstructionStorageAddressingMode
  is_negated :: bool
  is_absolute_value :: bool
  component_count :: u32
  GetComponent :: "u32 \<Rightarrow> SwizzleSource"

record InstructionResult =
  storage_target :: InstructionStorageTarget
  result_storage_index :: u32
  result_storage_addressing_mode :: InstructionStorageAddressingMode
  is_clamped :: bool
  components :: "nat \<Rightarrow> SwizzleSource"
  GetUsedWriteMask :: u32

datatype ExecType = kUnconditional | kConditional | kPredicated

record ParsedExecInstruction =
  exec_type :: ExecType
  exec_bool_constant_index :: u32
  exec_condition :: bool
  exec_is_end :: bool
  exec_disassembly :: string

record ParsedJumpInstruction =
  jump_type :: ExecType
  jump_bool_constant_index :: u32
  jump_condition :: bool
  jump_target_address :: u32
  jump_disassembly :: string

record ParsedLoopStartInstruction =
  loop_start_constant_index :: u32
  is_repeat :: bool
  loop_skip_address :: u32
  loop_start_disassembly :: string

record ParsedLoopEndInstruction =
  loop_end_constant_index :: u32
  is_predicated_break :: bool
  predicate_condition :: bool
  loop_body_address :: u32
  loop_end_disassembly :: string

datatype AllocType = Alloc_kNone | Alloc_kVsPosition | Alloc_kVsInterpolators | Alloc_kMemory

record ParsedAllocInstruction =
  alloc_type :: AllocType
  alloc_disassembly :: string

section \<open>Translator session state\<close>

definition kBindingIndexUnallocated :: u32 where "kBindingIndexUnallocated = 0xFFFFFFFF"
definition kCfExecBoolConstantNone :: u32 where "kCfExecBoolConstantNone = 0xFFFFFFFF"
definition UINT32_MAX :: u32 where "UINT32_MAX = 0xFFFFFFFF"

text \<open>
  The member fields of \<open>DxbcShaderTranslator\<close> that the functions below read or write
  (written without the trailing underscore of the source), followed by what they consult
  from outside the class: the configuration variable \<open>dxbc_switch\<close>, facts about the
  shader being translated (\<open>current_shader()\<close>, \<open>register_count()\<close>, the packed float
  constant map), and constants and predicates declared in headers that are not among the
  source files (\<open>Shader::kMaxMemExports\<close>, the \<open>CbufferRegister\<close> numbering,
  \<open>InOutRegister::kVSDSOutInterpolators\<close>, \<open>IsDepthStencilSystemTempUsed\<close>), which are
  taken as parameters. The fixed-size arrays are functions of the element index.
\<close>

record translator =
  shader_code :: "dxbc_op list"
  instruction_disassembly_buffer :: string
  vendor_is_intel :: bool
  edram_rov_used :: bool
  emit_source_map :: bool
  is_depth_only_pixel_shader :: bool
  cbuffer_count :: u32
  cbuffer_index_system_constants :: u32
  cbuffer_index_float_constants :: u32
  cbuffer_index_bool_loop_constants :: u32
  cbuffer_index_fetch_constants :: u32
  cbuffer_index_descriptor_indices :: u32
  system_temp_count_current :: u32
  system_temp_count_max :: u32
  system_temp_position :: u32
  system_temp_point_size_edge_flag_kill_vertex :: u32
  system_temp_rov_params :: u32
  system_temp_depth_stencil :: u32
  system_temps_color :: "nat \<Rightarrow> u32"
  system_temps_memexport_address :: "nat \<Rightarrow> u32"
  system_temps_memexport_data :: "nat \<Rightarrow> nat \<Rightarrow> u32"
  system_temp_memexport_written :: u32
  system_temp_ps_pc_p0_a0 :: u32
  system_temp_aL :: u32
  system_temp_loop_count :: u32
  cf_exec_bool_constant :: u32
  cf_exec_bool_constant_condition :: bool
  cf_exec_predicated :: bool
  cf_exec_predicate_condition :: bool
  cf_instruction_predicate_if_open :: bool
  cf_instruction_predicate_condition :: bool
  cf_exec_predicate_written :: bool
  memexport_alloc_current_count :: u32
  dxbc_switch :: bool
  uses_register_dynamic_addressing :: bool
  register_count :: u32
  GetPackedFloatConstantIndex :: "u32 \<Rightarrow> u32"
  IsDepthStencilSystemTempUsed :: bool
  kMaxMemExports :: u32
  kFloatConstants :: u32
  kBoolLoopConstants :: u32
  kVSDSOutInterpolators :: u32

definition emit :: "dxbc_op list \<Rightarrow> translator \<Rightarrow> translator" where
  "emit ops t = t\<lparr>shader_code := shader_code t @ ops\<rparr>"

text \<open>
  \<open>Reset\<close>, on the fields above. The source also clears the texture, sampler, SRV and
  UAV binding tables, the input-usage flags, the feature info and the statistics, which
  none of the functions below reads.
\<close>

definition Reset :: "translator \<Rightarrow> translator" where
  "Reset t =
     t\<lparr>shader_code := [],
       cbuffer_count := 1,
       cbuffer_index_system_constants := 0,
       cbuffer_index_float_constants := kBindingIndexUnallocated,
       cbuffer_index_bool_loop_constants := kBindingIndexUnallocated,
       cbuffer_index_fetch_constants := kBindingIndexUnallocated,
       cbuffer_index_descriptor_indices := kBindingIndexUnallocated,
       system_temp_count_current := 0,
       system_temp_count_max := 0,
       cf_exec_bool_constant := kCfExecBoolConstantNone,
       cf_exec_predicated := False,
       cf_instruction_predicate_if_open := False,
       cf_exec_predicate_written := False,
       memexport_alloc_current_count := 0\<rparr>"

definition UseSwitchForControlFlow :: "translator \<Rightarrow> bool" where
  "UseSwitchForControlFlow t = (dxbc_switch t \<and> \<not> vendor_is_intel t)"

subsection \<open>System-register allocator\<close>

definition PushSystemTemp :: "u32 \<Rightarrow> u32 \<Rightarrow> translator \<Rightarrow> u32 \<times> translator" where
  "PushSystemTemp zero_mask count t =
     (let register_index =
            (if \<not> is_depth_only_pixel_shader t \<and> \<not> uses_register_dynamic_addressing t
             then system_temp_count_current t + register_count t
             else system_temp_count_current t);
          current = system_temp_count_current t + count;
          zero_mask' = zero_mask AND 0b1111
      in (register_index,
          emit (if zero_mask' \<noteq> 0
                then map (\<lambda>i. OpMov (Dest_R (register_index + of_nat i) zero_mask') (Src_LU 0) False)
                       [0..<unat count]
                else [])
            (t\<lparr>system_temp_count_current := current,
               system_temp_count_max := max (system_temp_count_max t) current\<rparr>)))"

text \<open>
  \<open>PopSystemTemp\<close> asserts \<open>count <= system_temp_count_current\<close> and then subtracts
  \<open>min(count, system_temp_count_current)\<close>. The first component of the result is whether
  the assertion held; the second is the state the function leaves when it continues.
\<close>

definition PopSystemTemp :: "u32 \<Rightarrow> translator \<Rightarrow> bool \<times> translator" where
  "PopSystemTemp count t =
     (count \<le> system_temp_count_current t,
      t\<lparr>system_temp_count_current :=
          system_temp_count_current t - min count (system_temp_count_current t)\<rparr>)"

datatype alloc_op = Push u32 u32 | Pop u32

fun run_ops :: "alloc_op list \<Rightarrow> translator \<Rightarrow> u32 list \<times> bool \<times> translator" where
  "run_ops [] t = ([], True, t)"
| "run_ops (Push zero_mask count # ops) t =
     (case PushSystemTemp zero_mask count t of (r, t') \<Rightarrow>
        (case run_ops ops t' of (rs, ok, t'') \<Rightarrow> (r # rs, ok, t'')))"
| "run_ops (Pop count # ops) t =
     (case PopSystemTemp count t of (a, t') \<Rightarrow>
        (case run_ops ops t' of (rs, ok, t'') \<Rightarrow> (rs, a \<and> ok, t'')))"

subsection \<open>Source map comments\<close>

definition EmitInstructionDisassembly :: "translator \<Rightarrow> translator" where
  "EmitInstructionDisassembly t =
     (if \<not> emit_source_map t then t
      else
        (let source = dropWhile (\<lambda>c. c = CHR '' '') (instruction_disassembly_buffer t);
             trimmed = rev (dropWhile (\<lambda>c. c = CHR 0x0A) (rev source))
         in if trimmed = [] then t else emit [OpCustomData trimmed] t))"

subsection \<open>Loading operands\<close>

text \<open>
  Modelled from the spec: \<open>xe::bit_scan_forward\<close> is declared in \<open>math.h\<close>, which is not
  among the source files. It reports whether any bit is set and, if so, the index of the
  lowest set bit (spec 8: "the lowest set bit of the mask").
\<close>

definition bit_scan_forward :: "u32 \<Rightarrow> u32 option" where
  "bit_scan_forward v = map_option of_nat (List.find (\<lambda>i. bit v i) [0..<32])"

definition operand_index :: "InstructionStorageAddressingMode \<Rightarrow> u32 \<Rightarrow> translator \<Rightarrow> Index" where
  "operand_index mode storage_idx t =
     (case mode of
        kStatic \<Rightarrow> Index_static storage_idx
      | kAddressAbsolute \<Rightarrow> Index_dynamic (system_temp_ps_pc_p0_a0 t) 3 storage_idx
      | kAddressRelative \<Rightarrow> Index_dynamic (system_temp_aL t) 0 storage_idx)"

text \<open>The two loops of \<open>LoadOperand\<close>.\<close>

definition LoadOperand_used_swizzle_components :: "InstructionOperand \<Rightarrow> u32 \<Rightarrow> u32" where
  "LoadOperand_used_swizzle_components operand needed_components =
     foldl (\<lambda>used i.
              if needed_components AND push_bit i 1 = 0 then used
              else used OR push_bit (unat (SwizzleSource_value (GetComponent operand (of_nat i))
                                           - SwizzleSource_value kX)) 1)
           0 [0..<unat (component_count operand)]"

definition LoadOperand_swizzle :: "InstructionOperand \<Rightarrow> u32 \<Rightarrow> u32 \<Rightarrow> u32" where
  "LoadOperand_swizzle operand needed_components first_needed_component =
     foldl (\<lambda>sw i.
              sw OR push_bit (i * 2)
                (SwizzleSource_value
                   (GetComponent operand
                      (if needed_components AND push_bit i 1 \<noteq> 0 then of_nat i
                       else first_needed_component))
                 - SwizzleSource_value kX))
           0 [0..<4]"

text \<open>
  \<open>LoadOperand\<close> returns the source, the value left in \<open>temp_pushed_out\<close>, and the
  translator state. The default arguments of \<open>PushSystemTemp()\<close> are \<open>zero_mask = 0\<close>,
  \<open>count = 1\<close>.
\<close>

definition LoadOperand :: "InstructionOperand \<Rightarrow> u32 \<Rightarrow> translator \<Rightarrow> Src \<times> bool \<times> translator" where
  "LoadOperand operand needed_components t =
     (case bit_scan_forward needed_components of
        None \<Rightarrow> (Src_LF float_0, False, t)
      | Some first_needed_component \<Rightarrow>
          (let idx = operand_index (storage_addressing_mode operand) (storage_index operand) t;
               finish = (\<lambda>src.
                  WithModifiers (is_absolute_value operand) (is_negated operand)
                    (Swizzle (LoadOperand_swizzle operand needed_components first_needed_component) src))
           in case storage_source operand of
                Source_kRegister \<Rightarrow>
                  if uses_register_dynamic_addressing t then
                    (case PushSystemTemp 0 1 t of
                       (temp, t1) \<Rightarrow>
                         (finish (Src_R temp kXYZW), True,
                          emit [OpMov (Dest_R temp
                                        (LoadOperand_used_swizzle_components operand needed_components))
                                      (Src_X 0 idx) False] t1))
                  else (finish (Src_R (index idx) kXYZW), False, t)
              | Source_kConstantFloat \<Rightarrow>
                  (let t1 = (if cbuffer_index_float_constants t = kBindingIndexUnallocated
                             then t\<lparr>cbuffer_index_float_constants := cbuffer_count t,
                                    cbuffer_count := cbuffer_count t + 1\<rparr>
                             else t)
                   in if storage_addressing_mode operand = kStatic then
                        (let float_constant_index =
                               GetPackedFloatConstantIndex t (storage_index operand)
                         in if float_constant_index = UINT32_MAX then (Src_LF float_0, False, t1)
                            else (finish (Src_CB (cbuffer_index_float_constants t1) (kFloatConstants t1)
                                            (idx\<lparr>index := float_constant_index\<rparr>)),
                                  False, t1))
                      else (finish (Src_CB (cbuffer_index_float_constants t1) (kFloatConstants t1) idx),
                            False, t1))
              | _ \<Rightarrow> (Src_LF float_0, False, t)))"

subsection \<open>Storing results\<close>

text \<open>
  The destination switch of \<open>StoreResult\<close>: \<open>None\<close> where the source returns from inside
  the switch, otherwise the destination, the clamp flag and the state (two targets emit
  a marker instruction while the destination is chosen).
\<close>

definition StoreResult_dest :: "InstructionResult \<Rightarrow> bool \<Rightarrow> translator \<Rightarrow> (Dest \<times> bool \<times> translator) option" where
  "StoreResult_dest result can_store_memexport_address t =
     (case storage_target result of
        Target_kNone \<Rightarrow> None
      | Target_kRegister \<Rightarrow>
          if uses_register_dynamic_addressing t then
            Some (Dest_X 0 (operand_index (result_storage_addressing_mode result)
                              (result_storage_index result) t),
                  is_clamped result, t)
          else Some (Dest_R (result_storage_index result) 0b1111, is_clamped result, t)
      | Target_kInterpolator \<Rightarrow>
          Some (Dest_O (kVSDSOutInterpolators t + result_storage_index result) 0b1111,
                is_clamped result, t)
      | Target_kPosition \<Rightarrow> Some (Dest_R (system_temp_position t) 0b1111, is_clamped result, t)
      | Target_kPointSizeEdgeFlagKillVertex \<Rightarrow>
          Some (Dest_R (system_temp_point_size_edge_flag_kill_vertex t) 0b1111, is_clamped result, t)
      | Target_kExportAddress \<Rightarrow>
          if \<not> can_store_memexport_address \<or> memexport_alloc_current_count t = 0 \<or>
             memexport_alloc_current_count t > kMaxMemExports t \<or>
             system_temps_memexport_address t (unat (memexport_alloc_current_count t - 1)) = UINT32_MAX
          then None
          else Some (Dest_R (system_temps_memexport_address t
                               (unat (memexport_alloc_current_count t - 1))) 0b1111,
                     is_clamped result, t)
      | Target_kExportData \<Rightarrow>
          if memexport_alloc_current_count t = 0 \<or>
             memexport_alloc_current_count t > kMaxMemExports t \<or>
             system_temps_memexport_data t (unat (memexport_alloc_current_count t - 1))
               (unat (result_storage_index result)) = UINT32_MAX
          then None
          else
            (let memexport_index = memexport_alloc_current_count t - 1
             in Some (Dest_R (system_temps_memexport_data t (unat memexport_index)
                                (unat (result_storage_index result))) 0b1111,
                      is_clamped result,
                      emit [OpOr (Dest_R (system_temp_memexport_written t)
                                    (push_bit (unat (drop_bit 2 memexport_index)) 1))
                                 (Select (drop_bit 2 memexport_index)
                                    (Src_R (system_temp_memexport_written t) kXYZW))
                                 (Src_LU (push_bit (unat (result_storage_index result +
                                                          push_bit 3 (memexport_index AND 3))) 1))] t))
      | Target_kColor \<Rightarrow>
          Some (Dest_R (system_temps_color t (unat (result_storage_index result))) 0b1111,
                is_clamped result,
                if edram_rov_used t
                then emit [OpOr (Dest_R (system_temp_rov_params t) 0b0001)
                             (Src_R (system_temp_rov_params t) kXXXX)
                             (Src_LU (push_bit (unat (8 + result_storage_index result)) 1))] t
                else t)
      | Target_kDepth \<Rightarrow>
          Some (if IsDepthStencilSystemTempUsed t then Dest_R (system_temp_depth_stencil t) 0b1111
                else Dest_ODepth,
                True, t))"

text \<open>
  The write loop: the additional swizzle of the source, the mask of the lanes that take
  a constant, and the mask of the lanes that take the constant 1.
\<close>

definition StoreResult_masks :: "InstructionResult \<Rightarrow> u32 \<Rightarrow> u32 \<times> u32 \<times> u32" where
  "StoreResult_masks result used_write_mask =
     foldl (\<lambda>(src_additional_swizzle, constant_mask, constant_1_mask) i.
              if used_write_mask AND push_bit i 1 = 0
              then (src_additional_swizzle, constant_mask, constant_1_mask)
              else
                (let component = components result i
                 in if is_XYZW component
                    then (src_additional_swizzle OR
                            push_bit (i * 2) (SwizzleSource_value component - SwizzleSource_value kX),
                          constant_mask, constant_1_mask)
                    else (src_additional_swizzle, constant_mask OR push_bit i 1,
                          if component = k1 then constant_1_mask OR push_bit i 1
                          else constant_1_mask)))
           (0, 0, 0) [0..<4]"

definition float_of_bit :: "u32 \<Rightarrow> u32" where
  "float_of_bit b = (if b = 0 then float_0 else float_1)"

definition StoreResult_write :: "InstructionResult \<Rightarrow> Src \<Rightarrow> u32 \<Rightarrow> Dest \<Rightarrow> bool \<Rightarrow> dxbc_op list" where
  "StoreResult_write result src used_write_mask dest clamped =
     (case StoreResult_masks result used_write_mask of
        (src_additional_swizzle, constant_mask, constant_1_mask) \<Rightarrow>
          (if used_write_mask \<noteq> constant_mask
           then [OpMov (Mask (used_write_mask AND NOT constant_mask) dest)
                   (SwizzleSwizzled src_additional_swizzle src) clamped]
           else []) @
          (if constant_mask \<noteq> 0
           then [OpMov (Mask constant_mask dest)
                   (Src_LF4 (float_of_bit (constant_1_mask AND 1))
                            (float_of_bit (drop_bit 1 constant_1_mask AND 1))
                            (float_of_bit (drop_bit 2 constant_1_mask AND 1))
                            (float_of_bit (drop_bit 3 constant_1_mask AND 1))) False]
           else []))"

definition StoreResult :: "InstructionResult \<Rightarrow> Src \<Rightarrow> bool \<Rightarrow> translator \<Rightarrow> translator" where
  "StoreResult result src can_store_memexport_address t =
     (let used_write_mask = GetUsedWriteMask result
      in if used_write_mask = 0 then t
         else
           (case StoreResult_dest result can_store_memexport_address t of
              None \<Rightarrow> t
            | Some (dest, clamped, t1) \<Rightarrow>
                if dest_type dest = kNull then t1
                else emit (StoreResult_write result src used_write_mask dest clamped) t1))"

subsection \<open>Exec-level and instruction-level conditionals\<close>

definition CloseInstructionPredication :: "translator \<Rightarrow> translator" where
  "CloseInstructionPredication t =
     (if cf_instruction_predicate_if_open t
      then (emit [OpEndIf] t)\<lparr>cf_instruction_predicate_if_open := False\<rparr>
      else t)"

definition CloseExecConditionals :: "translator \<Rightarrow> translator" where
  "CloseExecConditionals t =
     (let t1 = CloseInstructionPredication t;
          t2 = (if cf_exec_bool_constant t1 \<noteq> kCfExecBoolConstantNone \<or> cf_exec_predicated t1
                then (emit [OpEndIf] t1)\<lparr>cf_exec_bool_constant := kCfExecBoolConstantNone,
                                         cf_exec_predicated := False\<rparr>
                else t1)
      in t2\<lparr>cf_exec_predicate_written := False\<rparr>)"

definition exec_merge :: "ExecType \<Rightarrow> u32 \<Rightarrow> bool \<Rightarrow> translator \<Rightarrow> bool" where
  "exec_merge type bool_constant_index condition t =
     (case type of
        kConditional \<Rightarrow>
          cf_exec_bool_constant t = bool_constant_index \<and>
          cf_exec_bool_constant_condition t = condition
      | kPredicated \<Rightarrow>
          \<not> cf_exec_predicate_written t \<and> cf_exec_predicated t \<and>
          cf_exec_predicate_condition t = condition
      | kUnconditional \<Rightarrow>
          cf_exec_bool_constant t = kCfExecBoolConstantNone \<and> \<not> cf_exec_predicated t)"

definition UpdateExecConditionalsAndEmitDisassembly ::
    "ExecType \<Rightarrow> u32 \<Rightarrow> bool \<Rightarrow> translator \<Rightarrow> translator" where
  "UpdateExecConditionalsAndEmitDisassembly type bool_constant_index condition t =
     (if exec_merge type bool_constant_index condition t then EmitInstructionDisassembly t
      else
        (let t1 = EmitInstructionDisassembly (CloseExecConditionals t)
         in case type of
              kConditional \<Rightarrow>
                (case PushSystemTemp 0 1 t1 of
                   (bool_constant_test_temp, t2) \<Rightarrow>
                     (let t3 = (if cbuffer_index_bool_loop_constants t2 = kBindingIndexUnallocated
                                then t2\<lparr>cbuffer_index_bool_loop_constants := cbuffer_count t2,
                                        cbuffer_count := cbuffer_count t2 + 1\<rparr>
                                else t2);
                          t4 = emit [OpAnd (Dest_R bool_constant_test_temp 0b0001)
                                       (Select (drop_bit 5 bool_constant_index AND 3)
                                          (Src_CB (cbuffer_index_bool_loop_constants t3)
                                             (kBoolLoopConstants t3)
                                             (Index_static (drop_bit 7 bool_constant_index))))
                                       (Src_LU (push_bit (unat (bool_constant_index AND 31)) 1)),
                                     OpIf condition (Src_R bool_constant_test_temp kXXXX)] t3;
                          t5 = snd (PopSystemTemp 1 t4)
                      in t5\<lparr>cf_exec_bool_constant := bool_constant_index,
                            cf_exec_bool_constant_condition := condition\<rparr>))
            | kPredicated \<Rightarrow>
                (emit [OpIf condition (Src_R (system_temp_ps_pc_p0_a0 t1) kZZZZ)] t1)
                  \<lparr>cf_exec_predicated := True, cf_exec_predicate_condition := condition\<rparr>
            | kUnconditional \<Rightarrow> t1))"

definition UpdateInstructionPredicationAndEmitDisassembly ::
    "bool \<Rightarrow> bool \<Rightarrow> translator \<Rightarrow> translator" where
  "UpdateInstructionPredicationAndEmitDisassembly predicated condition t =
     (if \<not> predicated then EmitInstructionDisassembly (CloseInstructionPredication t)
      else if cf_instruction_predicate_if_open t \<and>
              cf_instruction_predicate_condition t = condition
      then EmitInstructionDisassembly t
      else
        (let t1 = EmitInstructionDisassembly
                    (if cf_instruction_predicate_if_open t then CloseInstructionPredication t else t)
         in if \<not> cf_exec_predicate_written t1 \<and> cf_exec_predicated t1 \<and>
               cf_exec_predicate_condition t1 = condition
            then t1
            else (emit [OpIf condition (Src_R (system_temp_ps_pc_p0_a0 t1) kZZZZ)] t1)
                   \<lparr>cf_instruction_predicate_if_open := True,
                    cf_instruction_predicate_condition := condition\<rparr>))"

subsection \<open>Control flow instructions\<close>

definition JumpToLabel :: "u32 \<Rightarrow> translator \<Rightarrow> translator" where
  "JumpToLabel address t =
     emit [OpMov (Dest_R (system_temp_ps_pc_p0_a0 t) 0b0010) (Src_LU address) False, OpContinue] t"

definition ProcessLabel :: "u32 \<Rightarrow> translator \<Rightarrow> translator" where
  "ProcessLabel cf_index t =
     (if cf_index = 0 then t
      else
        (let t1 = CloseExecConditionals t
         in if UseSwitchForControlFlow t1
            then emit [OpBreak, OpCase (Src_LU cf_index)] (JumpToLabel cf_index t1)
            else
              (case PushSystemTemp 0 1 (emit [OpEndIf] t1) of
                 (test_temp, t2) \<Rightarrow>
                   snd (PopSystemTemp 1
                     (emit [OpUGE (Dest_R test_temp 0b0001) (Src_LU cf_index)
                              (Src_R (system_temp_ps_pc_p0_a0 t2) kYYYY),
                            OpIf True (Src_R test_temp kXXXX)] t2)))))"

definition ProcessExecInstructionBegin :: "ParsedExecInstruction \<Rightarrow> translator \<Rightarrow> translator" where
  "ProcessExecInstructionBegin instr t =
     UpdateExecConditionalsAndEmitDisassembly (exec_type instr) (exec_bool_constant_index instr)
       (exec_condition instr)
       (if emit_source_map t then t\<lparr>instruction_disassembly_buffer := exec_disassembly instr\<rparr>
        else t)"

definition ProcessExecInstructionEnd :: "ParsedExecInstruction \<Rightarrow> translator \<Rightarrow> translator" where
  "ProcessExecInstructionEnd instr t =
     (if exec_is_end instr then
        (let t1 = CloseInstructionPredication t
         in if UseSwitchForControlFlow t1
            then emit [OpMov (Dest_R (system_temp_ps_pc_p0_a0 t1) 0b0010) (Src_LU UINT32_MAX) False,
                       OpContinue] t1
            else emit [OpBreak] t1)
      else t)"

definition emit_disassembly_of :: "string \<Rightarrow> translator \<Rightarrow> translator" where
  "emit_disassembly_of text t =
     (if emit_source_map t
      then EmitInstructionDisassembly (t\<lparr>instruction_disassembly_buffer := text\<rparr>)
      else t)"

definition allocate_bool_loop_constants :: "translator \<Rightarrow> translator" where
  "allocate_bool_loop_constants t =
     (if cbuffer_index_bool_loop_constants t = kBindingIndexUnallocated
      then t\<lparr>cbuffer_index_bool_loop_constants := cbuffer_count t,
             cbuffer_count := cbuffer_count t + 1\<rparr>
      else t)"

definition loop_constant_src :: "u32 \<Rightarrow> translator \<Rightarrow> Src" where
  "loop_constant_src loop_constant_index t =
     Select (loop_constant_index AND 3)
       (Src_CB (cbuffer_index_bool_loop_constants t) (kBoolLoopConstants t)
          (Index_static (2 + drop_bit 2 loop_constant_index)))"

definition ProcessLoopStartInstruction :: "ParsedLoopStartInstruction \<Rightarrow> translator \<Rightarrow> translator" where
  "ProcessLoopStartInstruction instr t =
     (let t1 = CloseExecConditionals t;
          t2 = emit_disassembly_of (loop_start_disassembly instr) t1;
          t3 = allocate_bool_loop_constants t2;
          src = loop_constant_src (loop_start_constant_index instr) t3;
          t4 = emit
                 ([OpMov (Dest_R (system_temp_loop_count t3) 0b1110)
                     (Src_R (system_temp_loop_count t3) 0b10010000) False,
                   OpAnd (Dest_R (system_temp_loop_count t3) 0b0001) src (Src_LU 0xFF),
                   OpMov (Dest_R (system_temp_aL t3) (if is_repeat instr then 0b1111 else 0b1110))
                     (Src_R (system_temp_aL t3) 0b10010000) False] @
                  (if \<not> is_repeat instr
                   then [OpUBFE (Dest_R (system_temp_aL t3) 0b0001) (Src_LU 8) (Src_LU 8) src]
                   else []) @
                  [OpIf False (Src_R (system_temp_loop_count t3) kXXXX)]) t3
      in emit [OpEndIf] (JumpToLabel (loop_skip_address instr) t4))"

definition ProcessLoopEndInstruction :: "ParsedLoopEndInstruction \<Rightarrow> translator \<Rightarrow> translator" where
  "ProcessLoopEndInstruction instr t =
     (let t1 = CloseExecConditionals t;
          t2 = emit_disassembly_of (loop_end_disassembly instr) t1;
          t3 = emit [OpIAdd (Dest_R (system_temp_loop_count t2) 0b0001)
                       (Src_R (system_temp_loop_count t2) kXXXX) (Src_LU 0xFFFFFFFF)] t2;
          t4 = (if is_predicated_break instr then
                  (case PushSystemTemp 0 1 t3 of
                     (break_case_temp, t3a) \<Rightarrow>
                       snd (PopSystemTemp 1
                         (emit [if predicate_condition instr
                                then OpMovC (Dest_R break_case_temp 0b0001)
                                       (Src_R (system_temp_ps_pc_p0_a0 t3a) kZZZZ) (Src_LU 0)
                                       (Src_R (system_temp_loop_count t3a) kXXXX)
                                else OpMovC (Dest_R break_case_temp 0b0001)
                                       (Src_R (system_temp_ps_pc_p0_a0 t3a) kZZZZ)
                                       (Src_R (system_temp_loop_count t3a) kXXXX) (Src_LU 0),
                                OpIf False (Src_R break_case_temp kXXXX)] t3a)))
                else emit [OpIf False (Src_R (system_temp_loop_count t3) kXXXX)] t3);
          t5 = emit [OpMov (Dest_R (system_temp_loop_count t4) 0b0111)
                       (Src_R (system_temp_loop_count t4) 0b111001) False,
                     OpMov (Dest_R (system_temp_loop_count t4) 0b1000) (Src_LU 0) False,
                     OpMov (Dest_R (system_temp_aL t4) 0b0111)
                       (Src_R (system_temp_aL t4) 0b111001) False,
                     OpMov (Dest_R (system_temp_aL t4) 0b1000) (Src_LU 0) False,
                     OpElse] t4
      in case PushSystemTemp 0 1 t5 of
           (aL_add_temp, t6) \<Rightarrow>
             (let t7 = allocate_bool_loop_constants t6;
                  t8 = emit [OpIBFE (Dest_R aL_add_temp 0b0001) (Src_LU 8) (Src_LU 16)
                               (loop_constant_src (loop_end_constant_index instr) t7),
                             OpIAdd (Dest_R (system_temp_aL t7) 0b0001)
                               (Src_R (system_temp_aL t7) kXXXX) (Src_R aL_add_temp kXXXX)] t7;
                  t9 = snd (PopSystemTemp 1 t8)
              in emit [OpEndIf] (JumpToLabel (loop_body_address instr) t9)))"

definition ProcessJumpInstruction :: "ParsedJumpInstruction \<Rightarrow> translator \<Rightarrow> translator" where
  "ProcessJumpInstruction instr t =
     (let t1 = (if emit_source_map t
                then t\<lparr>instruction_disassembly_buffer := jump_disassembly instr\<rparr> else t);
          type = (case jump_type instr of
                    kConditional \<Rightarrow> kConditional
                  | kPredicated \<Rightarrow> kPredicated
                  | kUnconditional \<Rightarrow> kUnconditional);
          t2 = UpdateExecConditionalsAndEmitDisassembly type (jump_bool_constant_index instr)
                 (jump_condition instr) t1;
          t3 = CloseInstructionPredication t2
      in JumpToLabel (jump_target_address instr) t3)"

definition ProcessAllocInstruction :: "ParsedAllocInstruction \<Rightarrow> translator \<Rightarrow> translator" where
  "ProcessAllocInstruction instr t =
     (let t1 = emit_disassembly_of (alloc_disassembly instr) t
      in if alloc_type instr = Alloc_kMemory
         then t1\<lparr>memexport_alloc_current_count := memexport_alloc_current_count t1 + 1\<rparr>
         else t1)"

section \<open>Specification-side definitions\<close>

subsection \<open>A concrete translator\<close>

text \<open>
  A translator for a shader with eight general-purpose registers and four packed float
  constants, without dynamic register addressing; \<open>Reset\<close> puts it in the state in which
  every translation starts.
\<close>

definition example_translator :: translator where
  "example_translator =
     \<lparr>shader_code = [], instruction_disassembly_buffer = [], vendor_is_intel = False,
      edram_rov_used = False, emit_source_map = False, is_depth_only_pixel_shader = False,
      cbuffer_count = 0, cbuffer_index_system_constants = 0, cbuffer_index_float_constants = 0,
      cbuffer_index_bool_loop_constants = 0, cbuffer_index_fetch_constants = 0,
      cbuffer_index_descriptor_indices = 0, system_temp_count_current = 0,
      system_temp_count_max = 0, system_temp_position = 0,
      system_temp_point_size_edge_flag_kill_vertex = 1, system_temp_rov_params = 0,
      system_temp_depth_stencil = 0, system_temps_color = (\<lambda>i. 0),
      system_temps_memexport_address = (\<lambda>i. UINT32_MAX),
      system_temps_memexport_data = (\<lambda>i j. UINT32_MAX),
      system_temp_memexport_written = UINT32_MAX, system_temp_ps_pc_p0_a0 = 3,
      system_temp_aL = 4, system_temp_loop_count = 5, cf_exec_bool_constant = 0,
      cf_exec_bool_constant_condition = False, cf_exec_predicated = False,
      cf_exec_predicate_condition = False, cf_instruction_predicate_if_open = False,
      cf_instruction_predicate_condition = False, cf_exec_predicate_written = False,
      memexport_alloc_current_count = 0, dxbc_switch = True,
      uses_register_dynamic_addressing = False, register_count = 8,
      GetPackedFloatConstantIndex = (\<lambda>i. if i < 4 then i else UINT32_MAX),
      IsDepthStencilSystemTempUsed = False, kMaxMemExports = 16, kFloatConstants = 1,
      kBoolLoopConstants = 2, kVSDSOutInterpolators = 0\<rparr>"

subsection \<open>Sequences of allocator calls\<close>

text \<open>
  The offset that \<open>PushSystemTemp\<close> adds to the indices it returns; the final state of a
  run; a sequence that is balanced from nesting depth \<open>d\<close> (no pop releases more than
  the sequence itself has pushed, and everything pushed is released at the end); and a
  sequence during which the register count, started at \<open>n\<close>, stays below \<open>2 ^ 32\<close>.
\<close>

definition temp_base :: "translator \<Rightarrow> u32" where
  "temp_base t =
     (if \<not> is_depth_only_pixel_shader t \<and> \<not> uses_register_dynamic_addressing t
      then register_count t else 0)"

definition final :: "alloc_op list \<Rightarrow> translator \<Rightarrow> translator" where
  "final ops t = snd (snd (run_ops ops t))"

definition assertions_held :: "alloc_op list \<Rightarrow> translator \<Rightarrow> bool" where
  "assertions_held ops t = fst (snd (run_ops ops t))"

fun is_Push :: "alloc_op \<Rightarrow> bool" where
  "is_Push (Push zero_mask count) = True"
| "is_Push (Pop count) = False"

fun balanced_from :: "nat \<Rightarrow> alloc_op list \<Rightarrow> bool" where
  "balanced_from d [] = (d = 0)"
| "balanced_from d (Push zero_mask count # ops) = balanced_from (d + unat count) ops"
| "balanced_from d (Pop count # ops) = (unat count \<le> d \<and> balanced_from (d - unat count) ops)"

fun no_overflow :: "nat \<Rightarrow> alloc_op list \<Rightarrow> bool" where
  "no_overflow n [] = True"
| "no_overflow n (Push zero_mask count # ops) =
     (n + unat count < 2 ^ 32 \<and> no_overflow (n + unat count) ops)"
| "no_overflow n (Pop count # ops) = no_overflow (n - unat count) ops"

subsection \<open>Lanes of a result write\<close>

text \<open>
  The write loop of \<open>StoreResult\<close> stopped after \<open>n\<close> lanes; the mask whose bit \<open>i\<close> is
  set exactly for the lanes \<open>i < 4\<close> that satisfy a predicate; the used lanes of a result
  that select a swizzled component of the source, a constant, and the constant 1.
\<close>

definition masks_upto :: "InstructionResult \<Rightarrow> u32 \<Rightarrow> nat \<Rightarrow> u32 \<times> u32 \<times> u32" where
  "masks_upto result used n =
     foldl (\<lambda>(src_additional_swizzle, constant_mask, constant_1_mask) i.
              if used AND push_bit i 1 = 0
              then (src_additional_swizzle, constant_mask, constant_1_mask)
              else
                (let component = components result i
                 in if is_XYZW component
                    then (src_additional_swizzle OR
                            push_bit (i * 2) (SwizzleSource_value component - SwizzleSource_value kX),
                          constant_mask, constant_1_mask)
                    else (src_additional_swizzle, constant_mask OR push_bit i 1,
                          if component = k1 then constant_1_mask OR push_bit i 1
                          else constant_1_mask)))
           (0, 0, 0) [0..<n]"

definition lanes :: "(nat \<Rightarrow> bool) \<Rightarrow> u32" where
  "lanes P = horner_sum of_bool 2 (map P [0..<4])"

definition variable_lane :: "InstructionResult \<Rightarrow> nat \<Rightarrow> bool" where
  "variable_lane result i = (bit (GetUsedWriteMask result) i \<and> is_XYZW (components result i))"

definition constant_lane :: "InstructionResult \<Rightarrow> nat \<Rightarrow> bool" where
  "constant_lane result i = (bit (GetUsedWriteMask result) i \<and> \<not> is_XYZW (components result i))"

definition constant_1_lane :: "InstructionResult \<Rightarrow> nat \<Rightarrow> bool" where
  "constant_1_lane result i = (bit (GetUsedWriteMask result) i \<and> components result i = k1)"

definition literal_of :: "bool \<Rightarrow> u32" where
  "literal_of one = (if one then float_1 else float_0)"

fun is_OpMov :: "dxbc_op \<Rightarrow> bool" where
  "is_OpMov (OpMov dest src saturate) = True"
| "is_OpMov other = False"

subsection \<open>Memory-export writes\<close>

text \<open>
  The export writes that \<open>StoreResult\<close> validates away: no allocation made yet, more
  allocations than \<open>kMaxMemExports\<close>, no scratch register for the current allocation, or
  an address write where the caller does not allow one.
\<close>

definition invalid_memexport_write :: "InstructionResult \<Rightarrow> bool \<Rightarrow> translator \<Rightarrow> bool" where
  "invalid_memexport_write result can_store_memexport_address t =
     (storage_target result = Target_kExportAddress \<and>
        (\<not> can_store_memexport_address \<or>
         memexport_alloc_current_count t = 0 \<or>
         kMaxMemExports t < memexport_alloc_current_count t \<or>
         system_temps_memexport_address t (unat (memexport_alloc_current_count t - 1)) = UINT32_MAX) \<or>
      storage_target result = Target_kExportData \<and>
        (memexport_alloc_current_count t = 0 \<or>
         kMaxMemExports t < memexport_alloc_current_count t \<or>
         system_temps_memexport_data t (unat (memexport_alloc_current_count t - 1))
           (unat (result_storage_index result)) = UINT32_MAX))"

text \<open>
  The writes that \<open>StoreResult\<close> drops: a result with no target, and an export write
  that is validated away.
\<close>

definition dropped_write :: "InstructionResult \<Rightarrow> bool \<Rightarrow> translator \<Rightarrow> bool" where
  "dropped_write result can_store_memexport_address t =
     (storage_target result = Target_kNone \<or>
      invalid_memexport_write result can_store_memexport_address t)"

text \<open>
  A write of \<open>eM0.xyzw\<close> taking \<open>x\<close>, 1, \<open>z\<close>, 0, and a translator in which one export
  allocation has been made, with scratch registers for its address and for \<open>eM0\<close>.
\<close>

definition example_export_data :: InstructionResult where
  "example_export_data =
     \<lparr>storage_target = Target_kExportData, result_storage_index = 0,
      result_storage_addressing_mode = kStatic, is_clamped = False,
      components = (\<lambda>i. if i = 0 then kX else if i = 1 then k1 else if i = 2 then kZ else k0),
      GetUsedWriteMask = 0b1111\<rparr>"

definition example_memexport_translator :: translator where
  "example_memexport_translator =
     (Reset example_translator)
       \<lparr>system_temps_memexport_address := (\<lambda>i. if i = 0 then 20 else UINT32_MAX),
        system_temps_memexport_data := (\<lambda>i j. if i = 0 \<and> j = 0 then 21 else UINT32_MAX),
        system_temp_memexport_written := 19,
        memexport_alloc_current_count := 1\<rparr>"

subsection \<open>Operand loads\<close>

text \<open>
  Lane \<open>i\<close> of a swizzle; the operands that \<open>LoadOperand\<close> resolves to a register or a
  constant-buffer reference (the others get the literal 0.0); the swizzle loop stopped
  after \<open>n\<close> lanes; and the conditions under which a load allocates a scratch register
  or the float-constant buffer binding.
\<close>

definition swizzle_lane :: "u32 \<Rightarrow> nat \<Rightarrow> u32" where
  "swizzle_lane sw i = drop_bit (2 * i) sw AND 3"

definition resolves :: "InstructionOperand \<Rightarrow> translator \<Rightarrow> bool" where
  "resolves operand t =
     (storage_source operand = Source_kRegister \<or>
      storage_source operand = Source_kConstantFloat \<and>
        (storage_addressing_mode operand = kStatic \<longrightarrow>
           GetPackedFloatConstantIndex t (storage_index operand) \<noteq> UINT32_MAX))"

definition swizzle_upto :: "InstructionOperand \<Rightarrow> u32 \<Rightarrow> u32 \<Rightarrow> nat \<Rightarrow> u32" where
  "swizzle_upto operand needed_components first_needed_component n =
     foldl (\<lambda>sw i.
              sw OR push_bit (i * 2)
                (SwizzleSource_value
                   (GetComponent operand
                      (if needed_components AND push_bit i 1 \<noteq> 0 then of_nat i
                       else first_needed_component))
                 - SwizzleSource_value kX))
           0 [0..<n]"

definition first_float_constant_use :: "InstructionOperand \<Rightarrow> u32 \<Rightarrow> translator \<Rightarrow> bool" where
  "first_float_constant_use operand needed_components t =
     (needed_components \<noteq> 0 \<and> storage_source operand = Source_kConstantFloat \<and>
      cbuffer_index_float_constants t = kBindingIndexUnallocated)"

definition allocate_float_constants :: "translator \<Rightarrow> translator" where
  "allocate_float_constants t =
     t\<lparr>cbuffer_index_float_constants := cbuffer_count t, cbuffer_count := cbuffer_count t + 1\<rparr>"

definition loads_dynamic_register :: "InstructionOperand \<Rightarrow> u32 \<Rightarrow> translator \<Rightarrow> bool" where
  "loads_dynamic_register operand needed_components t =
     (needed_components \<noteq> 0 \<and> storage_source operand = Source_kRegister \<and>
      uses_register_dynamic_addressing t)"

definition example_register_operand :: InstructionOperand where
  "example_register_operand =
     \<lparr>storage_source = Source_kRegister, storage_index = 2, storage_addressing_mode = kStatic,
      is_negated = True, is_absolute_value = False, component_count = 4,
      GetComponent = (\<lambda>i. if i = 0 then kY else if i = 1 then kX else if i = 2 then kW else kZ)\<rparr>"

definition example_constant_operand :: InstructionOperand where
  "example_constant_operand =
     \<lparr>storage_source = Source_kConstantFloat, storage_index = 9, storage_addressing_mode = kStatic,
      is_negated = False, is_absolute_value = False, component_count = 4,
      GetComponent = (\<lambda>i. kW)\<rparr>"

definition example_mapped_constant_operand :: InstructionOperand where
  "example_mapped_constant_operand = example_constant_operand\<lparr>storage_index := 2\<rparr>"

definition example_dynamic_translator :: translator where
  "example_dynamic_translator = (Reset example_translator)\<lparr>uses_register_dynamic_addressing := True\<rparr>"


subsection \<open>Conditional blocks in the emitted code\<close>

text \<open>
  The conditional blocks that a stretch of code opens and closes, in order; the code
  that a step appended; a translator with no exec-level or instruction-level conditional
  open; the instructions that \<open>CloseExecConditionals\<close> emits; and two execs in a row,
  followed by the closing of the last one. Translating an instruction that writes the
  predicate register sets \<open>cf_exec_predicate_written\<close> (in the ALU translation, which is
  not among the source files): \<open>intervening True\<close> stands for such an instruction
  between the two execs.
\<close>

datatype block_event = BlockOpen bool | BlockClose

fun block_events :: "dxbc_op list \<Rightarrow> block_event list" where
  "block_events [] = []"
| "block_events (OpIf condition src # ops) = BlockOpen condition # block_events ops"
| "block_events (OpEndIf # ops) = BlockClose # block_events ops"
| "block_events (other # ops) = block_events ops"

definition emitted :: "translator \<Rightarrow> translator \<Rightarrow> dxbc_op list" where
  "emitted t t' = drop (length (shader_code t)) (shader_code t')"

definition no_conditional_open :: "translator \<Rightarrow> bool" where
  "no_conditional_open t =
     (cf_exec_bool_constant t = kCfExecBoolConstantNone \<and> \<not> cf_exec_predicated t \<and>
      \<not> cf_instruction_predicate_if_open t)"

definition mark_predicate_written :: "translator \<Rightarrow> translator" where
  "mark_predicate_written t = t\<lparr>cf_exec_predicate_written := True\<rparr>"

definition disassembly_comment :: "translator \<Rightarrow> dxbc_op list" where
  "disassembly_comment t =
     (if \<not> emit_source_map t then []
      else
        (let source = dropWhile (\<lambda>c. c = CHR '' '') (instruction_disassembly_buffer t);
             trimmed = rev (dropWhile (\<lambda>c. c = CHR 0x0A) (rev source))
         in if trimmed = [] then [] else [OpCustomData trimmed]))"

definition closing_ops :: "translator \<Rightarrow> dxbc_op list" where
  "closing_ops t =
     (if cf_instruction_predicate_if_open t then [OpEndIf] else []) @
     (if cf_exec_bool_constant t \<noteq> kCfExecBoolConstantNone \<or> cf_exec_predicated t
      then [OpEndIf] else [])"

definition bool_constant_test :: "u32 \<Rightarrow> translator \<Rightarrow> dxbc_op" where
  "bool_constant_test idx t =
     OpAnd (Dest_R (system_temp_count_current t + temp_base t) 0b0001)
       (Select (drop_bit 5 idx AND 3)
          (Src_CB (if cbuffer_index_bool_loop_constants t = kBindingIndexUnallocated
                   then cbuffer_count t else cbuffer_index_bool_loop_constants t)
             (kBoolLoopConstants t) (Index_static (drop_bit 7 idx))))
       (Src_LU (push_bit (unat (idx AND 31)) 1))"

definition bool_constant_if :: "bool \<Rightarrow> translator \<Rightarrow> dxbc_op" where
  "bool_constant_if c t = OpIf c (Src_R (system_temp_count_current t + temp_base t) kXXXX)"

definition predicate_if :: "bool \<Rightarrow> translator \<Rightarrow> dxbc_op" where
  "predicate_if c t = OpIf c (Src_R (system_temp_ps_pc_p0_a0 t) kZZZZ)"

definition closing_events :: "translator \<Rightarrow> block_event list" where
  "closing_events t =
     (if cf_instruction_predicate_if_open t then [BlockClose] else []) @
     (if cf_exec_bool_constant t \<noteq> kCfExecBoolConstantNone \<or> cf_exec_predicated t
      then [BlockClose] else [])"


definition extends :: "translator \<Rightarrow> translator \<Rightarrow> bool" where
  "extends t t' = (take (length (shader_code t)) (shader_code t') = shader_code t)"

definition intervening :: "bool \<Rightarrow> translator \<Rightarrow> translator" where
  "intervening predicate_written t = (if predicate_written then mark_predicate_written t else t)"

text \<open>
  The guard of an exec or of a jump: none, a boolean constant with the value it is
  expected to have, or the predicate register with the value it is expected to have;
  the conditional blocks that opening and closing a guard contributes. Two guards in a
  row are identical when they are the same guard and, for the predicate register, no
  instruction in between has written the predicate.
\<close>

datatype guard = Unguarded | BoolConstant u32 bool | Predicate bool

definition exec_guard :: "ExecType \<Rightarrow> u32 \<Rightarrow> bool \<Rightarrow> guard" where
  "exec_guard type bool_constant_index condition =
     (case type of
        kUnconditional \<Rightarrow> Unguarded
      | kConditional \<Rightarrow> BoolConstant bool_constant_index condition
      | kPredicated \<Rightarrow> Predicate condition)"

fun guard_opens :: "guard \<Rightarrow> block_event list" where
  "guard_opens Unguarded = []"
| "guard_opens (BoolConstant bool_constant_index condition) = [BlockOpen condition]"
| "guard_opens (Predicate condition) = [BlockOpen condition]"

fun guard_closes :: "guard \<Rightarrow> block_event list" where
  "guard_closes Unguarded = []"
| "guard_closes (BoolConstant bool_constant_index condition) = [BlockClose]"
| "guard_closes (Predicate condition) = [BlockClose]"

fun guards_identical :: "guard \<Rightarrow> bool \<Rightarrow> guard \<Rightarrow> bool" where
  "guards_identical (Predicate condition) predicate_written g =
     (g = Predicate condition \<and> \<not> predicate_written)"
| "guards_identical g predicate_written g' = (g = g')"

text \<open>
  The state between two execs in a row, the state after them, and what the second one
  emits.
\<close>

definition between_execs ::
    "ExecType \<Rightarrow> u32 \<Rightarrow> bool \<Rightarrow> (translator \<Rightarrow> translator) \<Rightarrow> translator \<Rightarrow> translator" where
  "between_execs type idx c between t =
     between (UpdateExecConditionalsAndEmitDisassembly type idx c t)"



text \<open>
  The exec-level conditional that is open in a state is that of a guard; at most one
  exec-level conditional is open at a time. The open conditional is kept for a guard when
  it is that of the guard and, for the predicate register, the predicate has not been
  written since it was opened. The instructions that close and that open the conditional
  of a guard, the comment that a jump emits for its disassembly, and the code of the jump
  itself.
\<close>

fun guard_is_open :: "guard \<Rightarrow> translator \<Rightarrow> bool" where
  "guard_is_open Unguarded t =
     (cf_exec_bool_constant t = kCfExecBoolConstantNone \<and> \<not> cf_exec_predicated t)"
| "guard_is_open (BoolConstant bool_constant_index condition) t =
     (cf_exec_bool_constant t = bool_constant_index \<and>
      cf_exec_bool_constant_condition t = condition \<and> \<not> cf_exec_predicated t)"
| "guard_is_open (Predicate condition) t =
     (cf_exec_bool_constant t = kCfExecBoolConstantNone \<and> cf_exec_predicated t \<and>
      cf_exec_predicate_condition t = condition)"

definition one_conditional :: "translator \<Rightarrow> bool" where
  "one_conditional t =
     (cf_exec_bool_constant t = kCfExecBoolConstantNone \<or> \<not> cf_exec_predicated t)"

fun guard_kept :: "guard \<Rightarrow> translator \<Rightarrow> bool" where
  "guard_kept (Predicate condition) t =
     (guard_is_open (Predicate condition) t \<and> \<not> cf_exec_predicate_written t)"
| "guard_kept g t = guard_is_open g t"

fun guard_closing :: "guard \<Rightarrow> dxbc_op list" where
  "guard_closing Unguarded = []"
| "guard_closing (BoolConstant bool_constant_index condition) = [OpEndIf]"
| "guard_closing (Predicate condition) = [OpEndIf]"

fun guard_opening :: "guard \<Rightarrow> translator \<Rightarrow> dxbc_op list" where
  "guard_opening Unguarded t = []"
| "guard_opening (BoolConstant bool_constant_index condition) t =
     [bool_constant_test bool_constant_index t, bool_constant_if condition t]"
| "guard_opening (Predicate condition) t = [predicate_if condition t]"

definition jump_guard :: "ParsedJumpInstruction \<Rightarrow> guard" where
  "jump_guard instr =
     exec_guard (jump_type instr) (jump_bool_constant_index instr) (jump_condition instr)"

definition jump_comment :: "ParsedJumpInstruction \<Rightarrow> translator \<Rightarrow> dxbc_op list" where
  "jump_comment instr t =
     disassembly_comment
       (if emit_source_map t then t\<lparr>instruction_disassembly_buffer := jump_disassembly instr\<rparr>
        else t)"

definition jump_code :: "u32 \<Rightarrow> translator \<Rightarrow> dxbc_op list" where
  "jump_code address t =
     [OpMov (Dest_R (system_temp_ps_pc_p0_a0 t) 0b0010) (Src_LU address) False, OpContinue]"

text \<open>
  A translator in which the conditional of an exec on boolean constant 5 is open, an
  unconditional jump, and a conditional jump on that constant.
\<close>

definition example_open_translator :: translator where
  "example_open_translator =
     UpdateExecConditionalsAndEmitDisassembly kConditional 5 True (Reset example_translator)"

definition example_other_jump :: ParsedJumpInstruction where
  "example_other_jump =
     \<lparr>jump_type = kUnconditional, jump_bool_constant_index = 0, jump_condition = False,
      jump_target_address = 9, jump_disassembly = []\<rparr>"

definition example_jump :: ParsedJumpInstruction where
  "example_jump =
     \<lparr>jump_type = kConditional, jump_bool_constant_index = 5, jump_condition = True,
      jump_target_address = 7, jump_disassembly = []\<rparr>"

definition keeps_conditionals :: "translator \<Rightarrow> translator \<Rightarrow> bool" where
  "keeps_conditionals t t' =
     (extends t t' \<and>
      cf_exec_bool_constant t' = cf_exec_bool_constant t \<and>
      cf_exec_bool_constant_condition t' = cf_exec_bool_constant_condition t \<and>
      cf_exec_predicated t' = cf_exec_predicated t \<and>
      cf_exec_predicate_condition t' = cf_exec_predicate_condition t \<and>
      cf_exec_predicate_written t' = cf_exec_predicate_written t \<and>
      cf_instruction_predicate_if_open t' = cf_instruction_predicate_if_open t)"

definition jump_merges :: "ParsedJumpInstruction \<Rightarrow> translator \<Rightarrow> bool" where
  "jump_merges instr t =
     exec_merge (jump_type instr) (jump_bool_constant_index instr) (jump_condition instr) t"

section \<open>The pipeline cache\<close>

subsection \<open>Pipeline requests\<close>

text \<open>
  Modelled from the spec: \<open>PipelineDescription\<close>, \<open>PipelineRuntimeDescription\<close> and
  \<open>Pipeline\<close> are declared in \<open>pipeline_cache.h\<close>, which is not among the source files.
  Of a description only what \<open>ConfigurePipeline\<close> reads is kept: the fields compared by
  \<open>memcmp\<close> (the two shader hashes, the host vertex shader type, and the remaining
  fixed-function state as its bytes) and the root signature of the runtime description.
  Shaders, root signatures and pipeline state objects are referred to by number; a
  \<open>Pipeline*\<close> is the position of the pipeline in \<open>pipelines\<close>, in insertion order, and a
  null pointer is \<open>None\<close>.
\<close>

record PipelineDescription =
  vertex_shader_hash :: u64
  pixel_shader_hash :: u64
  host_vertex_shader_type :: u32
  fixed_function_state :: "u8 list"

record PipelineRuntimeDescription =
  vertex_shader :: nat
  pixel_shader :: "nat option"
  root_signature :: nat
  description :: PipelineDescription

record Pipeline =
  state :: "nat option"
  pipeline_description :: PipelineRuntimeDescription

text \<open>
  What \<open>ConfigurePipeline\<close> and \<open>EnsureShadersTranslated\<close> consult outside themselves:
  the hash of a description (\<open>XXH64\<close> over its bytes), the register \<open>SQ_PROGRAM_CNTL\<close>
  and \<open>CreateD3D12Pipeline\<close>. \<open>TranslateShader\<close> drives the shader translator and the
  texture and sampler binding layout tables, and reads or writes no pipeline member; it
  is a parameter acting on that part \<open>'s\<close> of the cache, as is \<open>is_translated()\<close> of a
  shader. The members of the cache are those the two functions read or write; a file
  handle is kept as whether it is open.
\<close>

record 's pipeline_env =
  XXH64_description :: "PipelineDescription \<Rightarrow> u64"
  sq_program_cntl :: u32
  is_translated :: "nat \<Rightarrow> 's \<Rightarrow> bool"
  TranslateShader :: "nat \<Rightarrow> u32 \<Rightarrow> u32 option \<Rightarrow> 's \<Rightarrow> bool \<times> 's"
  CreateD3D12Pipeline :: "PipelineRuntimeDescription \<Rightarrow> nat option"

record 's PipelineCache =
  shader_state :: 's
  pipelines :: "(u64 \<times> Pipeline) list"
  current_pipeline :: "nat option"
  creation_threads_empty :: bool
  creation_queue :: "nat list"
  shader_storage_file :: bool
  shader_storage_file_flush_needed :: bool
  storage_write_shader_queue :: "(nat \<times> u32) list"
  pipeline_storage_file :: bool
  pipeline_storage_file_flush_needed :: bool
  storage_write_pipeline_queue :: "(u64 \<times> PipelineDescription) list"

text \<open>
  The two blocks of \<open>EnsureShadersTranslated\<close> that translate a shader and, when the
  shader storage file is open, queue it for writing.
\<close>

definition translate_and_store ::
    "'s pipeline_env \<Rightarrow> nat \<Rightarrow> u32 option \<Rightarrow> 's PipelineCache \<Rightarrow> bool \<times> 's PipelineCache" where
  "translate_and_store env shader host_type c =
     (case TranslateShader env shader (sq_program_cntl env) host_type (shader_state c) of
        (ok, s') \<Rightarrow>
          if \<not> ok then (False, c\<lparr>shader_state := s'\<rparr>)
          else if shader_storage_file c
          then (True, c\<lparr>shader_state := s', shader_storage_file_flush_needed := True,
                       storage_write_shader_queue :=
                         storage_write_shader_queue c @ [(shader, sq_program_cntl env)]\<rparr>)
          else (True, c\<lparr>shader_state := s'\<rparr>))"

definition EnsureShadersTranslated ::
    "'s pipeline_env \<Rightarrow> nat \<Rightarrow> nat option \<Rightarrow> u32 \<Rightarrow> 's PipelineCache \<Rightarrow> bool \<times> 's PipelineCache" where
  "EnsureShadersTranslated env vertex pixel host_type c =
     (case (if \<not> is_translated env vertex (shader_state c)
            then translate_and_store env vertex (Some host_type) c
            else (True, c)) of
        (vertex_ok, c1) \<Rightarrow>
          if \<not> vertex_ok then (False, c1)
          else
            (case pixel of
               None \<Rightarrow> (True, c1)
             | Some pixel_shader_ptr \<Rightarrow>
                 if \<not> is_translated env pixel_shader_ptr (shader_state c1)
                 then translate_and_store env pixel_shader_ptr None c1
                 else (True, c1)))"

text \<open>
  The search of \<open>ConfigurePipeline\<close> through the pipelines stored under a hash, and its
  comparison of the current pipeline with the requested description.
\<close>

fun find_pipeline :: "u64 \<Rightarrow> PipelineDescription \<Rightarrow> (u64 \<times> Pipeline) list \<Rightarrow> nat \<Rightarrow> nat option" where
  "find_pipeline hash d [] n = None"
| "find_pipeline hash d ((h, p) # ps) n =
     (if h = hash \<and> description (pipeline_description p) = d then Some n
      else find_pipeline hash d ps (Suc n))"

definition current_pipeline_matches :: "PipelineDescription \<Rightarrow> 's PipelineCache \<Rightarrow> bool" where
  "current_pipeline_matches d c =
     (case current_pipeline c of
        None \<Rightarrow> False
      | Some p \<Rightarrow>
          p < length (pipelines c) \<and>
          description (pipeline_description (snd (pipelines c ! p))) = d)"

text \<open>
  \<open>ConfigurePipeline\<close>. The result of \<open>GetCurrentStateDescription\<close>, which writes only
  its output parameter, is the argument \<open>state_description\<close> (\<open>None\<close> when it returns
  false). The two output parameters are passed in with what they hold before the call and
  returned with what they hold after it.
\<close>

definition ConfigurePipeline ::
    "'s pipeline_env \<Rightarrow> nat \<Rightarrow> nat option \<Rightarrow> PipelineRuntimeDescription option \<Rightarrow>
     nat option \<Rightarrow> nat option \<Rightarrow> 's PipelineCache \<Rightarrow>
     bool \<times> nat option \<times> nat option \<times> 's PipelineCache" where
  "ConfigurePipeline env vertex pixel state_description
       pipeline_handle_out root_signature_out c =
     (case state_description of
        None \<Rightarrow> (False, pipeline_handle_out, root_signature_out, c)
      | Some runtime_description \<Rightarrow>
          if current_pipeline_matches (description runtime_description) c
          then (True, current_pipeline c, Some (root_signature runtime_description), c)
          else
            (let hash = XXH64_description env (description runtime_description)
             in case find_pipeline hash (description runtime_description) (pipelines c) 0 of
                  Some found_pipeline \<Rightarrow>
                    (True, Some found_pipeline,
                     Some (root_signature
                             (pipeline_description (snd (pipelines c ! found_pipeline)))),
                     c\<lparr>current_pipeline := Some found_pipeline\<rparr>)
                | None \<Rightarrow>
                    (case EnsureShadersTranslated env vertex pixel
                            (host_vertex_shader_type (description runtime_description)) c of
                       (ok, c1) \<Rightarrow>
                         if \<not> ok then (False, pipeline_handle_out, root_signature_out, c1)
                         else
                           (let new_pipeline = length (pipelines c1);
                                c2 = c1\<lparr>pipelines := pipelines c1 @
                                        [(hash,
                                          \<lparr>state = (if creation_threads_empty c1
                                                     then CreateD3D12Pipeline env runtime_description
                                                     else None),
                                           pipeline_description = runtime_description\<rparr>)],
                                      creation_queue :=
                                        (if creation_threads_empty c1 then creation_queue c1
                                         else creation_queue c1 @ [new_pipeline])\<rparr>;
                                c3 = (if pipeline_storage_file c2
                                      then c2\<lparr>pipeline_storage_file_flush_needed := True,
                                              storage_write_pipeline_queue :=
                                                storage_write_pipeline_queue c2 @
                                                [(hash, description runtime_description)]\<rparr>
                                      else c2)
                            in (True, Some new_pipeline,
                                Some (root_signature runtime_description),
                                c3\<lparr>current_pipeline := Some new_pipeline\<rparr>)))))"

subsection \<open>The shader storage file\<close>

text \<open>
  Modelled from the spec: \<open>ShaderStoredHeader\<close> is declared in \<open>pipeline_cache.h\<close>, which
  is not among the source files; a log entry is a header of the stored hash, the dword
  count, the shader type, the host vertex shader type and the program control register,
  followed by the microcode. The size of the header, its decoding from bytes, its version
  number, the hash function \<open>XXH64\<close>, the number of logical processors and whether the
  translation of a queued shader succeeds are parameters. The microcode of a shader is
  kept as its bytes, and the shader dictionary as an association list in insertion order.
\<close>

record ShaderStoredHeader =
  ucode_data_hash :: u64
  ucode_dword_count :: u32
  stored_type :: u32
  stored_host_vertex_shader_type :: u32
  stored_sq_program_cntl :: u32

record D3D12Shader =
  shader_type :: u32
  shader_ucode_data_hash :: u64
  ucode_dwords :: "u8 list"

record storage_format =
  sizeof_ShaderStoredHeader :: nat
  header_of_bytes :: "u8 list \<Rightarrow> ShaderStoredHeader"
  XXH64 :: "u8 list \<Rightarrow> u64"
  kVersion :: u32
  logical_processor_count :: nat
  translation_succeeds :: "ShaderStoredHeader \<Rightarrow> D3D12Shader \<Rightarrow> bool"

record shader_storage =
  shaders :: "(u64 \<times> D3D12Shader) list"
  shaders_to_translate :: "(ShaderStoredHeader \<times> D3D12Shader) list"
  shader_storage_valid_bytes :: nat
  shaders_translated :: nat

text \<open>
  The file is its bytes and a read position. \<open>fread\<close> of one element of \<open>n\<close> bytes
  succeeds when \<open>n\<close> is not zero and that many bytes are left. The source does not read
  the microcode of an entry whose dword count is zero.
\<close>

definition fread :: "u8 list \<Rightarrow> nat \<Rightarrow> nat \<Rightarrow> u8 list option" where
  "fread file pos n =
     (if n \<noteq> 0 \<and> pos + n \<le> length file then Some (take n (drop pos file)) else None)"

definition fread_ucode :: "u8 list \<Rightarrow> nat \<Rightarrow> u32 \<Rightarrow> u8 list option" where
  "fread_ucode file pos dword_count =
     (if dword_count = 0 then Some [] else fread file pos (unat dword_count * 4))"

text \<open>
  The loop of \<open>InitializeShaderStorage\<close> over the entries of the file, from the read
  position \<open>pos\<close>. An entry whose stored hash is already in the dictionary is skipped by
  seeking over its microcode; \<open>xe::filesystem::Seek\<close>, which is not among the source files,
  wraps the seek of the C library, which succeeds also beyond the end of the file.
  Every iteration that continues consumes a header, which is not empty, so the loop ends.
\<close>

function replay_shaders :: "storage_format \<Rightarrow> u8 list \<Rightarrow> nat \<Rightarrow> shader_storage \<Rightarrow> shader_storage" where
  "replay_shaders fmt file pos st =
     (case fread file pos (sizeof_ShaderStoredHeader fmt) of
        None \<Rightarrow> st
      | Some header_bytes \<Rightarrow>
          if map_of (shaders st) (ucode_data_hash (header_of_bytes fmt header_bytes)) \<noteq> None
          then replay_shaders fmt file
                 (pos + sizeof_ShaderStoredHeader fmt +
                  unat (ucode_dword_count (header_of_bytes fmt header_bytes)) * 4)
                 (st\<lparr>shader_storage_valid_bytes :=
                      shader_storage_valid_bytes st + (sizeof_ShaderStoredHeader fmt +
                        unat (ucode_dword_count (header_of_bytes fmt header_bytes)) * 4)\<rparr>)
          else
            (case fread_ucode file (pos + sizeof_ShaderStoredHeader fmt)
                    (ucode_dword_count (header_of_bytes fmt header_bytes)) of
               None \<Rightarrow> st
             | Some ucode \<Rightarrow>
                 if ucode_data_hash (header_of_bytes fmt header_bytes) \<noteq> XXH64 fmt ucode then st
                 else replay_shaders fmt file
                        (pos + sizeof_ShaderStoredHeader fmt +
                         unat (ucode_dword_count (header_of_bytes fmt header_bytes)) * 4)
                        (st\<lparr>shaders := shaders st @
                              [(XXH64 fmt ucode,
                                \<lparr>shader_type = stored_type (header_of_bytes fmt header_bytes),
                                 shader_ucode_data_hash = XXH64 fmt ucode,
                                 ucode_dwords = ucode\<rparr>)],
                            shaders_to_translate := shaders_to_translate st @
                              [(header_of_bytes fmt header_bytes,
                                \<lparr>shader_type = stored_type (header_of_bytes fmt header_bytes),
                                 shader_ucode_data_hash = XXH64 fmt ucode,
                                 ucode_dwords = ucode\<rparr>)],
                            shader_storage_valid_bytes :=
                              shader_storage_valid_bytes st + (sizeof_ShaderStoredHeader fmt +
                                unat (ucode_dword_count (header_of_bytes fmt header_bytes)) * 4),
                            shaders_translated := shaders_translated st + 1\<rparr>)))"
  by pat_completeness auto
termination
  by (relation "measure (\<lambda>(fmt, file, pos, st). length file - pos)")
    (auto simp: fread_def split: if_splits)


declare replay_shaders.simps [simp del]

text \<open>The header of the file: the magic number and the byte-swapped version.\<close>

definition le_word :: "u8 list \<Rightarrow> 'a::len word" where
  "le_word bytes = foldr (\<lambda>byte w. ucast byte OR push_bit 8 w) bytes 0"

definition le32 :: "u8 list \<Rightarrow> u32" where
  "le32 bytes = le_word bytes"

definition byte_swap :: "u32 \<Rightarrow> u32" where
  "byte_swap w =
     push_bit 24 (w AND 0xFF) OR push_bit 8 (w AND 0xFF00) OR (drop_bit 8 w AND 0xFF00) OR
     drop_bit 24 w"

definition shader_storage_magic :: u32 where
  "shader_storage_magic = 0x48534558"

definition shader_storage_file_header_ok :: "storage_format \<Rightarrow> u8 list \<Rightarrow> bool" where
  "shader_storage_file_header_ok fmt file =
     (case fread file 0 8 of
        None \<Rightarrow> False
      | Some header \<Rightarrow>
          le32 (take 4 header) = shader_storage_magic \<and>
          byte_swap (le32 (drop 4 header)) = kVersion fmt)"

text \<open>
  Modelled from the spec: \<open>xe::filesystem::TruncateStdioFile\<close> is declared in
  \<open>filesystem.h\<close>, which is not among the source files; it sets the length of the file,
  keeping the bytes before that length.
\<close>

definition TruncateStdioFile :: "u8 list \<Rightarrow> nat \<Rightarrow> u8 list" where
  "TruncateStdioFile file n = take n file @ replicate (n - length file) 0"

definition new_file_header :: "storage_format \<Rightarrow> u8 list" where
  "new_file_header fmt =
     [ucast shader_storage_magic, ucast (drop_bit 8 shader_storage_magic),
      ucast (drop_bit 16 shader_storage_magic), ucast (drop_bit 24 shader_storage_magic),
      ucast (drop_bit 24 (kVersion fmt)), ucast (drop_bit 16 (kVersion fmt)),
      ucast (drop_bit 8 (kVersion fmt)), ucast (kVersion fmt)]"

text \<open>
  The shaders that the translation threads report as failed are erased from the
  dictionary once the threads have finished. The number of threads is at most the number
  of logical processors minus one, where 6 processors are assumed when the number cannot
  be determined (is reported as 0); threads exist when that limit is not zero and a
  shader was queued, and they translate every queued shader before they finish.
\<close>

definition translation_thread_limit :: "storage_format \<Rightarrow> nat" where
  "translation_thread_limit fmt =
     (if logical_processor_count fmt = 0 then 6 else logical_processor_count fmt) - 1"

definition failed_to_translate :: "storage_format \<Rightarrow> shader_storage \<Rightarrow> u64 list" where
  "failed_to_translate fmt st =
     (if shaders_to_translate st \<noteq> [] \<and> 0 < translation_thread_limit fmt
      then map (\<lambda>(header, failed). shader_ucode_data_hash failed)
             (filter (\<lambda>(header, queued). \<not> translation_succeeds fmt header queued)
                (shaders_to_translate st))
      else [])"

definition erase_failed :: "storage_format \<Rightarrow> shader_storage \<Rightarrow> (u64 \<times> D3D12Shader) list" where
  "erase_failed fmt st =
     filter (\<lambda>(hash, shader). hash \<notin> set (failed_to_translate fmt st)) (shaders st)"

text \<open>
  The shader storage part of \<open>InitializeShaderStorage\<close>, on an opened file, with the
  dictionary \<open>known\<close> of the shaders loaded before. It returns the dictionary, the file,
  and the state in which the loop ended.
\<close>

definition InitializeShaderStorage ::
    "storage_format \<Rightarrow> u8 list \<Rightarrow> (u64 \<times> D3D12Shader) list \<Rightarrow>
     (u64 \<times> D3D12Shader) list \<times> u8 list \<times> shader_storage" where
  "InitializeShaderStorage fmt file known =
     (let st = \<lparr>shaders = known, shaders_to_translate = [], shader_storage_valid_bytes = 8,
                shaders_translated = 0\<rparr>
      in if shader_storage_file_header_ok fmt file
         then (let loaded = replay_shaders fmt file 8 st
               in (erase_failed fmt loaded,
                   TruncateStdioFile file (shader_storage_valid_bytes loaded), loaded))
         else (known, new_file_header fmt, st))"

section \<open>Specification-side definitions of the pipeline cache\<close>

subsection \<open>Failing pipeline requests\<close>

text \<open>
  The pipeline of a description is cached when the current pipeline has that
  description, or when a pipeline stored under the hash of the description has it.
\<close>

definition pipeline_cached :: "'s pipeline_env \<Rightarrow> PipelineDescription \<Rightarrow> 's PipelineCache \<Rightarrow> bool" where
  "pipeline_cached env d c =
     ((case current_pipeline c of
         None \<Rightarrow> False
       | Some p \<Rightarrow>
           p < length (pipelines c) \<and>
           description (pipeline_description (snd (pipelines c ! p))) = d) \<or>
      list_ex (\<lambda>entry. fst entry = XXH64_description env d \<and>
                        description (pipeline_description (snd entry)) = d)
        (pipelines c))"

text \<open>
  The translation of the vertex shader fails when the shader is not translated yet and
  \<open>TranslateShader\<close> returns false for it. The translation of the pixel shader fails
  when there is a pixel shader that, once the vertex shader has been dealt with, is not
  translated yet and for which \<open>TranslateShader\<close> returns false.
\<close>

definition vertex_translation_fails :: "'s pipeline_env \<Rightarrow> nat \<Rightarrow> u32 \<Rightarrow> 's PipelineCache \<Rightarrow> bool" where
  "vertex_translation_fails env vertex host_type c =
     (\<not> is_translated env vertex (shader_state c) \<and>
      \<not> fst (TranslateShader env vertex (sq_program_cntl env) (Some host_type) (shader_state c)))"

definition shader_state_after_vertex :: "'s pipeline_env \<Rightarrow> nat \<Rightarrow> u32 \<Rightarrow> 's PipelineCache \<Rightarrow> 's" where
  "shader_state_after_vertex env vertex host_type c =
     (if is_translated env vertex (shader_state c) then shader_state c
      else snd (TranslateShader env vertex (sq_program_cntl env) (Some host_type) (shader_state c)))"

definition pixel_translation_fails ::
    "'s pipeline_env \<Rightarrow> nat \<Rightarrow> nat option \<Rightarrow> u32 \<Rightarrow> 's PipelineCache \<Rightarrow> bool" where
  "pixel_translation_fails env vertex pixel host_type c =
     (case pixel of
        None \<Rightarrow> False
      | Some pixel_shader_ptr \<Rightarrow>
          \<not> is_translated env pixel_shader_ptr (shader_state_after_vertex env vertex host_type c) \<and>
          \<not> fst (TranslateShader env pixel_shader_ptr (sq_program_cntl env) None
                   (shader_state_after_vertex env vertex host_type c)))"

text \<open>
  A request fails when the state description cannot be built, or when the pipeline is
  not cached and the translation of the vertex shader or of the pixel shader fails.
\<close>

definition request_fails ::
    "'s pipeline_env \<Rightarrow> nat \<Rightarrow> nat option \<Rightarrow> PipelineRuntimeDescription option \<Rightarrow> 's PipelineCache \<Rightarrow> bool" where
  "request_fails env vertex pixel state_description c =
     (case state_description of
        None \<Rightarrow> True
      | Some runtime_description \<Rightarrow>
          \<not> pipeline_cached env (description runtime_description) c \<and>
          (vertex_translation_fails env vertex
             (host_vertex_shader_type (description runtime_description)) c \<or>
           pixel_translation_fails env vertex pixel
             (host_vertex_shader_type (description runtime_description)) c))"

text \<open>
  A cache with no pipeline, and a translation that fails for shader 2 and succeeds for
  every other shader.
\<close>

definition example_env :: "nat list pipeline_env" where
  "example_env =
     \<lparr>XXH64_description = (\<lambda>d. vertex_shader_hash d + pixel_shader_hash d),
      sq_program_cntl = 0,
      is_translated = (\<lambda>shader translated. shader \<in> set translated),
      TranslateShader = (\<lambda>shader cntl host_type translated.
                           if shader = 2 then (False, translated) else (True, shader # translated)),
      CreateD3D12Pipeline = (\<lambda>runtime_description. Some 0)\<rparr>"

definition example_cache :: "nat list PipelineCache" where
  "example_cache =
     \<lparr>shader_state = [], pipelines = [], current_pipeline = None,
      creation_threads_empty = True, creation_queue = [],
      shader_storage_file = True, shader_storage_file_flush_needed = False,
      storage_write_shader_queue = [],
      pipeline_storage_file = True, pipeline_storage_file_flush_needed = False,
      storage_write_pipeline_queue = []\<rparr>"

definition example_runtime_description :: PipelineRuntimeDescription where
  "example_runtime_description =
     \<lparr>vertex_shader = 1, pixel_shader = Some 2, root_signature = 7,
      description = \<lparr>vertex_shader_hash = 0x11, pixel_shader_hash = 0x22,
                      host_vertex_shader_type = 0, fixed_function_state = []\<rparr>\<rparr>"

subsection \<open>Entries of the shader log\<close>

text \<open>
  An entry as the bytes of the file: its header, its stored hash and its microcode. An
  entry is complete when it has as many microcode bytes as its header says. The entries
  that the loop accepts, given the hashes already in the dictionary: a complete entry
  whose stored hash is in the dictionary, or whose stored hash is the hash of its
  microcode.
\<close>

definition record_header :: "storage_format \<Rightarrow> u8 list \<Rightarrow> ShaderStoredHeader" where
  "record_header fmt r = header_of_bytes fmt (take (sizeof_ShaderStoredHeader fmt) r)"

definition record_hash :: "storage_format \<Rightarrow> u8 list \<Rightarrow> u64" where
  "record_hash fmt r = ucode_data_hash (record_header fmt r)"

definition record_ucode :: "storage_format \<Rightarrow> u8 list \<Rightarrow> u8 list" where
  "record_ucode fmt r = drop (sizeof_ShaderStoredHeader fmt) r"

definition record_complete :: "storage_format \<Rightarrow> u8 list \<Rightarrow> bool" where
  "record_complete fmt r =
     (sizeof_ShaderStoredHeader fmt \<noteq> 0 \<and>
      length r = sizeof_ShaderStoredHeader fmt + unat (ucode_dword_count (record_header fmt r)) * 4)"

fun records_accepted :: "storage_format \<Rightarrow> u64 list \<Rightarrow> u8 list list \<Rightarrow> bool" where
  "records_accepted fmt known_hashes [] = True"
| "records_accepted fmt known_hashes (r # rs) =
     (record_complete fmt r \<and>
      (record_hash fmt r \<in> set known_hashes \<or>
       record_hash fmt r = XXH64 fmt (record_ucode fmt r)) \<and>
      records_accepted fmt (record_hash fmt r # known_hashes) rs)"

text \<open>
  The bytes after the accepted entries stop the loop: they are too few for a header, or
  they begin with a header whose hash is not in the dictionary and whose microcode is
  cut short or does not have the stored hash.
\<close>

definition tail_stops :: "storage_format \<Rightarrow> u64 list \<Rightarrow> u8 list \<Rightarrow> bool" where
  "tail_stops fmt known_hashes tail =
     (case fread tail 0 (sizeof_ShaderStoredHeader fmt) of
        None \<Rightarrow> True
      | Some header_bytes \<Rightarrow>
          ucode_data_hash (header_of_bytes fmt header_bytes) \<notin> set known_hashes \<and>
          (case fread_ucode tail (sizeof_ShaderStoredHeader fmt)
                  (ucode_dword_count (header_of_bytes fmt header_bytes)) of
             None \<Rightarrow> True
           | Some ucode \<Rightarrow> ucode_data_hash (header_of_bytes fmt header_bytes) \<noteq> XXH64 fmt ucode))"

text \<open>What accepting one entry does to the loop state.\<close>

definition accept :: "storage_format \<Rightarrow> shader_storage \<Rightarrow> u8 list \<Rightarrow> shader_storage" where
  "accept fmt st r =
     (if map_of (shaders st) (record_hash fmt r) \<noteq> None
      then st\<lparr>shader_storage_valid_bytes := shader_storage_valid_bytes st + length r\<rparr>
      else st\<lparr>shaders := shaders st @
                  [(record_hash fmt r,
                    \<lparr>shader_type = stored_type (record_header fmt r),
                     shader_ucode_data_hash = record_hash fmt r,
                     ucode_dwords = record_ucode fmt r\<rparr>)],
              shaders_to_translate := shaders_to_translate st @
                  [(record_header fmt r,
                    \<lparr>shader_type = stored_type (record_header fmt r),
                     shader_ucode_data_hash = record_hash fmt r,
                     ucode_dwords = record_ucode fmt r\<rparr>)],
              shader_storage_valid_bytes := shader_storage_valid_bytes st + length r,
              shaders_translated := shaders_translated st + 1\<rparr>)"

text \<open>
  The shader that an entry holds, and its dictionary entry. The accepted entries that
  are loaded are those whose stored hash is not in the dictionary when they are read.
  The translation of a loaded entry fails when the translation of its shader, with the
  parameters stored in its header, fails.
\<close>

definition entry_shader :: "storage_format \<Rightarrow> u8 list \<Rightarrow> D3D12Shader" where
  "entry_shader fmt r =
     \<lparr>shader_type = stored_type (record_header fmt r),
      shader_ucode_data_hash = record_hash fmt r,
      ucode_dwords = record_ucode fmt r\<rparr>"

definition loaded_entry :: "storage_format \<Rightarrow> u8 list \<Rightarrow> u64 \<times> D3D12Shader" where
  "loaded_entry fmt r = (record_hash fmt r, entry_shader fmt r)"

fun new_records :: "storage_format \<Rightarrow> u64 list \<Rightarrow> u8 list list \<Rightarrow> u8 list list" where
  "new_records fmt known_hashes [] = []"
| "new_records fmt known_hashes (r # rs) =
     (if record_hash fmt r \<in> set known_hashes then new_records fmt known_hashes rs
      else r # new_records fmt (known_hashes @ [record_hash fmt r]) rs)"

definition translation_fails :: "storage_format \<Rightarrow> u8 list \<Rightarrow> bool" where
  "translation_fails fmt r =
     (\<not> translation_succeeds fmt (record_header fmt r) (entry_shader fmt r))"

text \<open>An entry of the dictionary whose key is the hash of its microcode.\<close>

definition hash_verified :: "storage_format \<Rightarrow> u64 \<times> D3D12Shader \<Rightarrow> bool" where
  "hash_verified fmt entry =
     (fst entry = XXH64 fmt (ucode_dwords (snd entry)) \<and>
      shader_ucode_data_hash (snd entry) = fst entry)"

text \<open>
  A storage format with a 16-byte header (the hash, then the dword count in the low 16
  bits of a dword shared with the two types, then the program control register, all
  little-endian), and a hash function that agrees with \<open>XXH64\<close> (seed 0) on the empty
  input and on four zero bytes; the number of logical processors is not known, and the
  translation of a shader with no microcode fails. The entries: a shader with no
  microcode, a shader of one zero dword, and an entry of one zero dword that carries the
  hash of the empty shader.
\<close>

definition example_header_of_bytes :: "u8 list \<Rightarrow> ShaderStoredHeader" where
  "example_header_of_bytes bytes =
     \<lparr>ucode_data_hash = le_word (take 8 bytes),
      ucode_dword_count = le32 (take 4 (drop 8 bytes)) AND 0xFFFF,
      stored_type = drop_bit 16 (le32 (take 4 (drop 8 bytes))) AND 1,
      stored_host_vertex_shader_type = drop_bit 17 (le32 (take 4 (drop 8 bytes))) AND 7,
      stored_sq_program_cntl = le32 (take 4 (drop 12 bytes))\<rparr>"

definition example_hash :: "u8 list \<Rightarrow> u64" where
  "example_hash bytes =
     (if bytes = [] then 0xEF46DB3751D8E999
      else if bytes = [0, 0, 0, 0] then 0x3AEFA6FD5CF2DEB4 else 0)"

definition example_format :: storage_format where
  "example_format =
     \<lparr>sizeof_ShaderStoredHeader = 16, header_of_bytes = example_header_of_bytes,
      XXH64 = example_hash, kVersion = 0x20201129, logical_processor_count = 0,
      translation_succeeds = (\<lambda>header shader. ucode_dwords shader \<noteq> [])\<rparr>"

definition example_file_header :: "u8 list" where
  "example_file_header = [0x58, 0x45, 0x53, 0x48, 0x20, 0x20, 0x11, 0x29]"

definition example_empty_record :: "u8 list" where
  "example_empty_record =
     [0x99, 0xE9, 0xD8, 0x51, 0x37, 0xDB, 0x46, 0xEF, 0, 0, 0, 0, 0, 0, 0, 0]"

definition example_record :: "u8 list" where
  "example_record =
     [0xB4, 0xDE, 0xF2, 0x5C, 0xFD, 0xA6, 0xEF, 0x3A, 1, 0, 0, 0, 0, 0, 0, 0, 0, 0, 0, 0]"

definition example_stale_record :: "u8 list" where
  "example_stale_record =
     [0x99, 0xE9, 0xD8, 0x51, 0x37, 0xDB, 0x46, 0xEF, 1, 0, 0, 0, 0, 0, 0, 0, 0, 0, 0, 0]"

definition example_partial_tail :: "u8 list" where
  "example_partial_tail = [0x99, 0xE9, 0xD8]"


section \<open>The system-register allocator is a stack\<close>

lemma Push_current:
  "system_temp_count_current (snd (PushSystemTemp z c t)) = system_temp_count_current t + c"
  by (simp add: PushSystemTemp_def Let_def emit_def)

lemma Push_max:
  "system_temp_count_max (snd (PushSystemTemp z c t)) =
     max (system_temp_count_max t) (system_temp_count_current t + c)"
  by (simp add: PushSystemTemp_def Let_def emit_def)

lemma Push_index: "fst (PushSystemTemp z c t) = system_temp_count_current t + temp_base t"
  by (simp add: PushSystemTemp_def Let_def emit_def temp_base_def)

lemma Push_base: "temp_base (snd (PushSystemTemp z c t)) = temp_base t"
  by (simp add: PushSystemTemp_def Let_def emit_def temp_base_def)

lemma Pop_current:
  "system_temp_count_current (snd (PopSystemTemp c t)) =
     system_temp_count_current t - min c (system_temp_count_current t)"
  by (simp add: PopSystemTemp_def)

lemma Pop_max: "system_temp_count_max (snd (PopSystemTemp c t)) = system_temp_count_max t"
  by (simp add: PopSystemTemp_def)

lemma Pop_ok: "fst (PopSystemTemp c t) = (c \<le> system_temp_count_current t)"
  by (simp add: PopSystemTemp_def)

lemma Pop_unat:
  "unat (system_temp_count_current (snd (PopSystemTemp c t))) =
     unat (system_temp_count_current t) - unat c"
  by (auto simp: Pop_current min_def word_le_nat_alt unat_sub)

lemma Pop_clamps:
  "system_temp_count_current (snd (PopSystemTemp c t)) =
     (if c \<le> system_temp_count_current t then system_temp_count_current t - c else 0)"
  by (auto simp: Pop_current min_def)

lemma run_ops_Push:
  "run_ops (Push z c # ops) t =
     (fst (PushSystemTemp z c t) # fst (run_ops ops (snd (PushSystemTemp z c t))),
      fst (snd (run_ops ops (snd (PushSystemTemp z c t)))),
      snd (snd (run_ops ops (snd (PushSystemTemp z c t)))))"
  by (simp split: prod.splits)

lemma run_ops_Pop:
  "run_ops (Pop c # ops) t =
     (fst (run_ops ops (snd (PopSystemTemp c t))),
      fst (PopSystemTemp c t) \<and> fst (snd (run_ops ops (snd (PopSystemTemp c t)))),
      snd (snd (run_ops ops (snd (PopSystemTemp c t)))))"
  by (simp split: prod.splits)

lemma max_mono_run: "system_temp_count_max t \<le> system_temp_count_max (final ops t)"
proof (induction ops arbitrary: t)
  case Nil
  then show ?case by (simp add: final_def)
next
  case (Cons a ops)
  show ?case
  proof (cases a)
    case (Push z c)
    have "system_temp_count_max t \<le> system_temp_count_max (snd (PushSystemTemp z c t))"
      by (simp add: Push_max)
    also have "\<dots> \<le> system_temp_count_max (final ops (snd (PushSystemTemp z c t)))"
      by (rule Cons.IH)
    finally show ?thesis using Push by (simp add: final_def run_ops_Push del: run_ops.simps)
  next
    case (Pop c)
    have "system_temp_count_max t = system_temp_count_max (snd (PopSystemTemp c t))"
      by (simp add: Pop_max)
    also have "\<dots> \<le> system_temp_count_max (final ops (snd (PopSystemTemp c t)))"
      by (rule Cons.IH)
    finally show ?thesis using Pop by (simp add: final_def run_ops_Pop del: run_ops.simps)
  qed
qed

lemma balanced_run:
  "balanced_from d ops \<Longrightarrow> no_overflow (unat (system_temp_count_current t)) ops \<Longrightarrow>
   d \<le> unat (system_temp_count_current t) \<Longrightarrow>
   unat (system_temp_count_current (final ops t)) = unat (system_temp_count_current t) - d \<and>
   fst (snd (run_ops ops t))"
proof (induction ops arbitrary: t d)
  case Nil
  then show ?case by (simp add: final_def)
next
  case (Cons a ops)
  show ?case
  proof (cases a)
    case (Push z c)
    let ?t = "snd (PushSystemTemp z c t)"
    from Cons.prems Push have b: "balanced_from (d + unat c) ops"
      and n: "unat (system_temp_count_current t) + unat c < 2 ^ 32"
      and n': "no_overflow (unat (system_temp_count_current t) + unat c) ops" by auto
    have u: "unat (system_temp_count_current ?t) = unat (system_temp_count_current t) + unat c"
      using n by (simp add: Push_current unat_word_ariths)
    have "unat (system_temp_count_current (final ops ?t)) =
            unat (system_temp_count_current ?t) - (d + unat c) \<and> fst (snd (run_ops ops ?t))"
      using b n' Cons.prems(3) by (intro Cons.IH) (simp_all add: u)
    then show ?thesis using Push u by (simp add: final_def run_ops_Push del: run_ops.simps)
  next
    case (Pop c)
    let ?t = "snd (PopSystemTemp c t)"
    from Cons.prems Pop have b: "balanced_from (d - unat c) ops" and le: "unat c \<le> d"
      and n': "no_overflow (unat (system_temp_count_current t) - unat c) ops" by auto
    have u: "unat (system_temp_count_current ?t) = unat (system_temp_count_current t) - unat c"
      by (rule Pop_unat)
    have ok: "fst (PopSystemTemp c t)"
      using le Cons.prems(3) by (simp add: Pop_ok word_le_nat_alt)
    have "unat (system_temp_count_current (final ops ?t)) =
            unat (system_temp_count_current ?t) - (d - unat c) \<and> fst (snd (run_ops ops ?t))"
      using b n' Cons.prems(3) le by (intro Cons.IH) (simp_all add: u)
    then show ?thesis using Pop u ok le Cons.prems(3)
      by (simp add: final_def run_ops_Pop del: run_ops.simps)
  qed
qed

lemma no_overflow_mono: "no_overflow m ops \<Longrightarrow> n \<le> m \<Longrightarrow> no_overflow n ops"
proof (induction ops arbitrary: m n)
  case Nil
  then show ?case by simp
next
  case (Cons a ops)
  show ?case
  proof (cases a)
    case (Push z c)
    with Cons.prems have "m + unat c < 2 ^ 32" and "no_overflow (m + unat c) ops" by auto
    with Cons.prems(2) Cons.IH [of "m + unat c" "n + unat c"] Push show ?thesis by simp
  next
    case (Pop c)
    with Cons.prems have "no_overflow (m - unat c) ops" by auto
    with Cons.prems(2) Cons.IH [of "m - unat c" "n - unat c"] Pop show ?thesis by simp
  qed
qed

lemma pushes_sorted:
  "list_all is_Push ops \<Longrightarrow>
   no_overflow (unat (temp_base t) + unat (system_temp_count_current t)) ops \<Longrightarrow>
   sorted (fst (run_ops ops t)) \<and>
   (\<forall>r \<in> set (fst (run_ops ops t)). system_temp_count_current t + temp_base t \<le> r)"
proof (induction ops arbitrary: t)
  case Nil
  then show ?case by simp
next
  case (Cons a ops)
  from Cons.prems(1) obtain z c where a: "a = Push z c" by (cases a) auto
  let ?t = "snd (PushSystemTemp z c t)"
  from Cons.prems a have all: "list_all is_Push ops"
    and n: "unat (temp_base t) + unat (system_temp_count_current t) + unat c < 2 ^ 32"
    and n': "no_overflow (unat (temp_base t) + unat (system_temp_count_current t) + unat c) ops"
    by auto
  have u: "unat (system_temp_count_current ?t) = unat (system_temp_count_current t) + unat c"
    using n by (simp add: Push_current unat_word_ariths)
  have IH: "sorted (fst (run_ops ops ?t)) \<and>
      (\<forall>r \<in> set (fst (run_ops ops ?t)). system_temp_count_current ?t + temp_base ?t \<le> r)"
    using all n' by (intro Cons.IH) (simp_all add: u Push_base add.commute add.left_commute)
  have le: "system_temp_count_current t + temp_base t \<le>
            system_temp_count_current ?t + temp_base ?t"
    using n by (simp add: Push_base Push_current word_le_nat_alt unat_word_ariths)
  show ?case using IH le a
    by (auto simp add: run_ops_Push Push_index simp del: run_ops.simps)
qed

text \<open>
  C3, as the code has it. The indices returned by successive pushes are non-decreasing
  as long as the register count, offset by the guest register count where
  \<open>PushSystemTemp\<close> adds it, stays within 32 bits. After a balanced sequence of pushes
  and pops during which the register count stays within 32 bits, the current register
  count is what it was before, and no pop tripped the assertion. For every sequence the
  high-water mark does not decrease. A pop of more registers than are allocated fails
  the assertion, and the count it leaves is clamped at zero: it does not wrap around.
\<close>

theorem system_temp_stack_discipline:
  "(list_all is_Push ops \<and>
    no_overflow (unat (temp_base t) + unat (system_temp_count_current t)) ops \<longrightarrow>
      sorted (fst (run_ops ops t))) \<and>
   (balanced_from 0 ops \<and> no_overflow (unat (system_temp_count_current t)) ops \<longrightarrow>
      system_temp_count_current (final ops t) = system_temp_count_current t \<and>
      assertions_held ops t) \<and>
   system_temp_count_max t \<le> system_temp_count_max (final ops t) \<and>
   fst (PopSystemTemp count t) = (count \<le> system_temp_count_current t) \<and>
   system_temp_count_current (snd (PopSystemTemp count t)) =
     (if count \<le> system_temp_count_current t then system_temp_count_current t - count else 0)"
proof -
  have "balanced_from 0 ops \<and> no_overflow (unat (system_temp_count_current t)) ops \<longrightarrow>
          system_temp_count_current (final ops t) = system_temp_count_current t \<and>
          assertions_held ops t"
    using balanced_run [of 0 ops t] by (simp add: assertions_held_def word_unat_eq_iff)
  moreover have "list_all is_Push ops \<and>
      no_overflow (unat (temp_base t) + unat (system_temp_count_current t)) ops \<longrightarrow>
      sorted (fst (run_ops ops t))"
    using pushes_sorted [of ops t] by simp
  ultimately show ?thesis
    using max_mono_run [of t ops] Pop_ok [of count t] Pop_clamps [of count t] by blast
qed

theorem system_temp_stack_discipline_witness:
  "balanced_from 0 [Push 0 1, Push 15 2, Pop 2, Pop 1] \<and>
   no_overflow (unat (system_temp_count_current (Reset example_translator)))
     [Push 0 1, Push 15 2, Pop 2, Pop 1] \<and>
   system_temp_count_current (final [Push 0 1, Push 15 2, Pop 2, Pop 1] (Reset example_translator)) = 0 \<and>
   assertions_held [Push 0 1, Push 15 2, Pop 2, Pop 1] (Reset example_translator) \<and>
   balanced_from 0 [Push 0 0xFFFFFFFA, Pop 0xFFFFFFFA] \<and>
   no_overflow (unat (system_temp_count_current (Reset example_translator)))
     [Push 0 0xFFFFFFFA, Pop 0xFFFFFFFA] \<and>
   system_temp_count_current (final [Push 0 0xFFFFFFFA, Pop 0xFFFFFFFA] (Reset example_translator)) = 0 \<and>
   list_all is_Push [Push 0 1, Push 15 2, Push 0 1] \<and>
   no_overflow (unat (temp_base (Reset example_translator)) +
                unat (system_temp_count_current (Reset example_translator)))
     [Push 0 1, Push 15 2, Push 0 1] \<and>
   fst (run_ops [Push 0 1, Push 15 2, Push 0 1] (Reset example_translator)) = [8, 9, 11] \<and>
   sorted (fst (run_ops [Push 0 1, Push 15 2, Push 0 1] (Reset example_translator)))"
proof -
  have c: "system_temp_count_current (Reset example_translator) = 0"
    by (simp add: Reset_def)
  have b: "temp_base (Reset example_translator) = 8"
    by (simp add: temp_base_def Reset_def example_translator_def)
  have n1: "no_overflow (unat (system_temp_count_current (Reset example_translator)))
     [Push 0 1, Push 15 2, Pop 2, Pop 1]"
    by (simp add: c)
  have n2: "no_overflow (unat (system_temp_count_current (Reset example_translator)))
     [Push 0 0xFFFFFFFA, Pop 0xFFFFFFFA]"
    by (simp add: c)
  have n3: "no_overflow (unat (temp_base (Reset example_translator)) +
                unat (system_temp_count_current (Reset example_translator)))
     [Push 0 1, Push 15 2, Push 0 1]"
    by (simp add: c b)
  have r: "fst (run_ops [Push 0 1, Push 15 2, Push 0 1] (Reset example_translator)) = [8, 9, 11]"
    by (simp add: PushSystemTemp_def Let_def emit_def Reset_def example_translator_def)
  show ?thesis
    using system_temp_stack_discipline [of "[Push 0 1, Push 15 2, Pop 2, Pop 1]"
        "Reset example_translator" 0]
      system_temp_stack_discipline [of "[Push 0 0xFFFFFFFA, Pop 0xFFFFFFFA]"
        "Reset example_translator" 0]
      system_temp_stack_discipline [of "[Push 0 1, Push 15 2, Push 0 1]"
        "Reset example_translator" 0]
      n1 n2 n3 c r
    by simp
qed

text \<open>
  The claim as stated, for every sequence, fails where the 32-bit count wraps around:
  after a push of \<open>0xFFFFFFFF\<close> registers and one more, the next push returns a smaller
  index; and from a count of 5, pushing \<open>0xFFFFFFFF\<close> registers and popping them again
  leaves the count at 0.
\<close>

theorem system_temp_stack_overflow_counterexample:
  "\<not> sorted (fst (run_ops [Push 0 0xFFFFFFFF, Push 0 1, Push 0 1] (Reset example_translator))) \<and>
   balanced_from 0 [Push 0 0xFFFFFFFF, Pop 0xFFFFFFFF] \<and>
   system_temp_count_current (snd (PushSystemTemp 0 5 (Reset example_translator))) = 5 \<and>
   system_temp_count_current
     (final [Push 0 0xFFFFFFFF, Pop 0xFFFFFFFF]
        (snd (PushSystemTemp 0 5 (Reset example_translator)))) = 0"
  by (simp add: PushSystemTemp_def PopSystemTemp_def final_def Let_def emit_def Reset_def
      example_translator_def)

section \<open>Result writes and memory exports\<close>

lemma bit_exp_u32_iff: "bit (2 ^ n :: u32) i = (i = n \<and> n < 32)"
  by (auto simp: bit_simps)

lemma masks_upto_bits:
  "n \<le> 32 \<Longrightarrow>
   bit (fst (snd (masks_upto result used n))) i =
     (i < n \<and> bit used i \<and> \<not> is_XYZW (components result i)) \<and>
   bit (snd (snd (masks_upto result used n))) i =
     (i < n \<and> bit used i \<and> components result i = k1)"
proof (induction n)
  case 0
  then show ?case by (simp add: masks_upto_def)
next
  case (Suc n)
  then have IH: "bit (fst (snd (masks_upto result used n))) i =
     (i < n \<and> bit used i \<and> \<not> is_XYZW (components result i))"
    "bit (snd (snd (masks_upto result used n))) i =
     (i < n \<and> bit used i \<and> components result i = k1)" and n: "n < 32" by simp_all
  have k1: "\<not> is_XYZW k1" by (simp add: is_XYZW_def)
  obtain a b c where m: "masks_upto result used n = (a, b, c)" by (cases "masks_upto result used n")
  have step: "masks_upto result used (Suc n) =
     (if used AND push_bit n 1 = 0 then (a, b, c)
      else if is_XYZW (components result n)
      then (a OR push_bit (n * 2) (SwizzleSource_value (components result n) - SwizzleSource_value kX), b, c)
      else (a, b OR push_bit n 1, if components result n = k1 then c OR push_bit n 1 else c))"
    using m by (simp add: masks_upto_def Let_def)
  show ?case using IH n k1 unfolding step m
    by (auto simp: and_exp_eq_0_iff_not_bit bit_or_iff bit_exp_u32_iff less_Suc_eq)
qed

lemma StoreResult_masks_upto: "StoreResult_masks result used = masks_upto result used 4"
  by (simp add: StoreResult_masks_def masks_upto_def)


lemma lt4_cases: "i < 4 \<Longrightarrow> i = 0 \<or> i = 1 \<or> i = 2 \<or> i = (3::nat)"
  by arith

lemma ex_lt4: "(\<exists>i<4. P i) = (P 0 \<or> P 1 \<or> P 2 \<or> P (3::nat))"
proof
  assume "\<exists>i<4. P i"
  then obtain i where "i < 4" and p: "P i" by blast
  then have "i = 0 \<or> i = 1 \<or> i = 2 \<or> i = 3" by arith
  with p show "P 0 \<or> P 1 \<or> P 2 \<or> P 3" by blast
next
  have "(0::nat) < 4" "(1::nat) < 4" "(2::nat) < 4" "(3::nat) < 4" by simp_all
  moreover assume "P 0 \<or> P 1 \<or> P 2 \<or> P 3"
  ultimately show "\<exists>i<4. P i" by blast
qed

lemma bit_lanes: "bit (lanes P) i = (i < 4 \<and> P i)"
  by (auto simp: lanes_def bit_horner_sum_bit_word_iff)

lemma lanes_eq_0: "(lanes P = 0) = (\<not> (P 0 \<or> P 1 \<or> P 2 \<or> P 3))"
proof -
  have "(lanes P = 0) = (\<forall>i<32. \<not> bit (lanes P) i)"
    by (auto simp: bit_eq_iff)
  also have "\<dots> = (\<not> (\<exists>i<4. P i))"
    by (auto simp: bit_lanes)
  also have "\<dots> = (\<not> (P 0 \<or> P 1 \<or> P 2 \<or> P 3))"
    by (simp only: ex_lt4)
  finally show ?thesis .
qed

lemma bit_lt_16: "w < 16 \<Longrightarrow> bit w i \<Longrightarrow> i < 4" for w :: u32
proof -
  assume w: "w < 16" and b: "bit w i"
  have "(16 :: u32) = 2 ^ 4" by simp
  with w have "w < 2 ^ 4" by (simp only:)
  then have "w AND mask 4 = w" by (rule less_mask_eq)
  with b have "bit (w AND mask 4) i" by (simp only:)
  then show "i < 4" by (simp only: bit_and_iff bit_mask_iff)
qed

lemma masks_bits:
  "bit (fst (snd (StoreResult_masks result used))) i =
     (i < 4 \<and> bit used i \<and> \<not> is_XYZW (components result i))"
  "bit (snd (snd (StoreResult_masks result used))) i =
     (i < 4 \<and> bit used i \<and> components result i = k1)"
  using masks_upto_bits [of 4 result used i] by (simp_all add: StoreResult_masks_upto)

lemma constant_mask_eq:
  "fst (snd (StoreResult_masks result (GetUsedWriteMask result))) = lanes (constant_lane result)"
  by (rule bit_word_eqI) (auto simp: masks_bits bit_lanes constant_lane_def)

lemma variable_mask_eq:
  "GetUsedWriteMask result < 16 \<Longrightarrow>
   GetUsedWriteMask result AND NOT (fst (snd (StoreResult_masks result (GetUsedWriteMask result)))) =
     lanes (variable_lane result)"
  by (rule bit_word_eqI)
    (auto simp: masks_bits bit_lanes variable_lane_def bit_and_iff bit_not_iff dest: bit_lt_16)

lemma lanes_partition_or:
  "GetUsedWriteMask result < 16 \<Longrightarrow>
   lanes (variable_lane result) OR lanes (constant_lane result) = GetUsedWriteMask result"
  by (rule bit_word_eqI)
    (auto simp: bit_lanes variable_lane_def constant_lane_def bit_or_iff dest: bit_lt_16)

lemma lanes_partition_and:
  "lanes (variable_lane result) AND lanes (constant_lane result) = 0"
  by (rule bit_word_eqI)
    (auto simp: bit_lanes variable_lane_def constant_lane_def bit_and_iff)

lemma used_ne_constant_mask:
  assumes u: "GetUsedWriteMask result < 16"
  shows "(GetUsedWriteMask result \<noteq> fst (snd (StoreResult_masks result (GetUsedWriteMask result)))) =
   (variable_lane result 0 \<or> variable_lane result 1 \<or> variable_lane result 2 \<or> variable_lane result 3)"
proof -
  let ?cm = "fst (snd (StoreResult_masks result (GetUsedWriteMask result)))"
  have "(GetUsedWriteMask result \<noteq> ?cm) = (\<exists>i<32. bit (GetUsedWriteMask result) i \<noteq> bit ?cm i)"
    by (auto simp: bit_eq_iff)
  also have "\<dots> = (\<exists>i<4. variable_lane result i)"
  proof
    assume "\<exists>i<32. bit (GetUsedWriteMask result) i \<noteq> bit ?cm i"
    then obtain i where "bit (GetUsedWriteMask result) i \<noteq> bit ?cm i" by blast
    then have "i < 4 \<and> variable_lane result i"
      using bit_lt_16 [OF u, of i] by (auto simp: masks_bits variable_lane_def)
    then show "\<exists>i<4. variable_lane result i" by blast
  next
    assume "\<exists>i<4. variable_lane result i"
    then obtain i where i: "i < 4" "variable_lane result i" by blast
    then have "i < 32 \<and> bit (GetUsedWriteMask result) i \<noteq> bit ?cm i"
      by (auto simp: masks_bits variable_lane_def)
    then show "\<exists>i<32. bit (GetUsedWriteMask result) i \<noteq> bit ?cm i" by blast
  qed
  also have "\<dots> = (variable_lane result 0 \<or> variable_lane result 1 \<or> variable_lane result 2 \<or>
                     variable_lane result 3)"
    by (simp only: ex_lt4)
  finally show ?thesis .
qed

lemma constant_mask_ne_0:
  "(fst (snd (StoreResult_masks result (GetUsedWriteMask result))) \<noteq> 0) =
   (constant_lane result 0 \<or> constant_lane result 1 \<or> constant_lane result 2 \<or> constant_lane result 3)"
  by (simp add: constant_mask_eq lanes_eq_0)

lemma float_of_bit_constant_1:
  "k < 4 \<Longrightarrow> float_of_bit (drop_bit k (snd (snd (StoreResult_masks result (GetUsedWriteMask result)))) AND 1) =
     literal_of (constant_1_lane result k)"
proof -
  assume k: "k < 4"
  have "(drop_bit k (snd (snd (StoreResult_masks result (GetUsedWriteMask result)))) AND 1 = 0) =
        (\<not> bit (snd (snd (StoreResult_masks result (GetUsedWriteMask result)))) k)"
    by (simp add: and_one_eq bit_iff_odd_drop_bit even_iff_mod_2_eq_zero)
  then show ?thesis using k
    by (simp add: float_of_bit_def literal_of_def masks_bits constant_1_lane_def)
qed


lemma StoreResult_dest_Some:
  "StoreResult_dest result can t = Some (dest, clamped, t1) \<Longrightarrow>
   dest_type dest \<noteq> kNull \<and>
   (\<exists>marker. shader_code t1 = shader_code t @ marker \<and> \<not> list_ex is_OpMov marker)"
  by (cases "storage_target result")
    (auto simp: StoreResult_dest_def Dest_X_def Dest_R_def Dest_O_def Dest_ODepth_def emit_def
      Let_def split: if_splits)

lemma StoreResult_invalid:
  "invalid_memexport_write result can t \<Longrightarrow> StoreResult_dest result can t = None"
  unfolding invalid_memexport_write_def
  by (elim disjE conjE) (simp_all add: StoreResult_dest_def)

lemma StoreResult_dest_memexport:
  "storage_target result = Target_kExportAddress \<or> storage_target result = Target_kExportData \<Longrightarrow>
   StoreResult_dest result can t \<noteq> None \<Longrightarrow>
   memexport_alloc_current_count t \<noteq> 0 \<and>
   memexport_alloc_current_count t \<le> kMaxMemExports t"
  by (elim disjE) (simp_all add: StoreResult_dest_def not_less split: if_splits)

text \<open>
  C7. An export write is accepted only while the number of export allocations made is
  between 1 and the fixed maximum \<open>kMaxMemExports\<close>, which each memory allocation
  instruction raises by one. An export write made with no allocation, with more
  allocations than the maximum, with no scratch register for the current allocation, or
  an address write where none is permitted, leaves the translator as it was: no
  instruction is emitted and nothing else changes.
\<close>

theorem StoreResult_drops_invalid_memexport_writes:
  "(invalid_memexport_write result can_store_memexport_address t \<longrightarrow>
      StoreResult result src can_store_memexport_address t = t) \<and>
   ((storage_target result = Target_kExportAddress \<or> storage_target result = Target_kExportData) \<and>
    StoreResult result src can_store_memexport_address t \<noteq> t \<longrightarrow>
      memexport_alloc_current_count t \<noteq> 0 \<and>
      memexport_alloc_current_count t \<le> kMaxMemExports t) \<and>
   memexport_alloc_current_count (ProcessAllocInstruction instr t) =
     (if alloc_type instr = Alloc_kMemory then memexport_alloc_current_count t + 1
      else memexport_alloc_current_count t)"
proof (intro conjI impI)
  assume "invalid_memexport_write result can_store_memexport_address t"
  then have "StoreResult_dest result can_store_memexport_address t = None"
    by (rule StoreResult_invalid)
  then show "StoreResult result src can_store_memexport_address t = t"
    by (simp add: StoreResult_def Let_def)
next
  assume a: "(storage_target result = Target_kExportAddress \<or>
              storage_target result = Target_kExportData) \<and>
             StoreResult result src can_store_memexport_address t \<noteq> t"
  then have "StoreResult_dest result can_store_memexport_address t \<noteq> None"
    by (auto simp: StoreResult_def Let_def split: if_splits option.splits)
  with a show "memexport_alloc_current_count t \<noteq> 0"
    and "memexport_alloc_current_count t \<le> kMaxMemExports t"
    using StoreResult_dest_memexport [of result can_store_memexport_address t] by blast+
next
  show "memexport_alloc_current_count (ProcessAllocInstruction instr t) =
     (if alloc_type instr = Alloc_kMemory then memexport_alloc_current_count t + 1
      else memexport_alloc_current_count t)"
    by (simp add: ProcessAllocInstruction_def Let_def emit_disassembly_of_def
        EmitInstructionDisassembly_def emit_def)
qed

lemma example_invalid: "invalid_memexport_write example_export_data True (Reset example_translator)"
  by (simp add: invalid_memexport_write_def example_export_data_def Reset_def)

theorem StoreResult_drops_invalid_memexport_writes_witness:
  "invalid_memexport_write example_export_data True (Reset example_translator) \<and>
   StoreResult example_export_data (Src_R 0 kXYZW) True (Reset example_translator) =
     Reset example_translator"
  using StoreResult_drops_invalid_memexport_writes
    [of example_export_data True "Reset example_translator" "Src_R 0 kXYZW"]
    example_invalid
  by simp

lemma float_of_bit_constant_1_0:
  "float_of_bit (snd (snd (StoreResult_masks result (GetUsedWriteMask result))) AND 1) =
     literal_of (constant_1_lane result 0)"
  using float_of_bit_constant_1 [of 0 result] by simp

lemma StoreResult_dest_kept:
  assumes "\<not> dropped_write result can t"
  shows "\<exists>dest clamped t1. StoreResult_dest result can t = Some (dest, clamped, t1)"
proof (cases "storage_target result")
  case Target_kNone
  then show ?thesis using assms by (simp add: dropped_write_def)
next
  case Target_kExportAddress
  then show ?thesis using assms
    by (simp add: dropped_write_def invalid_memexport_write_def StoreResult_dest_def not_less)
next
  case Target_kExportData
  then show ?thesis using assms
    by (simp add: dropped_write_def invalid_memexport_write_def StoreResult_dest_def not_less
        Let_def)
qed (auto simp: StoreResult_dest_def)

lemma StoreResult_dropped:
  assumes "dropped_write result can t"
  shows "StoreResult result src can t = t"
proof -
  have "StoreResult_dest result can t = None"
  proof (cases "storage_target result = Target_kNone")
    case True
    then show ?thesis by (simp add: StoreResult_dest_def)
  next
    case False
    then have "invalid_memexport_write result can t"
      using assms by (simp add: dropped_write_def)
    then show ?thesis by (rule StoreResult_invalid)
  qed
  then show ?thesis by (simp add: StoreResult_def Let_def)
qed

text \<open>
  C8, as the code has it. When the used write mask is not empty and the write is not
  dropped (the result has a target and is not an export write that is validated away),
  \<open>StoreResult\<close> emits, after the marker instruction of the target if it has one, at
  most two moves to the destination of the target: one, present exactly when some used
  lane selects a component of the source, that writes exactly those lanes from the
  swizzled source; and one, present exactly when some used lane selects a constant, that
  writes exactly those lanes from a literal holding 1.0 in the lanes that select the
  constant 1 and 0.0 elsewhere. The two lane sets are disjoint and together make up the
  used write mask. A dropped write emits nothing and leaves the translator as it was.
\<close>

theorem StoreResult_splits_write:
  "(GetUsedWriteMask result \<noteq> 0 \<and> GetUsedWriteMask result < 16 \<and>
    \<not> dropped_write result can_store_memexport_address t \<longrightarrow>
      (\<exists>dest clamped t1 marker.
         StoreResult_dest result can_store_memexport_address t = Some (dest, clamped, t1) \<and>
         shader_code t1 = shader_code t @ marker \<and> \<not> list_ex is_OpMov marker \<and>
         shader_code (StoreResult result src can_store_memexport_address t) =
           shader_code t @ marker @
           (if variable_lane result 0 \<or> variable_lane result 1 \<or> variable_lane result 2 \<or>
               variable_lane result 3
            then [OpMov (Mask (lanes (variable_lane result)) dest)
                    (SwizzleSwizzled (fst (StoreResult_masks result (GetUsedWriteMask result))) src)
                    clamped]
            else []) @
           (if constant_lane result 0 \<or> constant_lane result 1 \<or> constant_lane result 2 \<or>
               constant_lane result 3
            then [OpMov (Mask (lanes (constant_lane result)) dest)
                    (Src_LF4 (literal_of (constant_1_lane result 0))
                       (literal_of (constant_1_lane result 1))
                       (literal_of (constant_1_lane result 2))
                       (literal_of (constant_1_lane result 3)))
                    False]
            else []))) \<and>
   (dropped_write result can_store_memexport_address t \<longrightarrow>
      StoreResult result src can_store_memexport_address t = t) \<and>
   (GetUsedWriteMask result < 16 \<longrightarrow>
      lanes (variable_lane result) OR lanes (constant_lane result) = GetUsedWriteMask result) \<and>
   lanes (variable_lane result) AND lanes (constant_lane result) = 0 \<and>
   (\<forall>i. bit (lanes (variable_lane result)) i = (i < 4 \<and> variable_lane result i)) \<and>
   (\<forall>i. bit (lanes (constant_lane result)) i = (i < 4 \<and> constant_lane result i))"
proof (intro conjI impI)
  assume a: "GetUsedWriteMask result \<noteq> 0 \<and> GetUsedWriteMask result < 16 \<and>
    \<not> dropped_write result can_store_memexport_address t"
  then have used: "GetUsedWriteMask result \<noteq> 0" and lt: "GetUsedWriteMask result < 16"
    and kept: "\<not> dropped_write result can_store_memexport_address t"
    by simp_all
  from StoreResult_dest_kept [OF kept] obtain dest clamped t1
    where dest: "StoreResult_dest result can_store_memexport_address t = Some (dest, clamped, t1)"
    by blast
  from StoreResult_dest_Some [OF dest]
  have nn: "dest_type dest \<noteq> kNull" by blast
  from StoreResult_dest_Some [OF dest] obtain marker
    where mk: "shader_code t1 = shader_code t @ marker" "\<not> list_ex is_OpMov marker"
    by blast
  have 1: "StoreResult result src can_store_memexport_address t =
          emit (StoreResult_write result src (GetUsedWriteMask result) dest clamped) t1"
    using used dest nn by (simp add: StoreResult_def)
  have 2: "StoreResult_write result src (GetUsedWriteMask result) dest clamped =
     (if variable_lane result 0 \<or> variable_lane result 1 \<or> variable_lane result 2 \<or>
         variable_lane result 3
      then [OpMov (Mask (lanes (variable_lane result)) dest)
              (SwizzleSwizzled (fst (StoreResult_masks result (GetUsedWriteMask result))) src)
              clamped]
      else []) @
     (if constant_lane result 0 \<or> constant_lane result 1 \<or> constant_lane result 2 \<or>
         constant_lane result 3
      then [OpMov (Mask (lanes (constant_lane result)) dest)
              (Src_LF4 (literal_of (constant_1_lane result 0)) (literal_of (constant_1_lane result 1))
                 (literal_of (constant_1_lane result 2)) (literal_of (constant_1_lane result 3)))
              False]
      else [])"
    unfolding StoreResult_write_def prod.case_eq_if
    using used_ne_constant_mask [OF lt] constant_mask_ne_0 [of result]
      variable_mask_eq [OF lt] constant_mask_eq [of result]
      float_of_bit_constant_1_0 [of result] float_of_bit_constant_1 [of 1 result]
      float_of_bit_constant_1 [of 2 result] float_of_bit_constant_1 [of 3 result]
    by simp
  have 3: "shader_code (StoreResult result src can_store_memexport_address t) =
           shader_code t @ marker @
           StoreResult_write result src (GetUsedWriteMask result) dest clamped"
    unfolding 1 using mk(1) by (simp add: emit_def)
  show "\<exists>dest clamped t1 marker.
         StoreResult_dest result can_store_memexport_address t = Some (dest, clamped, t1) \<and>
         shader_code t1 = shader_code t @ marker \<and> \<not> list_ex is_OpMov marker \<and>
         shader_code (StoreResult result src can_store_memexport_address t) =
           shader_code t @ marker @
           (if variable_lane result 0 \<or> variable_lane result 1 \<or> variable_lane result 2 \<or>
               variable_lane result 3
            then [OpMov (Mask (lanes (variable_lane result)) dest)
                    (SwizzleSwizzled (fst (StoreResult_masks result (GetUsedWriteMask result))) src)
                    clamped]
            else []) @
           (if constant_lane result 0 \<or> constant_lane result 1 \<or> constant_lane result 2 \<or>
               constant_lane result 3
            then [OpMov (Mask (lanes (constant_lane result)) dest)
                    (Src_LF4 (literal_of (constant_1_lane result 0))
                       (literal_of (constant_1_lane result 1))
                       (literal_of (constant_1_lane result 2))
                       (literal_of (constant_1_lane result 3)))
                    False]
            else [])"
    using dest mk 3 unfolding 2 by blast
next
  assume "dropped_write result can_store_memexport_address t"
  then show "StoreResult result src can_store_memexport_address t = t"
    by (rule StoreResult_dropped)
next
  assume "GetUsedWriteMask result < 16"
  then show "lanes (variable_lane result) OR lanes (constant_lane result) = GetUsedWriteMask result"
    by (rule lanes_partition_or)
next
  show "lanes (variable_lane result) AND lanes (constant_lane result) = 0"
    by (rule lanes_partition_and)
next
  show "\<forall>i. bit (lanes (variable_lane result)) i = (i < 4 \<and> variable_lane result i)"
    by (simp add: bit_lanes)
next
  show "\<forall>i. bit (lanes (constant_lane result)) i = (i < 4 \<and> constant_lane result i)"
    by (simp add: bit_lanes)
qed

lemma example_lanes:
  "lanes (variable_lane example_export_data) = 5"
  "lanes (constant_lane example_export_data) = 10"
  by (simp_all add: lanes_def variable_lane_def constant_lane_def example_export_data_def
      is_XYZW_def upt_rec)

lemma example_dest:
  "StoreResult_dest example_export_data True example_memexport_translator =
   Some (Dest_R 21 0b1111, False,
     emit [OpOr (Dest_R 19 1) (Select 0 (Src_R 19 kXYZW)) (Src_LU 1)] example_memexport_translator)"
  by (simp add: StoreResult_dest_def example_export_data_def example_memexport_translator_def
      Reset_def example_translator_def UINT32_MAX_def Let_def)

lemma example_swizzle: "fst (StoreResult_masks example_export_data 15) = 32"
  by (simp add: StoreResult_masks_def example_export_data_def is_XYZW_def upt_rec Let_def)

lemma example_kept: "\<not> dropped_write example_export_data True example_memexport_translator"
  by (simp add: dropped_write_def invalid_memexport_write_def example_export_data_def
      example_memexport_translator_def Reset_def example_translator_def UINT32_MAX_def)

lemma example_dropped: "dropped_write example_export_data True (Reset example_translator)"
  by (simp add: dropped_write_def invalid_memexport_write_def example_export_data_def Reset_def)

theorem StoreResult_splits_write_witness:
  "GetUsedWriteMask example_export_data \<noteq> 0 \<and> GetUsedWriteMask example_export_data < 16 \<and>
   \<not> dropped_write example_export_data True example_memexport_translator \<and>
   shader_code (StoreResult example_export_data (Src_R 0 kXYZW) True example_memexport_translator) =
     [OpOr (Dest_R 19 1) (Select 0 (Src_R 19 kXYZW)) (Src_LU 1),
      OpMov (Mask 5 (Dest_R 21 15)) (SwizzleSwizzled 32 (Src_R 0 kXYZW)) False,
      OpMov (Mask 10 (Dest_R 21 15)) (Src_LF4 float_0 float_1 float_0 float_0) False] \<and>
   dropped_write example_export_data True (Reset example_translator) \<and>
   StoreResult example_export_data (Src_R 0 kXYZW) True (Reset example_translator) =
     Reset example_translator"
proof -
  have u: "GetUsedWriteMask example_export_data \<noteq> 0"
    and lt: "GetUsedWriteMask example_export_data < 16"
    and m: "GetUsedWriteMask example_export_data = 15"
    by (simp_all add: example_export_data_def)
  have v: "variable_lane example_export_data 0"
    and c: "constant_lane example_export_data (Suc 0)"
    by (simp_all add: variable_lane_def constant_lane_def example_export_data_def is_XYZW_def)
  have o: "\<not> constant_1_lane example_export_data 0" "constant_1_lane example_export_data (Suc 0)"
    "\<not> constant_1_lane example_export_data 2" "\<not> constant_1_lane example_export_data 3"
    by (simp_all add: constant_1_lane_def example_export_data_def)
  have e: "shader_code example_memexport_translator = []"
    by (simp add: example_memexport_translator_def Reset_def)
  have d: "StoreResult example_export_data (Src_R 0 kXYZW) True (Reset example_translator) =
           Reset example_translator"
    using StoreResult_splits_write [of example_export_data True "Reset example_translator"
        "Src_R 0 kXYZW"] example_dropped
    by blast
  have "\<exists>dest clamped t1 marker.
         StoreResult_dest example_export_data True example_memexport_translator =
           Some (dest, clamped, t1) \<and>
         shader_code t1 = shader_code example_memexport_translator @ marker \<and>
         shader_code (StoreResult example_export_data (Src_R 0 kXYZW) True
                        example_memexport_translator) =
           shader_code example_memexport_translator @ marker @
           [OpMov (Mask 5 dest) (SwizzleSwizzled 32 (Src_R 0 kXYZW)) clamped] @
           [OpMov (Mask 10 dest) (Src_LF4 float_0 float_1 float_0 float_0) False]"
    using StoreResult_splits_write [of example_export_data True example_memexport_translator
        "Src_R 0 kXYZW"] u lt example_kept
    by (simp add: v c o m example_lanes example_swizzle literal_of_def) blast
  then have "shader_code (StoreResult example_export_data (Src_R 0 kXYZW) True
                        example_memexport_translator) =
     [OpOr (Dest_R 19 1) (Select 0 (Src_R 19 kXYZW)) (Src_LU 1),
      OpMov (Mask 5 (Dest_R 21 15)) (SwizzleSwizzled 32 (Src_R 0 kXYZW)) False,
      OpMov (Mask 10 (Dest_R 21 15)) (Src_LF4 float_0 float_1 float_0 float_0) False]"
    unfolding example_dest by (auto simp: e emit_def)
  then show ?thesis using u lt example_kept example_dropped d by simp
qed

text \<open>
  The claim as stated, for every result with a used write mask, fails for a write that
  is dropped: an export write before any export allocation selects a component of the
  source in lane 0 and a constant in lane 1, and no move is emitted.
\<close>

theorem StoreResult_dropped_write_counterexample:
  "GetUsedWriteMask example_export_data \<noteq> 0 \<and>
   variable_lane example_export_data 0 \<and>
   constant_lane example_export_data 1 \<and>
   shader_code (StoreResult example_export_data (Src_R 0 kXYZW) True (Reset example_translator)) =
     shader_code (Reset example_translator)"
proof -
  have "StoreResult_dest example_export_data True (Reset example_translator) = None"
    by (simp add: StoreResult_dest_def example_export_data_def Reset_def)
  then show ?thesis
    by (simp add: StoreResult_def Let_def variable_lane_def constant_lane_def
        example_export_data_def is_XYZW_def)
qed


section \<open>Operand loads\<close>

lemma bit_and_3: "bit (w AND 3) j = (j < 2 \<and> bit w j)" for w :: u32
proof -
  have e: "(3 :: u32) = mask 2" by (simp add: mask_eq_exp_minus_1)
  have "bit (w AND mask 2) j = (j < 2 \<and> bit w j)"
    by (simp only: bit_and_iff bit_mask_iff) (auto dest: bit_imp_le_length)
  then show ?thesis by (simp only: e)
qed

lemma is_XYZW_value: "is_XYZW c \<Longrightarrow> SwizzleSource_value c AND 3 = SwizzleSource_value c"
  by (cases c) (simp_all add: is_XYZW_def)

lemma is_XYZW_bit: "is_XYZW c \<Longrightarrow> bit (SwizzleSource_value c) j \<Longrightarrow> j < 2"
  using bit_and_3 [of "SwizzleSource_value c" j] is_XYZW_value [of c] by simp

lemma swizzle_upto_bits:
  assumes xyzw: "\<forall>i. is_XYZW (GetComponent operand i)"
  shows "n \<le> 16 \<Longrightarrow>
   bit (swizzle_upto operand needed f n) m =
     (m < 2 * n \<and>
      bit (SwizzleSource_value
             (GetComponent operand (if bit needed (m div 2) then of_nat (m div 2) else f)))
          (m mod 2))"
proof (induction n arbitrary: m)
  case 0
  then show ?case by (simp add: swizzle_upto_def)
next
  case (Suc n)
  let ?v = "SwizzleSource_value (GetComponent operand (if bit needed n then of_nat n else f))"
  have step: "swizzle_upto operand needed f (Suc n) =
     swizzle_upto operand needed f n OR push_bit (n * 2) ?v"
    by (simp add: swizzle_upto_def and_exp_eq_0_iff_not_bit)
  have v: "\<And>j. bit ?v j \<Longrightarrow> j < 2"
    using xyzw is_XYZW_bit by blast
  have IH: "bit (swizzle_upto operand needed f n) m =
     (m < 2 * n \<and>
      bit (SwizzleSource_value
             (GetComponent operand (if bit needed (m div 2) then of_nat (m div 2) else f)))
          (m mod 2))"
    using Suc by simp
  have n: "n * 2 < 32" using Suc.prems by simp
  show ?case
  proof (cases "m < 2 * n")
    case True
    then have "\<not> n * 2 \<le> m" by simp
    then show ?thesis using True IH by (simp add: step bit_or_iff bit_push_bit_iff)
  next
    case False
    then have ge: "n * 2 \<le> m" by simp
    show ?thesis
    proof (cases "m < 2 * Suc n")
      case True
      with ge have d: "m div 2 = n" and r: "m mod 2 = m - n * 2" by presburger+
      from True n have "m < 32" by simp
      then show ?thesis using False True ge IH d r
        by (simp add: step bit_or_iff bit_push_bit_iff)
    next
      case False
      then have "\<not> m - n * 2 < 2" by simp
      then have "\<not> bit ?v (m - n * 2)" using v by blast
      then show ?thesis using False \<open>\<not> m < 2 * n\<close> IH
        by (simp add: step bit_or_iff bit_push_bit_iff)
    qed
  qed
qed

lemma LoadOperand_swizzle_upto:
  "LoadOperand_swizzle operand needed f = swizzle_upto operand needed f 4"
  by (simp add: LoadOperand_swizzle_def swizzle_upto_def)

lemma LoadOperand_swizzle_lane:
  assumes xyzw: "\<forall>i. is_XYZW (GetComponent operand i)" and i: "i < 4"
  shows "swizzle_lane (LoadOperand_swizzle operand needed f) i =
     SwizzleSource_value (GetComponent operand (if bit needed i then of_nat i else f))"
proof (rule bit_word_eqI)
  fix j assume "j < LENGTH(32)"
  let ?v = "SwizzleSource_value (GetComponent operand (if bit needed i then of_nat i else f))"
  have v: "bit ?v j \<Longrightarrow> j < 2" using xyzw is_XYZW_bit by blast
  show "bit (swizzle_lane (LoadOperand_swizzle operand needed f) i) j = bit ?v j"
  proof (cases "j < 2")
    case True
    then have d: "(2 * i + j) div 2 = i" and r: "(2 * i + j) mod 2 = j" by presburger+
    from True i have "2 * i + j < 2 * 4" by simp
    then show ?thesis using True d r swizzle_upto_bits [OF xyzw, of 4 needed f "2 * i + j"]
      by (simp add: swizzle_lane_def bit_and_3 bit_drop_bit_eq LoadOperand_swizzle_upto)
  next
    case False
    then show ?thesis using v by (auto simp: swizzle_lane_def bit_and_3)
  qed
qed

lemma bit_scan_forward_Some:
  assumes "bit needed f" and "\<forall>j<f. \<not> bit needed j"
  shows "bit_scan_forward needed = Some (of_nat f)"
proof -
  have f: "f < 32" using bit_imp_le_length [OF assms(1)] by simp
  have "List.find (\<lambda>i. bit needed i) [0..<32] = Some f"
    unfolding find_Some_iff using assms f by (intro exI [of _ f]) simp
  then show ?thesis by (simp add: bit_scan_forward_def)
qed

lemma bit_scan_forward_None: "(bit_scan_forward needed = None) = (needed = 0)"
proof -
  have "(needed = 0) = (\<forall>i<32. \<not> bit needed i)" by (auto simp: bit_eq_iff)
  then show ?thesis by (auto simp: bit_scan_forward_def find_None_iff)
qed


lemma LoadOperand_zero: "LoadOperand operand 0 t = (Src_LF float_0, False, t)"
  using bit_scan_forward_None [of 0] by (simp add: LoadOperand_def)

lemma LoadOperand_resolved_src:
  assumes f: "bit_scan_forward needed = Some f" and r: "resolves operand t"
  shows "swizzle (fst (LoadOperand operand needed t)) = LoadOperand_swizzle operand needed f \<and>
         absolute (fst (LoadOperand operand needed t)) = is_absolute_value operand \<and>
         negate (fst (LoadOperand operand needed t)) = is_negated operand"
proof (cases "storage_source operand")
  case Source_kRegister
  then show ?thesis using f
    by (simp add: LoadOperand_def Let_def WithModifiers_def Swizzle_def split: prod.splits)
next
  case Source_kConstantFloat
  then show ?thesis using f r
    by (simp add: LoadOperand_def Let_def WithModifiers_def Swizzle_def resolves_def)
next
  case Source_kVertexFetchConstant
  then show ?thesis using r by (simp add: resolves_def)
next
  case Source_kTextureFetchConstant
  then show ?thesis using r by (simp add: resolves_def)
qed

lemma LoadOperand_unresolved:
  assumes "\<not> resolves operand t"
  shows "fst (LoadOperand operand needed t) = Src_LF float_0"
proof (cases "bit_scan_forward needed")
  case None
  then show ?thesis by (simp add: LoadOperand_def)
next
  case (Some f)
  show ?thesis
  proof (cases "storage_source operand")
    case Source_kRegister
    then show ?thesis using assms by (simp add: resolves_def)
  next
    case Source_kConstantFloat
    then show ?thesis using assms Some
      by (simp add: LoadOperand_def Let_def resolves_def)
  next
    case Source_kVertexFetchConstant
    then show ?thesis using Some by (simp add: LoadOperand_def Let_def)
  next
    case Source_kTextureFetchConstant
    then show ?thesis using Some by (simp add: LoadOperand_def Let_def)
  qed
qed

text \<open>
  C1, as the code has it. For an operand that \<open>LoadOperand\<close> resolves (a register, or a
  float constant that is addressed dynamically or is present in the packed constant
  map) with swizzle components among X, Y, Z, W, and a mask whose lowest set bit is
  \<open>f\<close>: each lane of the returned swizzle that is in the mask holds the operand's
  component for that lane, and each lane that is not holds the component selected for
  lane \<open>f\<close>; the modifiers are the operand's. For an operand that it does not resolve,
  whatever the mask, and for the zero mask, whatever the operand, the result is the
  literal 0.0.
\<close>

theorem LoadOperand_swizzle_law:
  "(bit needed_components f \<and> (\<forall>j<f. \<not> bit needed_components j) \<and>
    resolves operand t \<and> (\<forall>i. is_XYZW (GetComponent operand i)) \<longrightarrow>
      (\<forall>i<4. swizzle_lane (swizzle (fst (LoadOperand operand needed_components t))) i =
         SwizzleSource_value
           (GetComponent operand (if bit needed_components i then of_nat i else of_nat f))) \<and>
      absolute (fst (LoadOperand operand needed_components t)) = is_absolute_value operand \<and>
      negate (fst (LoadOperand operand needed_components t)) = is_negated operand) \<and>
   (\<not> resolves operand t \<longrightarrow>
      fst (LoadOperand operand needed_components t) = Src_LF float_0) \<and>
   LoadOperand operand 0 t = (Src_LF float_0, False, t)"
proof (intro conjI impI)
  assume a: "bit needed_components f \<and> (\<forall>j<f. \<not> bit needed_components j) \<and>
    resolves operand t \<and> (\<forall>i. is_XYZW (GetComponent operand i))"
  then have lowest: "bit needed_components f" "\<forall>j<f. \<not> bit needed_components j"
    and r: "resolves operand t" and xyzw: "\<forall>i. is_XYZW (GetComponent operand i)"
    by simp_all
  show "\<forall>i<4. swizzle_lane (swizzle (fst (LoadOperand operand needed_components t))) i =
         SwizzleSource_value
           (GetComponent operand (if bit needed_components i then of_nat i else of_nat f))"
    and "absolute (fst (LoadOperand operand needed_components t)) = is_absolute_value operand"
    and "negate (fst (LoadOperand operand needed_components t)) = is_negated operand"
    using LoadOperand_resolved_src [OF bit_scan_forward_Some [OF lowest] r]
      LoadOperand_swizzle_lane [OF xyzw]
    by simp_all
next
  assume "\<not> resolves operand t"
  then show "fst (LoadOperand operand needed_components t) = Src_LF float_0"
    by (rule LoadOperand_unresolved)
next
  show "LoadOperand operand 0 t = (Src_LF float_0, False, t)"
    by (rule LoadOperand_zero)
qed

text \<open>
  C10, as the code has it. \<open>temp_pushed_out\<close> is true exactly when the load took the
  dynamically addressed register path, which is exactly when the register count grew by
  one; then the state is that after \<open>PushSystemTemp()\<close> with the one move of that path
  appended. Otherwise the state is unchanged, except that the first load of a float
  constant allocates the float-constant buffer binding.
\<close>

theorem LoadOperand_frame:
  "fst (snd (LoadOperand operand needed_components t)) =
     loads_dynamic_register operand needed_components t \<and>
   fst (snd (LoadOperand operand needed_components t)) =
     (system_temp_count_current (snd (snd (LoadOperand operand needed_components t))) =
        system_temp_count_current t + 1) \<and>
   (loads_dynamic_register operand needed_components t \<longrightarrow>
      snd (snd (LoadOperand operand needed_components t)) =
        emit [OpMov (Dest_R (fst (PushSystemTemp 0 1 t))
                       (LoadOperand_used_swizzle_components operand needed_components))
                    (Src_X 0 (operand_index (storage_addressing_mode operand)
                                (storage_index operand) t))
                    False]
          (snd (PushSystemTemp 0 1 t))) \<and>
   (\<not> loads_dynamic_register operand needed_components t \<longrightarrow>
      snd (snd (LoadOperand operand needed_components t)) =
        (if first_float_constant_use operand needed_components t
         then allocate_float_constants t else t))"
proof (cases "bit_scan_forward needed_components")
  case None
  then have "needed_components = 0" by (simp add: bit_scan_forward_None)
  then show ?thesis
    by (simp add: LoadOperand_zero loads_dynamic_register_def first_float_constant_use_def)
next
  case (Some f)
  then have nz: "needed_components \<noteq> 0" using bit_scan_forward_None [of needed_components] by simp
  show ?thesis
  proof (cases "storage_source operand")
    case Source_kRegister
    then show ?thesis using Some nz
      by (simp add: LoadOperand_def Let_def loads_dynamic_register_def first_float_constant_use_def
          PushSystemTemp_def emit_def operand_index_def split: prod.splits)
  next
    case Source_kConstantFloat
    then show ?thesis using Some nz
      by (simp add: LoadOperand_def Let_def loads_dynamic_register_def first_float_constant_use_def
          allocate_float_constants_def)
  next
    case Source_kVertexFetchConstant
    then show ?thesis using Some nz
      by (simp add: LoadOperand_def Let_def loads_dynamic_register_def first_float_constant_use_def)
  next
    case Source_kTextureFetchConstant
    then show ?thesis using Some nz
      by (simp add: LoadOperand_def Let_def loads_dynamic_register_def first_float_constant_use_def)
  qed
qed

lemma bsf_1: "bit_scan_forward 1 = Some 0"
  using bit_scan_forward_Some [of 1 0] by simp

lemma bsf_6: "bit_scan_forward 6 = Some 1"
proof -
  have "bit (6 :: u32) 1" by simp
  moreover have "\<forall>j<1. \<not> bit (6 :: u32) j" by simp
  ultimately show ?thesis using bit_scan_forward_Some [of 6 1] by simp
qed

theorem LoadOperand_swizzle_law_witness:
  "bit (6 :: u32) 1 \<and> \<not> bit (6 :: u32) 0 \<and>
   resolves example_register_operand (Reset example_translator) \<and>
   (\<forall>i. is_XYZW (GetComponent example_register_operand i)) \<and>
   swizzle_lane (swizzle (fst (LoadOperand example_register_operand 6 (Reset example_translator)))) 0 = 0 \<and>
   swizzle_lane (swizzle (fst (LoadOperand example_register_operand 6 (Reset example_translator)))) 1 = 0 \<and>
   swizzle_lane (swizzle (fst (LoadOperand example_register_operand 6 (Reset example_translator)))) 2 = 3 \<and>
   swizzle_lane (swizzle (fst (LoadOperand example_register_operand 6 (Reset example_translator)))) 3 = 0 \<and>
   \<not> resolves example_constant_operand (Reset example_translator) \<and>
   fst (LoadOperand example_constant_operand 6 (Reset example_translator)) = Src_LF float_0"
proof -
  have b: "bit (6 :: u32) 1" and l: "\<forall>j<1. \<not> bit (6 :: u32) j" by simp_all
  have r: "resolves example_register_operand (Reset example_translator)"
    by (simp add: resolves_def example_register_operand_def)
  have x: "\<forall>i. is_XYZW (GetComponent example_register_operand i)"
    by (simp add: example_register_operand_def is_XYZW_def)
  have n: "\<not> bit (6 :: u32) 0" "bit (6 :: u32) 2" "\<not> bit (6 :: u32) 3" by simp_all
  have u: "\<not> resolves example_constant_operand (Reset example_translator)"
    by (simp add: resolves_def example_constant_operand_def Reset_def example_translator_def
        UINT32_MAX_def)
  have "\<forall>i<4. swizzle_lane (swizzle (fst (LoadOperand example_register_operand 6 (Reset example_translator)))) i =
            SwizzleSource_value
              (GetComponent example_register_operand (if bit (6 :: u32) i then of_nat i else of_nat 1))"
    using LoadOperand_swizzle_law [of 6 1 example_register_operand "Reset example_translator"]
      b l r x by blast
  then have "swizzle_lane (swizzle (fst (LoadOperand example_register_operand 6 (Reset example_translator)))) 0 =
            SwizzleSource_value (GetComponent example_register_operand (if bit (6 :: u32) 0 then of_nat 0 else of_nat 1))"
    and "swizzle_lane (swizzle (fst (LoadOperand example_register_operand 6 (Reset example_translator)))) 1 =
            SwizzleSource_value (GetComponent example_register_operand (if bit (6 :: u32) 1 then of_nat 1 else of_nat 1))"
    and "swizzle_lane (swizzle (fst (LoadOperand example_register_operand 6 (Reset example_translator)))) 2 =
            SwizzleSource_value (GetComponent example_register_operand (if bit (6 :: u32) 2 then of_nat 2 else of_nat 1))"
    and "swizzle_lane (swizzle (fst (LoadOperand example_register_operand 6 (Reset example_translator)))) 3 =
            SwizzleSource_value (GetComponent example_register_operand (if bit (6 :: u32) 3 then of_nat 3 else of_nat 1))"
    by simp_all
  moreover have "fst (LoadOperand example_constant_operand 6 (Reset example_translator)) = Src_LF float_0"
    using LoadOperand_swizzle_law [of 6 1 example_constant_operand "Reset example_translator"] u
    by blast
  ultimately show ?thesis using b l r x n u
    by (simp add: example_register_operand_def)
qed

text \<open>
  The claim as stated, for every operand, fails for an operand that is not resolved: a
  statically addressed float constant that is not in the packed constant map gets the
  literal 0.0 whatever its swizzle, so lane 0 does not hold W for the operand that
  selects W and lane 3 does not hold X for the operand that selects X.
\<close>

theorem LoadOperand_unresolved_counterexample:
  "fst (LoadOperand example_constant_operand 1 (Reset example_translator)) = Src_LF float_0 \<and>
   fst (LoadOperand (example_constant_operand\<lparr>GetComponent := (\<lambda>i. kX)\<rparr>) 1
          (Reset example_translator)) = Src_LF float_0 \<and>
   swizzle_lane (swizzle (Src_LF float_0)) 0 \<noteq>
     SwizzleSource_value (GetComponent example_constant_operand 0) \<and>
   swizzle_lane (swizzle (Src_LF float_0)) 3 \<noteq>
     SwizzleSource_value (GetComponent (example_constant_operand\<lparr>GetComponent := (\<lambda>i. kX)\<rparr>) 3)"
  by (simp add: LoadOperand_def bsf_1 example_constant_operand_def Reset_def example_translator_def
      UINT32_MAX_def Let_def swizzle_lane_def Src_LF_def Src_LF4_def Src_LU4_def kXYZW_def
      kBindingIndexUnallocated_def)

text \<open>
  The claim as stated fails for the first float-constant operand of a shader: no
  register is pushed, and the constant-buffer binding table changes.
\<close>

theorem LoadOperand_binding_counterexample:
  "\<not> fst (snd (LoadOperand example_mapped_constant_operand 1 (Reset example_translator))) \<and>
   cbuffer_count (Reset example_translator) = 1 \<and>
   cbuffer_count (snd (snd (LoadOperand example_mapped_constant_operand 1 (Reset example_translator)))) = 2 \<and>
   cbuffer_index_float_constants (Reset example_translator) = kBindingIndexUnallocated \<and>
   cbuffer_index_float_constants
     (snd (snd (LoadOperand example_mapped_constant_operand 1 (Reset example_translator)))) = 1"
  by (simp add: LoadOperand_def bsf_1 example_mapped_constant_operand_def
      example_constant_operand_def Reset_def example_translator_def
      UINT32_MAX_def Let_def kBindingIndexUnallocated_def)

theorem LoadOperand_frame_witness:
  "loads_dynamic_register example_register_operand 6 example_dynamic_translator \<and>
   fst (snd (LoadOperand example_register_operand 6 example_dynamic_translator)) \<and>
   shader_code (snd (snd (LoadOperand example_register_operand 6 example_dynamic_translator))) =
     [OpMov (Dest_R 0 9) (Src_X 0 (Index_static 2)) False] \<and>
   system_temp_count_current (snd (snd (LoadOperand example_register_operand 6 example_dynamic_translator))) = 1 \<and>
   \<not> loads_dynamic_register example_register_operand 6 (Reset example_translator) \<and>
   \<not> first_float_constant_use example_register_operand 6 (Reset example_translator) \<and>
   snd (snd (LoadOperand example_register_operand 6 (Reset example_translator))) =
     Reset example_translator"
proof -
  have d: "loads_dynamic_register example_register_operand 6 example_dynamic_translator"
    by (simp add: loads_dynamic_register_def example_register_operand_def
        example_dynamic_translator_def)
  have n: "\<not> loads_dynamic_register example_register_operand 6 (Reset example_translator)"
    by (simp add: loads_dynamic_register_def example_register_operand_def Reset_def
        example_translator_def)
  have c: "\<not> first_float_constant_use example_register_operand 6 (Reset example_translator)"
    by (simp add: first_float_constant_use_def example_register_operand_def)
  have u: "LoadOperand_used_swizzle_components example_register_operand 6 = 9"
    by (simp add: LoadOperand_used_swizzle_components_def example_register_operand_def upt_rec)
  have p: "PushSystemTemp 0 1 example_dynamic_translator =
             (0, example_dynamic_translator\<lparr>system_temp_count_current := 1, system_temp_count_max := 1\<rparr>)"
    by (simp add: PushSystemTemp_def example_dynamic_translator_def Reset_def emit_def Let_def
        example_translator_def)
  have i: "operand_index (storage_addressing_mode example_register_operand)
             (storage_index example_register_operand) example_dynamic_translator = Index_static 2"
    by (simp add: operand_index_def example_register_operand_def)
  have e: "shader_code example_dynamic_translator = []"
    by (simp add: example_dynamic_translator_def Reset_def)
  show ?thesis
    using LoadOperand_frame [of example_register_operand 6 example_dynamic_translator]
      LoadOperand_frame [of example_register_operand 6 "Reset example_translator"]
      d n c
    by (simp add: u p i e emit_def)
qed


section \<open>Merging and closing of conditionals\<close>

lemma EmitInstructionDisassembly_emit:
  "EmitInstructionDisassembly t = emit (disassembly_comment t) t"
  by (simp add: EmitInstructionDisassembly_def disassembly_comment_def emit_def Let_def)

lemma block_events_comment [simp]: "block_events (disassembly_comment t) = []"
  by (simp add: disassembly_comment_def Let_def)

lemma block_events_append [simp]: "block_events (xs @ ys) = block_events xs @ block_events ys"
  by (induction xs rule: block_events.induct) simp_all


lemma disassembly_comment_cong [simp]:
  "disassembly_comment (t\<lparr>shader_code := c\<rparr>) = disassembly_comment t"
  "disassembly_comment (t\<lparr>cf_exec_predicate_written := w\<rparr>) = disassembly_comment t"
  "disassembly_comment (t\<lparr>cf_exec_bool_constant := b\<rparr>) = disassembly_comment t"
  "disassembly_comment (t\<lparr>cf_exec_predicated := p\<rparr>) = disassembly_comment t"
  "disassembly_comment (t\<lparr>cf_instruction_predicate_if_open := p\<rparr>) = disassembly_comment t"
  by (simp_all add: disassembly_comment_def)

lemma merge_conditional:
  "cf_exec_bool_constant t = idx \<Longrightarrow> cf_exec_bool_constant_condition t = c \<Longrightarrow>
   UpdateExecConditionalsAndEmitDisassembly kConditional idx c t = EmitInstructionDisassembly t"
  by (simp add: UpdateExecConditionalsAndEmitDisassembly_def exec_merge_def)

lemma merge_predicated:
  "cf_exec_predicated t \<Longrightarrow> cf_exec_predicate_condition t = c \<Longrightarrow> \<not> cf_exec_predicate_written t \<Longrightarrow>
   UpdateExecConditionalsAndEmitDisassembly kPredicated idx c t = EmitInstructionDisassembly t"
  by (simp add: UpdateExecConditionalsAndEmitDisassembly_def exec_merge_def)

lemma close_code:
  "shader_code (CloseExecConditionals t) =
     shader_code t @ (if cf_instruction_predicate_if_open t then [OpEndIf] else []) @
     (if cf_exec_bool_constant t \<noteq> kCfExecBoolConstantNone \<or> cf_exec_predicated t
      then [OpEndIf] else [])"
  by (simp add: CloseExecConditionals_def CloseInstructionPredication_def emit_def Let_def)

lemma close_closed: "no_conditional_open (CloseExecConditionals t) \<and>
   \<not> cf_exec_predicate_written (CloseExecConditionals t)"
  by (simp add: CloseExecConditionals_def CloseInstructionPredication_def emit_def Let_def
      no_conditional_open_def)

lemma open_conditional:
  assumes "\<not> exec_merge kConditional idx c t"
  shows "shader_code (UpdateExecConditionalsAndEmitDisassembly kConditional idx c t) =
           shader_code (CloseExecConditionals t) @ disassembly_comment t @
           [OpAnd (Dest_R (system_temp_count_current t + temp_base t) 0b0001)
              (Select (drop_bit 5 idx AND 3)
                 (Src_CB (if cbuffer_index_bool_loop_constants t = kBindingIndexUnallocated
                          then cbuffer_count t else cbuffer_index_bool_loop_constants t)
                    (kBoolLoopConstants t) (Index_static (drop_bit 7 idx))))
              (Src_LU (push_bit (unat (idx AND 31)) 1)),
            OpIf c (Src_R (system_temp_count_current t + temp_base t) kXXXX)] \<and>
         cf_exec_bool_constant (UpdateExecConditionalsAndEmitDisassembly kConditional idx c t) = idx \<and>
         cf_exec_bool_constant_condition (UpdateExecConditionalsAndEmitDisassembly kConditional idx c t) = c \<and>
         \<not> cf_exec_predicated (UpdateExecConditionalsAndEmitDisassembly kConditional idx c t) \<and>
         \<not> cf_instruction_predicate_if_open (UpdateExecConditionalsAndEmitDisassembly kConditional idx c t) \<and>
         \<not> cf_exec_predicate_written (UpdateExecConditionalsAndEmitDisassembly kConditional idx c t)"
  using assms
  by (simp add: UpdateExecConditionalsAndEmitDisassembly_def EmitInstructionDisassembly_emit
      CloseExecConditionals_def CloseInstructionPredication_def PushSystemTemp_def
      PopSystemTemp_def emit_def Let_def temp_base_def)

lemma close_code': "shader_code (CloseExecConditionals t) = shader_code t @ closing_ops t"
  by (simp add: close_code closing_ops_def)

lemma close_frame:
  "system_temp_count_current (CloseExecConditionals t) = system_temp_count_current t"
  "temp_base (CloseExecConditionals t) = temp_base t"
  "system_temp_ps_pc_p0_a0 (CloseExecConditionals t) = system_temp_ps_pc_p0_a0 t"
  "disassembly_comment (CloseExecConditionals t) = disassembly_comment t"
  by (simp_all add: CloseExecConditionals_def CloseInstructionPredication_def emit_def Let_def
      temp_base_def)

lemma Emit_frame:
  "shader_code (EmitInstructionDisassembly t) = shader_code t @ disassembly_comment t"
  "cf_exec_bool_constant (EmitInstructionDisassembly t) = cf_exec_bool_constant t"
  "cf_exec_bool_constant_condition (EmitInstructionDisassembly t) = cf_exec_bool_constant_condition t"
  "cf_exec_predicated (EmitInstructionDisassembly t) = cf_exec_predicated t"
  "cf_exec_predicate_condition (EmitInstructionDisassembly t) = cf_exec_predicate_condition t"
  "cf_exec_predicate_written (EmitInstructionDisassembly t) = cf_exec_predicate_written t"
  "cf_instruction_predicate_if_open (EmitInstructionDisassembly t) = cf_instruction_predicate_if_open t"
  "system_temp_count_current (EmitInstructionDisassembly t) = system_temp_count_current t"
  "temp_base (EmitInstructionDisassembly t) = temp_base t"
  "system_temp_ps_pc_p0_a0 (EmitInstructionDisassembly t) = system_temp_ps_pc_p0_a0 t"
  by (simp_all add: EmitInstructionDisassembly_emit emit_def temp_base_def)

lemma open_conditional':
  assumes "\<not> exec_merge kConditional idx c t"
  shows "shader_code (UpdateExecConditionalsAndEmitDisassembly kConditional idx c t) =
           shader_code t @ closing_ops t @ disassembly_comment t @
           [bool_constant_test idx t, bool_constant_if c t]"
  using open_conditional [OF assms]
  by (simp add: close_code' bool_constant_test_def bool_constant_if_def)

lemma open_conditional_state:
  assumes "\<not> exec_merge kConditional idx c t"
  shows "cf_exec_bool_constant (UpdateExecConditionalsAndEmitDisassembly kConditional idx c t) = idx"
    "cf_exec_bool_constant_condition (UpdateExecConditionalsAndEmitDisassembly kConditional idx c t) = c"
    "\<not> cf_exec_predicated (UpdateExecConditionalsAndEmitDisassembly kConditional idx c t)"
    "\<not> cf_instruction_predicate_if_open (UpdateExecConditionalsAndEmitDisassembly kConditional idx c t)"
    "\<not> cf_exec_predicate_written (UpdateExecConditionalsAndEmitDisassembly kConditional idx c t)"
  using open_conditional [OF assms] by simp_all

lemma open_predicated:
  assumes "\<not> exec_merge kPredicated idx c t"
  shows "shader_code (UpdateExecConditionalsAndEmitDisassembly kPredicated idx c t) =
           shader_code t @ closing_ops t @ disassembly_comment t @ [predicate_if c t]"
    "cf_exec_bool_constant (UpdateExecConditionalsAndEmitDisassembly kPredicated idx c t) =
       kCfExecBoolConstantNone"
    "cf_exec_predicated (UpdateExecConditionalsAndEmitDisassembly kPredicated idx c t)"
    "cf_exec_predicate_condition (UpdateExecConditionalsAndEmitDisassembly kPredicated idx c t) = c"
    "\<not> cf_instruction_predicate_if_open (UpdateExecConditionalsAndEmitDisassembly kPredicated idx c t)"
    "\<not> cf_exec_predicate_written (UpdateExecConditionalsAndEmitDisassembly kPredicated idx c t)"
  using assms
  by (simp_all add: UpdateExecConditionalsAndEmitDisassembly_def EmitInstructionDisassembly_emit
      CloseExecConditionals_def CloseInstructionPredication_def emit_def Let_def temp_base_def
      closing_ops_def predicate_if_def)

lemma closing_events: "block_events (closing_ops t) = closing_events t"
  by (simp add: closing_ops_def closing_events_def)

lemma exec_events:
  "block_events (emitted t (UpdateExecConditionalsAndEmitDisassembly type idx c t)) =
     (if exec_merge type idx c t then []
      else closing_events t @ (if type = kUnconditional then [] else [BlockOpen c]))"
proof (cases "exec_merge type idx c t")
  case True
  then show ?thesis
    by (simp add: UpdateExecConditionalsAndEmitDisassembly_def Emit_frame emitted_def)
next
  case False
  show ?thesis
  proof (cases type)
    case kUnconditional
    then show ?thesis using False
      by (simp add: UpdateExecConditionalsAndEmitDisassembly_def Emit_frame emitted_def
          close_code' close_frame closing_events)
  next
    case kConditional
    then show ?thesis using False open_conditional' [of idx c t]
      by (simp add: emitted_def closing_events bool_constant_test_def bool_constant_if_def)
  next
    case kPredicated
    then show ?thesis using False open_predicated(1) [of idx c t]
      by (simp add: emitted_def closing_events predicate_if_def)
  qed
qed






lemma intervening_frame:
  "shader_code (intervening w t) = shader_code t"
  "cf_exec_bool_constant (intervening w t) = cf_exec_bool_constant t"
  "cf_exec_bool_constant_condition (intervening w t) = cf_exec_bool_constant_condition t"
  "cf_exec_predicated (intervening w t) = cf_exec_predicated t"
  "cf_exec_predicate_condition (intervening w t) = cf_exec_predicate_condition t"
  "cf_instruction_predicate_if_open (intervening w t) = cf_instruction_predicate_if_open t"
  "cf_exec_predicate_written (intervening w t) = (w \<or> cf_exec_predicate_written t)"
  by (simp_all add: intervening_def mark_predicate_written_def)






lemma extends_iff: "extends t t' = (\<exists>ops. shader_code t' = shader_code t @ ops)"
proof
  assume "extends t t'"
  then have "shader_code t' = shader_code t @ drop (length (shader_code t)) (shader_code t')"
    unfolding extends_def by (metis append_take_drop_id)
  then show "\<exists>ops. shader_code t' = shader_code t @ ops" ..
next
  assume "\<exists>ops. shader_code t' = shader_code t @ ops"
  then show "extends t t'" by (auto simp: extends_def)
qed

lemma keeps_refl: "keeps_conditionals t t"
  by (simp add: keeps_conditionals_def extends_def)

lemma keeps_emit: "keeps_conditionals t x \<Longrightarrow> keeps_conditionals t (emit ops x)"
  by (auto simp: keeps_conditionals_def extends_iff emit_def)

lemma keeps_push: "keeps_conditionals t x \<Longrightarrow> keeps_conditionals t (snd (PushSystemTemp z c x))"
  by (auto simp: keeps_conditionals_def extends_iff PushSystemTemp_def emit_def Let_def)

lemma keeps_pop: "keeps_conditionals t x \<Longrightarrow> keeps_conditionals t (snd (PopSystemTemp c x))"
  by (auto simp: keeps_conditionals_def extends_iff PopSystemTemp_def)

lemma keeps_jump: "keeps_conditionals t x \<Longrightarrow> keeps_conditionals t (JumpToLabel a x)"
  by (simp add: JumpToLabel_def keeps_emit)

lemma keeps_alloc: "keeps_conditionals t x \<Longrightarrow> keeps_conditionals t (allocate_bool_loop_constants x)"
  by (auto simp: keeps_conditionals_def extends_iff allocate_bool_loop_constants_def)

lemma keeps_disassembly:
  "keeps_conditionals t x \<Longrightarrow> keeps_conditionals t (emit_disassembly_of text x)"
  by (auto simp: keeps_conditionals_def extends_iff emit_disassembly_of_def
      EmitInstructionDisassembly_emit emit_def)

lemma keeps_if:
  "keeps_conditionals t a \<Longrightarrow> keeps_conditionals t b \<Longrightarrow> keeps_conditionals t (if c then a else b)"
  by simp

lemmas keeps_rules =
  keeps_if keeps_emit keeps_push keeps_pop keeps_jump keeps_alloc keeps_disassembly keeps_refl

lemma keeps_label:
  "cf_index \<noteq> 0 \<Longrightarrow> keeps_conditionals (CloseExecConditionals t) (ProcessLabel cf_index t)"
  unfolding ProcessLabel_def Let_def case_prod_beta
  by (simp only: if_False) (intro keeps_rules)

lemma keeps_loop_start:
  "keeps_conditionals (CloseExecConditionals t) (ProcessLoopStartInstruction instr t)"
  unfolding ProcessLoopStartInstruction_def Let_def case_prod_beta
  by (intro keeps_rules)

lemma keeps_loop_end:
  "keeps_conditionals (CloseExecConditionals t) (ProcessLoopEndInstruction instr t)"
  unfolding ProcessLoopEndInstruction_def Let_def case_prod_beta
  by (intro keeps_rules)

lemma closed_after:
  "keeps_conditionals (CloseExecConditionals t) t' \<Longrightarrow>
   (\<exists>own. shader_code t' = shader_code t @ closing_ops t @ own) \<and> no_conditional_open t'"
  using close_closed [of t]
  by (auto simp: keeps_conditionals_def extends_iff close_code' no_conditional_open_def)

lemma exec_merge_buffer:
  "exec_merge type idx c (t\<lparr>instruction_disassembly_buffer := b\<rparr>) = exec_merge type idx c t"
  by (cases type) (simp_all add: exec_merge_def)

lemma exec_instruction_open:
  "cf_instruction_predicate_if_open (UpdateExecConditionalsAndEmitDisassembly type idx c t) =
     (exec_merge type idx c t \<and> cf_instruction_predicate_if_open t)"
proof (cases "exec_merge type idx c t")
  case True
  then show ?thesis by (simp add: UpdateExecConditionalsAndEmitDisassembly_def Emit_frame)
next
  case False
  show ?thesis
  proof (cases type)
    case kUnconditional
    then show ?thesis using False close_closed [of t]
      by (simp add: UpdateExecConditionalsAndEmitDisassembly_def Emit_frame no_conditional_open_def)
  next
    case kConditional
    then show ?thesis using False open_conditional_state [of idx c t] by simp
  next
    case kPredicated
    then show ?thesis using False open_predicated [of idx c t] by simp
  qed
qed

lemma exec_guard_after:
  "exec_merge type idx c (UpdateExecConditionalsAndEmitDisassembly type idx c t)"
proof (cases "exec_merge type idx c t")
  case True
  then show ?thesis
    by (cases type)
      (simp_all add: UpdateExecConditionalsAndEmitDisassembly_def Emit_frame exec_merge_def)
next
  case False
  show ?thesis
  proof (cases type)
    case kUnconditional
    then show ?thesis using False close_closed [of t]
      by (simp add: UpdateExecConditionalsAndEmitDisassembly_def Emit_frame no_conditional_open_def
          exec_merge_def)
  next
    case kConditional
    then show ?thesis using False open_conditional_state [of idx c t] by (simp add: exec_merge_def)
  next
    case kPredicated
    then show ?thesis using False open_predicated [of idx c t] by (simp add: exec_merge_def)
  qed
qed

lemma close_instruction:
  "shader_code (CloseInstructionPredication t) =
     shader_code t @ (if cf_instruction_predicate_if_open t then [OpEndIf] else [])"
  "\<not> cf_instruction_predicate_if_open (CloseInstructionPredication t)"
  "exec_merge type idx c (CloseInstructionPredication t) = exec_merge type idx c t"
  by (cases type; simp add: CloseInstructionPredication_def emit_def exec_merge_def)+

lemma jump_to_label:
  "shader_code (JumpToLabel a t) =
     shader_code t @ [OpMov (Dest_R (system_temp_ps_pc_p0_a0 t) 0b0010) (Src_LU a) False, OpContinue]"
  "cf_instruction_predicate_if_open (JumpToLabel a t) = cf_instruction_predicate_if_open t"
  "exec_merge type idx c (JumpToLabel a t) = exec_merge type idx c t"
  by (cases type; simp add: JumpToLabel_def emit_def exec_merge_def)+

lemma ExecType_case_id:
  "(case type of kConditional \<Rightarrow> kConditional | kPredicated \<Rightarrow> kPredicated
    | kUnconditional \<Rightarrow> kUnconditional) = type"
  by (cases type) simp_all

lemma jump_eq:
  "ProcessJumpInstruction instr t =
     JumpToLabel (jump_target_address instr)
       (CloseInstructionPredication
          (UpdateExecConditionalsAndEmitDisassembly (jump_type instr)
             (jump_bool_constant_index instr) (jump_condition instr)
             (if emit_source_map t
              then t\<lparr>instruction_disassembly_buffer := jump_disassembly instr\<rparr> else t)))"
  by (simp add: ProcessJumpInstruction_def Let_def ExecType_case_id)

lemma jump_state:
  "\<not> cf_instruction_predicate_if_open (ProcessJumpInstruction instr t) \<and>
   jump_merges instr (ProcessJumpInstruction instr t)"
  unfolding jump_eq jump_merges_def jump_to_label close_instruction
  by (simp add: close_instruction exec_guard_after)

lemma exec_from_closed:
  assumes closed: "no_conditional_open t"
    and idx: "type = kConditional \<longrightarrow> idx \<noteq> kCfExecBoolConstantNone"
  shows "block_events (emitted t (UpdateExecConditionalsAndEmitDisassembly type idx c t)) =
           guard_opens (exec_guard type idx c)"
    and "closing_events (between_execs type idx c (intervening w) t) =
           guard_closes (exec_guard type idx c)"
    and "(type' = kConditional \<longrightarrow> idx' \<noteq> kCfExecBoolConstantNone) \<Longrightarrow>
         exec_merge type' idx' c' (between_execs type idx c (intervening w) t) =
           guards_identical (exec_guard type idx c) w (exec_guard type' idx' c')"
    and "closing_ops (between_execs type idx c (intervening w) t) =
           guard_closing (exec_guard type idx c)"
    and "\<not> cf_instruction_predicate_if_open (between_execs type idx c (intervening w) t)"
    and "cf_exec_bool_constant (between_execs type idx c (intervening w) t) = kCfExecBoolConstantNone \<or>
         \<not> cf_exec_predicated (between_execs type idx c (intervening w) t)"
proof -
  let ?t1 = "UpdateExecConditionalsAndEmitDisassembly type idx c t"
  have c0: "closing_events t = []"
    using closed by (simp add: closing_events_def no_conditional_open_def)
  have m: "exec_merge type idx c t = (type = kUnconditional)"
    using closed idx by (cases type) (auto simp: exec_merge_def no_conditional_open_def)
  show "block_events (emitted t ?t1) = guard_opens (exec_guard type idx c)"
    unfolding exec_events m c0 by (cases type) (simp_all add: exec_guard_def)
  have stc: "cf_exec_bool_constant ?t1 = (if type = kConditional then idx else kCfExecBoolConstantNone) \<and>
    (type = kConditional \<longrightarrow> cf_exec_bool_constant_condition ?t1 = c) \<and>
    cf_exec_predicated ?t1 = (type = kPredicated) \<and>
    (type = kPredicated \<longrightarrow> cf_exec_predicate_condition ?t1 = c \<and> \<not> cf_exec_predicate_written ?t1) \<and>
    \<not> cf_instruction_predicate_if_open ?t1"
  proof (cases type)
    case kUnconditional
    then have e: "?t1 = EmitInstructionDisassembly t"
      using m by (simp add: UpdateExecConditionalsAndEmitDisassembly_def)
    show ?thesis
      unfolding e using closed kUnconditional
      by (simp add: Emit_frame no_conditional_open_def)
  next
    case kConditional
    then have n: "\<not> exec_merge kConditional idx c t" using m by simp
    show ?thesis
      using open_conditional_state [OF n] kConditional by simp
  next
    case kPredicated
    then have n: "\<not> exec_merge kPredicated idx c t" using m by simp
    show ?thesis
      using open_predicated [OF n] kPredicated by simp
  qed
  have st: "cf_exec_bool_constant ?t1 = (if type = kConditional then idx else kCfExecBoolConstantNone)"
    "type = kConditional \<longrightarrow> cf_exec_bool_constant_condition ?t1 = c"
    "cf_exec_predicated ?t1 = (type = kPredicated)"
    "type = kPredicated \<longrightarrow> cf_exec_predicate_condition ?t1 = c \<and> \<not> cf_exec_predicate_written ?t1"
    "\<not> cf_instruction_predicate_if_open ?t1"
    using stc by simp_all
  show "closing_events (between_execs type idx c (intervening w) t) =
           guard_closes (exec_guard type idx c)"
    using st idx
    by (cases type)
      (simp_all add: between_execs_def closing_events_def intervening_frame exec_guard_def)
  show "exec_merge type' idx' c' (between_execs type idx c (intervening w) t) =
           guards_identical (exec_guard type idx c) w (exec_guard type' idx' c')"
    if "type' = kConditional \<longrightarrow> idx' \<noteq> kCfExecBoolConstantNone"
    using st idx that
    by (cases type; cases type')
      (auto simp: between_execs_def exec_merge_def intervening_frame exec_guard_def)
  show "closing_ops (between_execs type idx c (intervening w) t) =
           guard_closing (exec_guard type idx c)"
    using st idx
    by (cases type)
      (simp_all add: between_execs_def closing_ops_def intervening_frame exec_guard_def)
  show "\<not> cf_instruction_predicate_if_open (between_execs type idx c (intervening w) t)"
    using st by (simp add: between_execs_def intervening_frame)
  show "cf_exec_bool_constant (between_execs type idx c (intervening w) t) = kCfExecBoolConstantNone \<or>
         \<not> cf_exec_predicated (between_execs type idx c (intervening w) t)"
    using st by (cases type) (simp_all add: between_execs_def intervening_frame)
qed


lemma example_closed: "no_conditional_open (Reset example_translator)"
  by (simp add: no_conditional_open_def Reset_def)

lemma example_idx: "(5 :: u32) \<noteq> kCfExecBoolConstantNone" "(6 :: u32) \<noteq> kCfExecBoolConstantNone"
  by (simp_all add: kCfExecBoolConstantNone_def)


lemma example_pair_code:
  "shader_code (CloseExecConditionals
     (UpdateExecConditionalsAndEmitDisassembly kConditional 5 True
        (UpdateExecConditionalsAndEmitDisassembly kConditional 5 True (Reset example_translator)))) =
   [OpAnd (Dest_R 8 1) (Select 0 (Src_CB 1 2 (Index_static 0))) (Src_LU 32),
    OpIf True (Src_R 8 kXXXX), OpEndIf]"
proof -
  let ?t0 = "Reset example_translator"
  let ?t1 = "UpdateExecConditionalsAndEmitDisassembly kConditional 5 True ?t0"
  have m: "\<not> exec_merge kConditional 5 True ?t0"
    by (simp add: exec_merge_def Reset_def kCfExecBoolConstantNone_def)
  have c1: "shader_code ?t1 =
     [OpAnd (Dest_R 8 1) (Select 0 (Src_CB 1 2 (Index_static 0))) (Src_LU 32),
      OpIf True (Src_R 8 kXXXX)]"
    unfolding open_conditional' [OF m]
    by (simp add: closing_ops_def disassembly_comment_def bool_constant_test_def
        bool_constant_if_def temp_base_def Reset_def example_translator_def
        kCfExecBoolConstantNone_def kBindingIndexUnallocated_def)
  have m2: "exec_merge kConditional 5 True ?t1"
    using open_conditional_state [OF m] by (simp add: exec_merge_def)
  have e: "disassembly_comment ?t1 = []"
    using m by (simp add: disassembly_comment_def UpdateExecConditionalsAndEmitDisassembly_def
        EmitInstructionDisassembly_emit CloseExecConditionals_def CloseInstructionPredication_def
        PushSystemTemp_def PopSystemTemp_def emit_def Let_def Reset_def example_translator_def)
  have t2: "UpdateExecConditionalsAndEmitDisassembly kConditional 5 True ?t1 = ?t1"
    using m2 e by (simp add: UpdateExecConditionalsAndEmitDisassembly_def
        EmitInstructionDisassembly_emit emit_def)
  have c: "closing_ops ?t1 = [OpEndIf]"
    using open_conditional_state [OF m] by (simp add: closing_ops_def kCfExecBoolConstantNone_def)
  show ?thesis unfolding t2 close_code' c c1 by simp
qed

lemma exec_config:
  "emit_source_map (UpdateExecConditionalsAndEmitDisassembly type idx c t) = emit_source_map t"
  "system_temp_ps_pc_p0_a0 (UpdateExecConditionalsAndEmitDisassembly type idx c t) =
     system_temp_ps_pc_p0_a0 t"
  by (cases type;
      simp add: UpdateExecConditionalsAndEmitDisassembly_def EmitInstructionDisassembly_emit
        CloseExecConditionals_def CloseInstructionPredication_def PushSystemTemp_def
        PopSystemTemp_def emit_def Let_def)+

lemma exec_code:
  "shader_code (UpdateExecConditionalsAndEmitDisassembly type idx c s) =
     shader_code s @
     (if exec_merge type idx c s then disassembly_comment s
      else closing_ops s @ disassembly_comment s @ guard_opening (exec_guard type idx c) s)"
proof (cases "exec_merge type idx c s")
  case True
  then show ?thesis
    by (simp add: UpdateExecConditionalsAndEmitDisassembly_def Emit_frame)
next
  case False
  show ?thesis
  proof (cases type)
    case kUnconditional
    then show ?thesis using False
      by (simp add: UpdateExecConditionalsAndEmitDisassembly_def Emit_frame close_code'
          close_frame exec_guard_def)
  next
    case kConditional
    then show ?thesis using False open_conditional' [of idx c s]
      by (simp add: exec_guard_def)
  next
    case kPredicated
    then show ?thesis using False open_predicated(1) [of idx c s]
      by (simp add: exec_guard_def)
  qed
qed

lemma merge_iff_kept:
  assumes "one_conditional s"
    and "type = kConditional \<longrightarrow> idx \<noteq> kCfExecBoolConstantNone"
  shows "exec_merge type idx c s = guard_kept (exec_guard type idx c) s"
  using assms
  by (cases type) (auto simp: exec_merge_def exec_guard_def one_conditional_def)

lemma exec_guard_open_after:
  assumes "one_conditional s"
    and "type = kConditional \<longrightarrow> idx \<noteq> kCfExecBoolConstantNone"
  shows "guard_is_open (exec_guard type idx c) (UpdateExecConditionalsAndEmitDisassembly type idx c s) \<and>
         one_conditional (UpdateExecConditionalsAndEmitDisassembly type idx c s)"
proof (cases "exec_merge type idx c s")
  case True
  then have k: "guard_kept (exec_guard type idx c) s"
    using merge_iff_kept [OF assms, of c] by simp
  have e: "UpdateExecConditionalsAndEmitDisassembly type idx c s = EmitInstructionDisassembly s"
    using True by (simp add: UpdateExecConditionalsAndEmitDisassembly_def)
  show ?thesis
    unfolding e using k assms(1)
    by (cases type) (simp_all add: exec_guard_def one_conditional_def Emit_frame)
next
  case False
  show ?thesis
  proof (cases type)
    case kUnconditional
    then show ?thesis using False close_closed [of s]
      by (simp add: UpdateExecConditionalsAndEmitDisassembly_def Emit_frame exec_guard_def
          one_conditional_def no_conditional_open_def)
  next
    case kConditional
    then show ?thesis using False open_conditional_state [of idx c s]
      by (simp add: exec_guard_def one_conditional_def)
  next
    case kPredicated
    then show ?thesis using False open_predicated [of idx c s]
      by (simp add: exec_guard_def one_conditional_def)
  qed
qed

lemma one_conditional_kept:
  "one_conditional (Reset t)"
  "no_conditional_open t \<Longrightarrow> one_conditional t"
  "one_conditional (CloseExecConditionals t)"
  "one_conditional t \<Longrightarrow> one_conditional (UpdateExecConditionalsAndEmitDisassembly type idx c t)"
proof -
  show "one_conditional (Reset t)" by (simp add: one_conditional_def Reset_def)
  show "no_conditional_open t \<Longrightarrow> one_conditional t"
    by (simp add: one_conditional_def no_conditional_open_def)
  show "one_conditional (CloseExecConditionals t)"
    using close_closed [of t] by (simp add: one_conditional_def no_conditional_open_def)
  show "one_conditional (UpdateExecConditionalsAndEmitDisassembly type idx c t)"
    if "one_conditional t"
  proof (cases "exec_merge type idx c t")
    case True
    then show ?thesis using that
      by (simp add: UpdateExecConditionalsAndEmitDisassembly_def Emit_frame one_conditional_def)
  next
    case False
    show ?thesis
    proof (cases type)
      case kUnconditional
      then show ?thesis using False close_closed [of t]
        by (simp add: UpdateExecConditionalsAndEmitDisassembly_def Emit_frame
            one_conditional_def no_conditional_open_def)
    next
      case kConditional
      then show ?thesis using False open_conditional_state [of idx c t]
        by (simp add: one_conditional_def)
    next
      case kPredicated
      then show ?thesis using False open_predicated [of idx c t]
        by (simp add: one_conditional_def)
    qed
  qed
qed

lemma buffer_frame:
  "closing_ops (t\<lparr>instruction_disassembly_buffer := b\<rparr>) = closing_ops t"
  "guard_opening g (t\<lparr>instruction_disassembly_buffer := b\<rparr>) = guard_opening g t"
  "guard_kept g (t\<lparr>instruction_disassembly_buffer := b\<rparr>) = guard_kept g t"
  "one_conditional (t\<lparr>instruction_disassembly_buffer := b\<rparr>) = one_conditional t"
  by (cases g; simp add: closing_ops_def bool_constant_test_def bool_constant_if_def
      predicate_if_def temp_base_def one_conditional_def)+

lemma close_instruction_frame:
  "system_temp_ps_pc_p0_a0 (CloseInstructionPredication t) = system_temp_ps_pc_p0_a0 t"
  "guard_is_open g (CloseInstructionPredication t) = guard_is_open g t"
  "one_conditional (CloseInstructionPredication t) = one_conditional t"
  by (cases g; simp add: CloseInstructionPredication_def emit_def one_conditional_def)+

lemma jump_to_label_frame:
  "guard_is_open g (JumpToLabel a t) = guard_is_open g t"
  "one_conditional (JumpToLabel a t) = one_conditional t"
  by (cases g; simp add: JumpToLabel_def emit_def one_conditional_def)+

lemma jump_emits:
  assumes one: "one_conditional t"
    and idx: "jump_type jump = kConditional \<longrightarrow>
              jump_bool_constant_index jump \<noteq> kCfExecBoolConstantNone"
  shows "shader_code (ProcessJumpInstruction jump t) =
           shader_code t @
           (if guard_kept (jump_guard jump) t
            then jump_comment jump t @
                 (if cf_instruction_predicate_if_open t then [OpEndIf] else [])
            else closing_ops t @ jump_comment jump t @ guard_opening (jump_guard jump) t) @
           jump_code (jump_target_address jump) t"
    and "\<not> cf_instruction_predicate_if_open (ProcessJumpInstruction jump t)"
    and "guard_is_open (jump_guard jump) (ProcessJumpInstruction jump t)"
    and "one_conditional (ProcessJumpInstruction jump t)"
proof -
  let ?t1 = "if emit_source_map t
             then t\<lparr>instruction_disassembly_buffer := jump_disassembly jump\<rparr> else t"
  let ?t2 = "UpdateExecConditionalsAndEmitDisassembly (jump_type jump)
               (jump_bool_constant_index jump) (jump_condition jump) ?t1"
  have one1: "one_conditional ?t1" using one by (simp add: buffer_frame)
  have m: "exec_merge (jump_type jump) (jump_bool_constant_index jump) (jump_condition jump) ?t1 =
           guard_kept (jump_guard jump) t"
    unfolding merge_iff_kept [OF one1 idx] jump_guard_def by (simp add: buffer_frame)
  have f: "shader_code ?t1 = shader_code t" "closing_ops ?t1 = closing_ops t"
    "guard_opening (jump_guard jump) ?t1 = guard_opening (jump_guard jump) t"
    "disassembly_comment ?t1 = jump_comment jump t"
    "cf_instruction_predicate_if_open ?t1 = cf_instruction_predicate_if_open t"
    "system_temp_ps_pc_p0_a0 ?t1 = system_temp_ps_pc_p0_a0 t"
    by (simp_all add: buffer_frame jump_comment_def)
  have c2: "shader_code ?t2 =
     shader_code t @
     (if guard_kept (jump_guard jump) t then jump_comment jump t
      else closing_ops t @ jump_comment jump t @ guard_opening (jump_guard jump) t)"
    unfolding exec_code m f jump_guard_def [symmetric] ..
  have o2: "cf_instruction_predicate_if_open ?t2 =
            (guard_kept (jump_guard jump) t \<and> cf_instruction_predicate_if_open t)"
    unfolding exec_instruction_open m f ..
  have p2: "system_temp_ps_pc_p0_a0 (CloseInstructionPredication ?t2) = system_temp_ps_pc_p0_a0 t"
    unfolding close_instruction_frame exec_config f ..
  show "shader_code (ProcessJumpInstruction jump t) =
           shader_code t @
           (if guard_kept (jump_guard jump) t
            then jump_comment jump t @
                 (if cf_instruction_predicate_if_open t then [OpEndIf] else [])
            else closing_ops t @ jump_comment jump t @ guard_opening (jump_guard jump) t) @
           jump_code (jump_target_address jump) t"
    unfolding jump_eq jump_to_label close_instruction c2 o2 p2 jump_code_def by simp
  show "\<not> cf_instruction_predicate_if_open (ProcessJumpInstruction jump t)"
    unfolding jump_eq jump_to_label by (simp add: close_instruction)
  show "guard_is_open (jump_guard jump) (ProcessJumpInstruction jump t)"
    and "one_conditional (ProcessJumpInstruction jump t)"
    unfolding jump_eq jump_to_label_frame close_instruction_frame jump_guard_def
    using exec_guard_open_after [OF one1 idx] by simp_all
qed

lemma jump_after_exec:
  assumes closed: "no_conditional_open s"
    and idx: "type = kConditional \<longrightarrow> j \<noteq> kCfExecBoolConstantNone"
    and jidx: "jump_type jump = kConditional \<longrightarrow>
               jump_bool_constant_index jump \<noteq> kCfExecBoolConstantNone"
  shows "emitted (between_execs type j d (intervening w) s)
           (ProcessJumpInstruction jump (between_execs type j d (intervening w) s)) =
         (if guards_identical (exec_guard type j d) w (jump_guard jump)
          then jump_comment jump (between_execs type j d (intervening w) s)
          else guard_closing (exec_guard type j d) @
               jump_comment jump (between_execs type j d (intervening w) s) @
               guard_opening (jump_guard jump) (between_execs type j d (intervening w) s)) @
         jump_code (jump_target_address jump) (between_execs type j d (intervening w) s)"
proof -
  let ?s = "between_execs type j d (intervening w) s"
  have one: "one_conditional ?s"
    using exec_from_closed(6) [OF closed idx, where c = d and w = w]
    by (simp add: one_conditional_def)
  have k: "guard_kept (jump_guard jump) ?s =
           guards_identical (exec_guard type j d) w (jump_guard jump)"
    unfolding jump_guard_def merge_iff_kept [OF one jidx, symmetric]
    using jidx by (rule exec_from_closed(3) [OF closed idx])
  have c: "closing_ops ?s = guard_closing (exec_guard type j d)"
    by (rule exec_from_closed(4) [OF closed idx])
  have o: "\<not> cf_instruction_predicate_if_open ?s"
    by (rule exec_from_closed(5) [OF closed idx])
  show ?thesis
    using jump_emits(1) [OF one jidx] unfolding k c
    by (simp add: emitted_def o)
qed

text \<open>
  C6, as the code has it. A label other than label 0, a loop start and a loop end first
  emit the block ends of the open instruction-level and exec-level conditionals, then
  their own code, and leave no conditional open. A jump is treated like an exec. When
  the open exec-level conditional is that of the jump's guard and can be kept, it is
  kept open: the jump emits the block end of the instruction-level conditional if one is
  open, and then its own code. Otherwise, also for an unconditional jump met with a
  conditional open, the jump emits the block ends of everything that is open, then the
  opening of its own guard, and then its own code. Either way no instruction-level
  conditional is open after the jump, and the exec-level conditional of the jump's guard
  is. In particular, for a jump that follows an exec that started with no conditional
  open: when the two guards are identical the jump emits its own code only, and
  otherwise it closes the conditional of the exec, opens its own, and emits its own code.
\<close>

theorem boundaries_close_conditionals:
  "(cf_index \<noteq> 0 \<longrightarrow>
      (\<exists>own. shader_code (ProcessLabel cf_index t) = shader_code t @ closing_ops t @ own) \<and>
      no_conditional_open (ProcessLabel cf_index t)) \<and>
   (\<exists>own. shader_code (ProcessLoopStartInstruction loop_start t) =
           shader_code t @ closing_ops t @ own) \<and>
   no_conditional_open (ProcessLoopStartInstruction loop_start t) \<and>
   (\<exists>own. shader_code (ProcessLoopEndInstruction loop_end t) =
           shader_code t @ closing_ops t @ own) \<and>
   no_conditional_open (ProcessLoopEndInstruction loop_end t) \<and>
   (one_conditional t \<and>
    (jump_type jump = kConditional \<longrightarrow>
       jump_bool_constant_index jump \<noteq> kCfExecBoolConstantNone) \<longrightarrow>
      shader_code (ProcessJumpInstruction jump t) =
        shader_code t @
        (if guard_kept (jump_guard jump) t
         then jump_comment jump t @
              (if cf_instruction_predicate_if_open t then [OpEndIf] else [])
         else closing_ops t @ jump_comment jump t @ guard_opening (jump_guard jump) t) @
        jump_code (jump_target_address jump) t \<and>
      \<not> cf_instruction_predicate_if_open (ProcessJumpInstruction jump t) \<and>
      guard_is_open (jump_guard jump) (ProcessJumpInstruction jump t) \<and>
      one_conditional (ProcessJumpInstruction jump t)) \<and>
   (no_conditional_open s \<and>
    (type = kConditional \<longrightarrow> j \<noteq> kCfExecBoolConstantNone) \<and>
    (jump_type jump = kConditional \<longrightarrow>
       jump_bool_constant_index jump \<noteq> kCfExecBoolConstantNone) \<longrightarrow>
      emitted (between_execs type j d (intervening w) s)
        (ProcessJumpInstruction jump (between_execs type j d (intervening w) s)) =
      (if guards_identical (exec_guard type j d) w (jump_guard jump)
       then jump_comment jump (between_execs type j d (intervening w) s)
       else guard_closing (exec_guard type j d) @
            jump_comment jump (between_execs type j d (intervening w) s) @
            guard_opening (jump_guard jump) (between_execs type j d (intervening w) s)) @
      jump_code (jump_target_address jump) (between_execs type j d (intervening w) s))"
proof -
  have label: "cf_index \<noteq> 0 \<longrightarrow>
      (\<exists>own. shader_code (ProcessLabel cf_index t) = shader_code t @ closing_ops t @ own) \<and>
      no_conditional_open (ProcessLabel cf_index t)"
  proof
    assume "cf_index \<noteq> 0"
    then have "keeps_conditionals (CloseExecConditionals t) (ProcessLabel cf_index t)"
      by (rule keeps_label)
    then show "(\<exists>own. shader_code (ProcessLabel cf_index t) = shader_code t @ closing_ops t @ own) \<and>
      no_conditional_open (ProcessLabel cf_index t)"
      by (rule closed_after)
  qed
  have start: "(\<exists>own. shader_code (ProcessLoopStartInstruction loop_start t) =
           shader_code t @ closing_ops t @ own) \<and>
     no_conditional_open (ProcessLoopStartInstruction loop_start t)"
    by (rule closed_after) (rule keeps_loop_start)
  have "end": "(\<exists>own. shader_code (ProcessLoopEndInstruction loop_end t) =
           shader_code t @ closing_ops t @ own) \<and>
     no_conditional_open (ProcessLoopEndInstruction loop_end t)"
    by (rule closed_after) (rule keeps_loop_end)
  have jump: "one_conditional t \<and>
    (jump_type jump = kConditional \<longrightarrow>
       jump_bool_constant_index jump \<noteq> kCfExecBoolConstantNone) \<longrightarrow>
      shader_code (ProcessJumpInstruction jump t) =
        shader_code t @
        (if guard_kept (jump_guard jump) t
         then jump_comment jump t @
              (if cf_instruction_predicate_if_open t then [OpEndIf] else [])
         else closing_ops t @ jump_comment jump t @ guard_opening (jump_guard jump) t) @
        jump_code (jump_target_address jump) t \<and>
      \<not> cf_instruction_predicate_if_open (ProcessJumpInstruction jump t) \<and>
      guard_is_open (jump_guard jump) (ProcessJumpInstruction jump t) \<and>
      one_conditional (ProcessJumpInstruction jump t)"
    using jump_emits by blast
  have after: "no_conditional_open s \<and>
    (type = kConditional \<longrightarrow> j \<noteq> kCfExecBoolConstantNone) \<and>
    (jump_type jump = kConditional \<longrightarrow>
       jump_bool_constant_index jump \<noteq> kCfExecBoolConstantNone) \<longrightarrow>
      emitted (between_execs type j d (intervening w) s)
        (ProcessJumpInstruction jump (between_execs type j d (intervening w) s)) =
      (if guards_identical (exec_guard type j d) w (jump_guard jump)
       then jump_comment jump (between_execs type j d (intervening w) s)
       else guard_closing (exec_guard type j d) @
            jump_comment jump (between_execs type j d (intervening w) s) @
            guard_opening (jump_guard jump) (between_execs type j d (intervening w) s)) @
      jump_code (jump_target_address jump) (between_execs type j d (intervening w) s)"
    using jump_after_exec by blast
  show ?thesis
    using label start "end" jump after by blast
qed

lemma example_open_state:
  "cf_exec_bool_constant example_open_translator = 5"
  "cf_exec_bool_constant_condition example_open_translator"
  "\<not> cf_exec_predicated example_open_translator"
  "\<not> cf_instruction_predicate_if_open example_open_translator"
  "\<not> emit_source_map example_open_translator"
  "system_temp_ps_pc_p0_a0 example_open_translator = 3"
proof -
  have m: "\<not> exec_merge kConditional 5 True (Reset example_translator)"
    by (simp add: exec_merge_def Reset_def kCfExecBoolConstantNone_def)
  show "cf_exec_bool_constant example_open_translator = 5"
    "cf_exec_bool_constant_condition example_open_translator"
    "\<not> cf_exec_predicated example_open_translator"
    "\<not> cf_instruction_predicate_if_open example_open_translator"
    using open_conditional_state [OF m] by (simp_all add: example_open_translator_def)
  show "\<not> emit_source_map example_open_translator"
    "system_temp_ps_pc_p0_a0 example_open_translator = 3"
    by (simp_all add: example_open_translator_def exec_config Reset_def example_translator_def)
qed

lemma example_open_closing: "closing_ops example_open_translator = [OpEndIf]"
  by (simp add: closing_ops_def example_open_state kCfExecBoolConstantNone_def)

theorem boundaries_close_conditionals_witness:
  "(3 :: u32) \<noteq> 0 \<and>
   \<not> no_conditional_open example_open_translator \<and>
   closing_ops example_open_translator = [OpEndIf] \<and>
   no_conditional_open (ProcessLabel 3 example_open_translator) \<and>
   one_conditional example_open_translator \<and>
   \<not> guard_kept (jump_guard example_other_jump) example_open_translator \<and>
   emitted example_open_translator
     (ProcessJumpInstruction example_other_jump example_open_translator) =
     [OpEndIf, OpMov (Dest_R 3 2) (Src_LU 9) False, OpContinue] \<and>
   no_conditional_open (ProcessJumpInstruction example_other_jump example_open_translator) \<and>
   no_conditional_open (Reset example_translator) \<and>
   \<not> guards_identical (exec_guard kConditional 5 True) False (jump_guard example_other_jump) \<and>
   emitted (between_execs kConditional 5 True (intervening False) (Reset example_translator))
     (ProcessJumpInstruction example_other_jump
        (between_execs kConditional 5 True (intervening False) (Reset example_translator))) =
     [OpEndIf, OpMov (Dest_R 3 2) (Src_LU 9) False, OpContinue]"
proof -
  have one: "one_conditional example_open_translator"
    by (simp add: one_conditional_def example_open_state)
  have g: "jump_guard example_other_jump = Unguarded"
    "jump_type example_other_jump \<noteq> kConditional"
    "jump_target_address example_other_jump = 9"
    by (simp_all add: jump_guard_def exec_guard_def example_other_jump_def)
  have k: "\<not> guard_kept Unguarded example_open_translator"
    by (simp add: example_open_state kCfExecBoolConstantNone_def)
  have c: "jump_comment example_other_jump example_open_translator = []"
    by (simp add: jump_comment_def disassembly_comment_def example_open_state)
  have j: "jump_code 9 example_open_translator = [OpMov (Dest_R 3 2) (Src_LU 9) False, OpContinue]"
    by (simp add: jump_code_def example_open_state)
  have b: "between_execs kConditional 5 True (intervening False) (Reset example_translator) =
           example_open_translator"
    by (simp add: between_execs_def intervening_def example_open_translator_def)
  have e: "exec_guard kConditional 5 True = BoolConstant 5 True"
    by (simp add: exec_guard_def)
  show ?thesis
    using boundaries_close_conditionals [where cf_index = 3 and t = example_open_translator
        and jump = example_other_jump and s = "Reset example_translator"
        and type = kConditional and j = 5 and d = True and w = False]
      example_open_closing one example_closed example_idx(1)
    by (simp add: g k c j b e emitted_def no_conditional_open_def example_open_state
        kCfExecBoolConstantNone_def)
qed

text \<open>
  The claim as stated fails for jumps: a conditional jump on the guard of the open exec
  emits no block end before its own code and leaves that conditional open, and a
  conditional jump met with nothing open leaves its own conditional open behind it.
\<close>

theorem jump_keeps_conditional_open_counterexample:
  "closing_ops example_open_translator = [OpEndIf] \<and>
   emitted example_open_translator (ProcessJumpInstruction example_jump example_open_translator) =
     [OpMov (Dest_R 3 2) (Src_LU 7) False, OpContinue] \<and>
   \<not> no_conditional_open (ProcessJumpInstruction example_jump example_open_translator) \<and>
   no_conditional_open (Reset example_translator) \<and>
   \<not> no_conditional_open (ProcessJumpInstruction example_jump (Reset example_translator))"
proof -
  have m: "exec_merge kConditional 5 True example_open_translator"
    by (simp add: exec_merge_def example_open_state)
  have u: "UpdateExecConditionalsAndEmitDisassembly kConditional 5 True example_open_translator =
           example_open_translator"
    using m by (simp add: UpdateExecConditionalsAndEmitDisassembly_def
        EmitInstructionDisassembly_def example_open_state)
  have j: "ProcessJumpInstruction example_jump example_open_translator =
           JumpToLabel 7 example_open_translator"
    unfolding jump_eq
    by (simp add: example_jump_def example_open_state u CloseInstructionPredication_def)
  have 1: "emitted example_open_translator
             (ProcessJumpInstruction example_jump example_open_translator) =
           [OpMov (Dest_R 3 2) (Src_LU 7) False, OpContinue]"
    unfolding j by (simp add: emitted_def jump_to_label example_open_state)
  have 2: "\<not> no_conditional_open (ProcessJumpInstruction example_jump example_open_translator)"
    unfolding j
    by (simp add: no_conditional_open_def JumpToLabel_def emit_def example_open_state
        kCfExecBoolConstantNone_def)
  have 3: "\<not> no_conditional_open (ProcessJumpInstruction example_jump (Reset example_translator))"
    using jump_state [of example_jump "Reset example_translator"]
    by (auto simp: jump_merges_def exec_merge_def example_jump_def no_conditional_open_def
        kCfExecBoolConstantNone_def)
  show ?thesis using 1 2 3 example_open_closing example_closed by simp
qed

section \<open>Pipeline requests that fail\<close>

lemma translate_and_store_frame:
  "pipelines (snd (translate_and_store env shader h c)) = pipelines c \<and>
   current_pipeline (snd (translate_and_store env shader h c)) = current_pipeline c \<and>
   creation_queue (snd (translate_and_store env shader h c)) = creation_queue c \<and>
   storage_write_pipeline_queue (snd (translate_and_store env shader h c)) =
     storage_write_pipeline_queue c \<and>
   pipeline_storage_file_flush_needed (snd (translate_and_store env shader h c)) =
     pipeline_storage_file_flush_needed c"
  by (simp add: translate_and_store_def split: prod.splits)

lemma EnsureShadersTranslated_frame:
  "pipelines (snd (EnsureShadersTranslated env v p h c)) = pipelines c \<and>
   current_pipeline (snd (EnsureShadersTranslated env v p h c)) = current_pipeline c \<and>
   creation_queue (snd (EnsureShadersTranslated env v p h c)) = creation_queue c \<and>
   storage_write_pipeline_queue (snd (EnsureShadersTranslated env v p h c)) =
     storage_write_pipeline_queue c \<and>
   pipeline_storage_file_flush_needed (snd (EnsureShadersTranslated env v p h c)) =
     pipeline_storage_file_flush_needed c"
  using translate_and_store_frame [of env v "Some h" c]
    translate_and_store_frame [of env _ None "snd (translate_and_store env v (Some h) c)"]
    translate_and_store_frame [of env _ None c]
  by (auto simp: EnsureShadersTranslated_def split: prod.splits option.splits if_splits)

lemma translate_and_store_result:
  "fst (translate_and_store env shader h c) =
     fst (TranslateShader env shader (sq_program_cntl env) h (shader_state c)) \<and>
   shader_state (snd (translate_and_store env shader h c)) =
     snd (TranslateShader env shader (sq_program_cntl env) h (shader_state c))"
  by (simp add: translate_and_store_def split: prod.splits)

lemma EnsureShadersTranslated_result:
  "fst (EnsureShadersTranslated env vertex pixel host_type c) =
     (\<not> vertex_translation_fails env vertex host_type c \<and>
      \<not> pixel_translation_fails env vertex pixel host_type c)"
proof (cases "is_translated env vertex (shader_state c)")
  case True
  then show ?thesis
    using translate_and_store_result [of env _ None c]
    by (auto simp: EnsureShadersTranslated_def vertex_translation_fails_def
        pixel_translation_fails_def shader_state_after_vertex_def split: option.splits)
next
  case False
  obtain ok c1 where v: "translate_and_store env vertex (Some host_type) c = (ok, c1)"
    by (cases "translate_and_store env vertex (Some host_type) c")
  have r: "ok = fst (TranslateShader env vertex (sq_program_cntl env) (Some host_type)
                     (shader_state c))"
    "shader_state c1 = snd (TranslateShader env vertex (sq_program_cntl env) (Some host_type)
                     (shader_state c))"
    using translate_and_store_result [of env vertex "Some host_type" c] v by simp_all
  show ?thesis
    using False v r translate_and_store_result [of env _ None c1]
    by (auto simp: EnsureShadersTranslated_def vertex_translation_fails_def
        pixel_translation_fails_def shader_state_after_vertex_def split: option.splits)
qed

lemma find_pipeline_None:
  "(find_pipeline hash d ps n = None) =
     (\<not> list_ex (\<lambda>entry. fst entry = hash \<and> description (pipeline_description (snd entry)) = d) ps)"
proof (induction ps arbitrary: n)
  case Nil
  then show ?case by simp
next
  case (Cons e ps)
  obtain h q where e: "e = (h, q)" by (cases e)
  show ?case unfolding e using Cons.IH [of "Suc n"] by simp
qed

lemma pipeline_cached_iff:
  "pipeline_cached env d c =
     (current_pipeline_matches d c \<or>
      find_pipeline (XXH64_description env d) d (pipelines c) 0 \<noteq> None)"
  using find_pipeline_None [of "XXH64_description env d" d "pipelines c" 0]
  by (simp add: pipeline_cached_def current_pipeline_matches_def)

text \<open>
  C9. \<open>ConfigurePipeline\<close> returns false exactly when the request fails: when building
  the state description fails, or when the pipeline is not cached and \<open>TranslateShader\<close>
  fails for the vertex shader or for the pixel shader. It then leaves both output
  parameters (the pipeline handle and the root signature) as they were, inserts no
  pipeline into the cache, leaves the current pipeline and the creation queue as they
  were, and appends nothing to the queue of pipeline descriptions to be written to the
  pipeline log.
\<close>

theorem ConfigurePipeline_failure:
  "fst (ConfigurePipeline env vertex pixel state_description
          pipeline_handle_out root_signature_out c) =
     (\<not> request_fails env vertex pixel state_description c) \<and>
   (request_fails env vertex pixel state_description c \<longrightarrow>
      (case ConfigurePipeline env vertex pixel state_description
              pipeline_handle_out root_signature_out c of
         (ok, handle, root, c') \<Rightarrow>
           handle = pipeline_handle_out \<and> root = root_signature_out \<and>
           pipelines c' = pipelines c \<and> current_pipeline c' = current_pipeline c \<and>
           creation_queue c' = creation_queue c \<and>
           storage_write_pipeline_queue c' = storage_write_pipeline_queue c \<and>
           pipeline_storage_file_flush_needed c' = pipeline_storage_file_flush_needed c))"
proof (cases state_description)
  case None
  then show ?thesis by (simp add: ConfigurePipeline_def request_fails_def)
next
  case (Some rd)
  obtain ok c1 where e: "EnsureShadersTranslated env vertex pixel
      (host_vertex_shader_type (description rd)) c = (ok, c1)"
    by (cases "EnsureShadersTranslated env vertex pixel
      (host_vertex_shader_type (description rd)) c")
  have f: "pipelines c1 = pipelines c \<and> current_pipeline c1 = current_pipeline c \<and>
     creation_queue c1 = creation_queue c \<and>
     storage_write_pipeline_queue c1 = storage_write_pipeline_queue c \<and>
     pipeline_storage_file_flush_needed c1 = pipeline_storage_file_flush_needed c"
    using EnsureShadersTranslated_frame [of env vertex pixel
      "host_vertex_shader_type (description rd)" c] e by simp
  have ok: "ok = (\<not> vertex_translation_fails env vertex
                      (host_vertex_shader_type (description rd)) c \<and>
                  \<not> pixel_translation_fails env vertex pixel
                      (host_vertex_shader_type (description rd)) c)"
    using EnsureShadersTranslated_result [of env vertex pixel
      "host_vertex_shader_type (description rd)" c] e by simp
  show ?thesis
  proof (cases "pipeline_cached env (description rd) c")
    case True
    then have "current_pipeline_matches (description rd) c \<or>
        find_pipeline (XXH64_description env (description rd)) (description rd) (pipelines c) 0
          \<noteq> None"
      by (simp add: pipeline_cached_iff)
    then show ?thesis using Some True
      by (auto simp: ConfigurePipeline_def request_fails_def Let_def split: option.splits)
  next
    case False
    then have n: "\<not> current_pipeline_matches (description rd) c"
      "find_pipeline (XXH64_description env (description rd)) (description rd) (pipelines c) 0
          = None"
      by (simp_all add: pipeline_cached_iff)
    show ?thesis using Some False n e f ok
      by (simp add: ConfigurePipeline_def request_fails_def Let_def)
  qed
qed

theorem ConfigurePipeline_failure_witness:
  "request_fails example_env 1 (Some 2) (Some example_runtime_description) example_cache \<and>
   \<not> fst (ConfigurePipeline example_env 1 (Some 2) (Some example_runtime_description)
            None None example_cache) \<and>
   fst (snd (ConfigurePipeline example_env 1 (Some 2) (Some example_runtime_description)
            None None example_cache)) = None \<and>
   pipelines (snd (snd (snd (ConfigurePipeline example_env 1 (Some 2)
            (Some example_runtime_description) None None example_cache)))) = [] \<and>
   storage_write_pipeline_queue (snd (snd (snd (ConfigurePipeline example_env 1 (Some 2)
            (Some example_runtime_description) None None example_cache)))) = [] \<and>
   request_fails example_env 2 (Some 1) (Some example_runtime_description) example_cache \<and>
   \<not> fst (ConfigurePipeline example_env 2 (Some 1) (Some example_runtime_description)
            None None example_cache) \<and>
   request_fails example_env 1 (Some 2) None example_cache \<and>
   \<not> request_fails example_env 1 (Some 3) (Some example_runtime_description) example_cache \<and>
   fst (ConfigurePipeline example_env 1 (Some 3) (Some example_runtime_description)
            None None example_cache)"
proof -
  have f: "request_fails example_env 1 (Some 2) (Some example_runtime_description) example_cache"
    by code_simp
  have v: "request_fails example_env 2 (Some 1) (Some example_runtime_description) example_cache"
    by code_simp
  have n: "request_fails example_env 1 (Some 2) None example_cache"
    by code_simp
  have s: "\<not> request_fails example_env 1 (Some 3) (Some example_runtime_description) example_cache"
    by code_simp
  have c: "pipelines example_cache = []" "storage_write_pipeline_queue example_cache = []"
    by (simp_all add: example_cache_def)
  show ?thesis
    using ConfigurePipeline_failure [of example_env 1 "Some 2" "Some example_runtime_description"
        None None example_cache]
      ConfigurePipeline_failure [of example_env 2 "Some 1" "Some example_runtime_description"
        None None example_cache]
      ConfigurePipeline_failure [of example_env 1 "Some 3" "Some example_runtime_description"
        None None example_cache] f v n s c
    by (simp add: case_prod_beta)
qed

section \<open>Replay of the shader log\<close>

lemma fread_middle:
  "n \<noteq> 0 \<Longrightarrow> n \<le> length r \<Longrightarrow> fread (pre @ r @ rest) (length pre) n = Some (take n r)"
  by (simp add: fread_def)

lemma fread_ucode_middle:
  "length r = hs + unat dw * 4 \<Longrightarrow>
   fread_ucode (pre @ r @ rest) (length pre + hs) dw = Some (drop hs r)"
  by (auto simp: fread_ucode_def fread_def unat_eq_0)

lemma replay_step:
  assumes ok: "record_complete fmt r"
    and v: "record_hash fmt r \<in> set (map fst (shaders st)) \<or>
            record_hash fmt r = XXH64 fmt (record_ucode fmt r)"
  shows "replay_shaders fmt (pre @ r @ rest) (length pre) st =
         replay_shaders fmt (pre @ r @ rest) (length pre + length r) (accept fmt st r)"
proof -
  let ?hs = "sizeof_ShaderStoredHeader fmt"
  from ok have hs: "?hs \<noteq> 0"
    and len: "length r = ?hs + unat (ucode_dword_count (record_header fmt r)) * 4"
    by (simp_all add: record_complete_def)
  from len have le: "?hs \<le> length r" by simp
  have f: "fread (pre @ r @ rest) (length pre) ?hs = Some (take ?hs r)"
    using hs le by (rule fread_middle)
  have u: "fread_ucode (pre @ r @ rest) (length pre + ?hs)
             (ucode_dword_count (record_header fmt r)) = Some (record_ucode fmt r)"
    unfolding record_ucode_def using len by (rule fread_ucode_middle)
  show ?thesis
  proof (cases "map_of (shaders st) (record_hash fmt r) = None")
    case True
    then have h: "record_hash fmt r = XXH64 fmt (record_ucode fmt r)"
      using v by (simp add: map_of_eq_None_iff)
    show ?thesis
      apply (subst replay_shaders.simps)
      apply (simp only: f option.case)
      apply (fold record_header_def)
      apply (fold record_hash_def)
      apply (simp only: u option.case)
      using h len True
      apply (simp add: accept_def add.assoc)
      done
  next
    case False
    show ?thesis
      apply (subst replay_shaders.simps)
      apply (simp only: f option.case)
      apply (fold record_header_def)
      apply (fold record_hash_def)
      using len False
      apply (simp add: accept_def add.assoc)
      done
  qed
qed

lemma records_accepted_cong:
  "set known = set known' \<Longrightarrow> records_accepted fmt known rs = records_accepted fmt known' rs"
proof (induction rs arbitrary: known known')
  case Nil
  then show ?case by simp
next
  case (Cons r rs)
  have "records_accepted fmt (record_hash fmt r # known) rs =
        records_accepted fmt (record_hash fmt r # known') rs"
    using Cons.prems by (intro Cons.IH) simp
  then show ?case using Cons.prems by simp
qed

lemma accept_keys:
  "set (map fst (shaders (accept fmt st r))) = insert (record_hash fmt r) (set (map fst (shaders st)))"
  by (auto simp: accept_def map_of_eq_None_iff image_iff)

lemma records_accepted_step:
  assumes "records_accepted fmt (map fst (shaders st)) (r # rs)"
  shows "records_accepted fmt (map fst (shaders (accept fmt st r))) rs"
proof -
  have "set (map fst (shaders (accept fmt st r))) = set (record_hash fmt r # map fst (shaders st))"
    using accept_keys [of fmt st r] by simp
  then have "records_accepted fmt (map fst (shaders (accept fmt st r))) rs =
             records_accepted fmt (record_hash fmt r # map fst (shaders st)) rs"
    by (rule records_accepted_cong)
  then show ?thesis using assms by simp
qed

lemma replay_records:
  "records_accepted fmt (map fst (shaders st)) rs \<Longrightarrow>
   replay_shaders fmt (pre @ concat rs @ tail) (length pre) st =
   replay_shaders fmt (pre @ concat rs @ tail) (length pre + length (concat rs))
     (foldl (accept fmt) st rs)"
proof (induction rs arbitrary: pre st)
  case Nil
  then show ?case by simp
next
  case (Cons r rs)
  then have r: "record_complete fmt r"
    and v: "record_hash fmt r \<in> set (map fst (shaders st)) \<or>
            record_hash fmt r = XXH64 fmt (record_ucode fmt r)"
    by simp_all
  have rs: "records_accepted fmt (map fst (shaders (accept fmt st r))) rs"
    using Cons.prems by (rule records_accepted_step)
  have "replay_shaders fmt (pre @ concat (r # rs) @ tail) (length pre) st =
        replay_shaders fmt (pre @ r @ (concat rs @ tail)) (length pre + length r) (accept fmt st r)"
    using replay_step [OF r v, of pre "concat rs @ tail"] by simp
  also have "\<dots> = replay_shaders fmt ((pre @ r) @ concat rs @ tail) (length (pre @ r))
                      (accept fmt st r)"
    by simp
  also have "\<dots> = replay_shaders fmt ((pre @ r) @ concat rs @ tail)
                      (length (pre @ r) + length (concat rs)) (foldl (accept fmt) (accept fmt st r) rs)"
    using rs by (rule Cons.IH)
  finally show ?case by (simp add: add.assoc)
qed

lemma fread_suffix: "fread (pre @ tail) (length pre + k) n = fread tail k n"
  by (simp add: fread_def)

lemma replay_stop:
  assumes "tail_stops fmt (map fst (shaders st)) tail"
  shows "replay_shaders fmt (pre @ tail) (length pre) st = st"
proof -
  have f: "fread (pre @ tail) (length pre) (sizeof_ShaderStoredHeader fmt) =
           fread tail 0 (sizeof_ShaderStoredHeader fmt)"
    using fread_suffix [of pre tail 0] by simp
  have u: "\<And>dw. fread_ucode (pre @ tail) (length pre + sizeof_ShaderStoredHeader fmt) dw =
           fread_ucode tail (sizeof_ShaderStoredHeader fmt) dw"
    by (simp add: fread_ucode_def fread_suffix)
  show ?thesis
    using assms
    apply (subst replay_shaders.simps)
    apply (simp only: f u)
    apply (auto simp: tail_stops_def map_of_eq_None_iff split: option.splits)
    done
qed

lemma accept_valid_bytes:
  "shader_storage_valid_bytes (accept fmt st r) = shader_storage_valid_bytes st + length r"
  by (simp add: accept_def)

lemma foldl_accept_keys:
  "set (map fst (shaders (foldl (accept fmt) st rs))) =
     set (map fst (shaders st)) \<union> set (map (record_hash fmt) rs)"
proof (induction rs arbitrary: st)
  case Nil
  then show ?case by simp
next
  case (Cons r rs)
  show ?case unfolding foldl_Cons Cons.IH accept_keys by auto
qed

lemma foldl_accept_valid_bytes:
  "shader_storage_valid_bytes (foldl (accept fmt) st rs) =
     shader_storage_valid_bytes st + length (concat rs)"
  by (induction rs arbitrary: st) (simp_all add: accept_valid_bytes)

lemma new_records_verified:
  "records_accepted fmt known rs \<Longrightarrow>
   list_all (hash_verified fmt) (map (loaded_entry fmt) (new_records fmt known rs))"
proof (induction rs arbitrary: known)
  case Nil
  then show ?case by simp
next
  case (Cons r rs)
  from Cons.prems have v: "record_hash fmt r \<in> set known \<or>
      record_hash fmt r = XXH64 fmt (record_ucode fmt r)"
    and rs: "records_accepted fmt (record_hash fmt r # known) rs"
    by simp_all
  show ?case
  proof (cases "record_hash fmt r \<in> set known")
    case True
    then have "set (record_hash fmt r # known) = set known" by auto
    then have "records_accepted fmt known rs"
      using rs records_accepted_cong by blast
    then show ?thesis using True Cons.IH [of known] by simp
  next
    case False
    have "set (record_hash fmt r # known) = set (known @ [record_hash fmt r])" by auto
    then have "records_accepted fmt (known @ [record_hash fmt r]) rs"
      using rs records_accepted_cong by blast
    then have "list_all (hash_verified fmt)
        (map (loaded_entry fmt) (new_records fmt (known @ [record_hash fmt r]) rs))"
      by (rule Cons.IH)
    moreover have "hash_verified fmt (loaded_entry fmt r)"
      using v False by (simp add: hash_verified_def loaded_entry_def entry_shader_def)
    ultimately show ?thesis using False by simp
  qed
qed

lemma tail_stops_cong:
  "set known = set known' \<Longrightarrow> tail_stops fmt known tail = tail_stops fmt known' tail"
  unfolding tail_stops_def by (auto split: option.splits)

lemma header_ok_prefix:
  "length pre = 8 \<Longrightarrow>
   shader_storage_file_header_ok fmt (pre @ rest) = shader_storage_file_header_ok fmt pre"
  by (simp add: shader_storage_file_header_ok_def fread_def)

lemma accept_known:
  assumes "record_hash fmt r \<in> set (map fst (shaders st))"
  shows "shaders (accept fmt st r) = shaders st"
    "shaders_to_translate (accept fmt st r) = shaders_to_translate st"
    "shaders_translated (accept fmt st r) = shaders_translated st"
  using assms by (auto simp: accept_def map_of_eq_None_iff)

lemma accept_unknown:
  assumes "record_hash fmt r \<notin> set (map fst (shaders st))"
  shows "shaders (accept fmt st r) = shaders st @ [loaded_entry fmt r]"
    "shaders_to_translate (accept fmt st r) =
       shaders_to_translate st @ [(record_header fmt r, entry_shader fmt r)]"
    "shaders_translated (accept fmt st r) = shaders_translated st + 1"
  using assms by (auto simp: accept_def map_of_eq_None_iff loaded_entry_def entry_shader_def)

lemma foldl_accept_new:
  "shaders (foldl (accept fmt) st rs) =
     shaders st @ map (loaded_entry fmt) (new_records fmt (map fst (shaders st)) rs) \<and>
   shaders_to_translate (foldl (accept fmt) st rs) =
     shaders_to_translate st @
     map (\<lambda>r. (record_header fmt r, entry_shader fmt r)) (new_records fmt (map fst (shaders st)) rs) \<and>
   shaders_translated (foldl (accept fmt) st rs) =
     shaders_translated st + length (new_records fmt (map fst (shaders st)) rs)"
proof (induction rs arbitrary: st)
  case Nil
  then show ?case by simp
next
  case (Cons r rs)
  show ?case
  proof (cases "record_hash fmt r \<in> set (map fst (shaders st))")
    case True
    show ?thesis
      using Cons.IH [of "accept fmt st r"] True
      unfolding foldl_Cons accept_known [OF True] by simp
  next
    case False
    have k: "map fst (shaders st @ [loaded_entry fmt r]) = map fst (shaders st) @ [record_hash fmt r]"
      by (simp add: loaded_entry_def)
    show ?thesis
      using Cons.IH [of "accept fmt st r"] False
      unfolding foldl_Cons accept_unknown [OF False] k by simp
  qed
qed

lemma new_records_distinct:
  "distinct (map (record_hash fmt) (new_records fmt known rs)) \<and>
   set (map (record_hash fmt) (new_records fmt known rs)) \<inter> set known = {}"
proof (induction rs arbitrary: known)
  case Nil
  then show ?case by simp
next
  case (Cons r rs)
  show ?case
    using Cons.IH [of known] Cons.IH [of "known @ [record_hash fmt r]"] by auto
qed

lemma thread_limit: "(0 < translation_thread_limit fmt) = (logical_processor_count fmt \<noteq> 1)"
  by (auto simp: translation_thread_limit_def)

lemma erase_failed_new:
  assumes s: "shaders st = known @ map (loaded_entry fmt) new"
    and q: "shaders_to_translate st = map (\<lambda>r. (record_header fmt r, entry_shader fmt r)) new"
    and d: "distinct (map (record_hash fmt) new)"
    and k: "set (map (record_hash fmt) new) \<inter> set (map fst known) = {}"
  shows "erase_failed fmt st =
           known @ map (loaded_entry fmt)
             (filter (\<lambda>r. \<not> (logical_processor_count fmt \<noteq> 1 \<and> translation_fails fmt r)) new)"
proof -
  let ?failed = "set (failed_to_translate fmt st)"
  have "map (\<lambda>(header, failed). shader_ucode_data_hash failed)
          (filter (\<lambda>(header, queued). \<not> translation_succeeds fmt header queued)
             (map (\<lambda>r. (record_header fmt r, entry_shader fmt r)) new)) =
        map (record_hash fmt) (filter (translation_fails fmt) new)"
  proof -
    have tf: "(\<lambda>x. \<not> translation_succeeds fmt (record_header fmt x) (entry_shader fmt x)) =
              translation_fails fmt"
      by (rule ext) (simp add: translation_fails_def)
    have eh: "\<And>r. shader_ucode_data_hash (entry_shader fmt r) = record_hash fmt r"
      by (simp add: entry_shader_def)
    show ?thesis by (simp add: filter_map comp_def tf eh)
  qed
  then have f: "?failed =
     (if logical_processor_count fmt \<noteq> 1
      then record_hash fmt ` {r \<in> set new. translation_fails fmt r} else {})"
    unfolding failed_to_translate_def q thread_limit by auto
  have inj: "inj_on (record_hash fmt) (set new)"
    using d by (simp add: distinct_map)
  have 1: "filter (\<lambda>(hash, shader). hash \<notin> ?failed) known = known"
  proof -
    have "\<forall>e \<in> set known. fst e \<notin> ?failed"
      using k unfolding f by (auto simp: image_iff)
    then show ?thesis by (auto simp: filter_id_conv)
  qed
  have 2: "filter (\<lambda>(hash, shader). hash \<notin> ?failed) (map (loaded_entry fmt) new) =
           map (loaded_entry fmt)
             (filter (\<lambda>r. \<not> (logical_processor_count fmt \<noteq> 1 \<and> translation_fails fmt r)) new)"
  proof -
    have "\<forall>r \<in> set new. (record_hash fmt r \<notin> ?failed) =
            (\<not> (logical_processor_count fmt \<noteq> 1 \<and> translation_fails fmt r))"
      unfolding f using inj by (auto simp: inj_on_def)
    then show ?thesis
      unfolding filter_map by (auto simp: comp_def loaded_entry_def intro!: filter_cong arg_cong [of _ _ "map _"])
  qed
  show ?thesis unfolding erase_failed_def s filter_append 1 2 ..
qed

text \<open>
  C4, as the code has it. The entries of the file are read in order. An entry whose
  stored hash is already in the shader dictionary is skipped without its microcode being
  read or hashed; for every other entry the hash of the loaded microcode is compared
  with the stored hash. When the file is a valid header, then entries that are accepted
  in this way, then bytes that stop the loop (a partial header, or an entry whose hash
  is not in the dictionary and whose microcode is cut short or does not have the stored
  hash): the file is truncated to the end of the last accepted entry and the count of
  valid bytes is that position; the dictionary then holds the shaders loaded before
  followed by the accepted entries that were not in it, in order, so that the hash of
  every accepted entry is in it, and every entry that was loaded has the hash of its
  microcode. After the translation threads have finished, the
  dictionary has lost exactly the loaded entries whose translation failed; with a single
  logical processor there are no threads and nothing is lost. No error is returned: the
  function has no result but the dictionary and the file.
\<close>

theorem shader_storage_replay:
  assumes pre: "length pre = 8" and header: "shader_storage_file_header_ok fmt pre"
    and records: "records_accepted fmt (map fst known) records"
    and tail: "tail_stops fmt (map fst known @ map (record_hash fmt) records) tail"
  shows "case InitializeShaderStorage fmt (pre @ concat records @ tail) known of
           (final_shaders, file', loaded) \<Rightarrow>
             file' = pre @ concat records \<and>
             shader_storage_valid_bytes loaded = 8 + length (concat records) \<and>
             shaders loaded =
               known @ map (loaded_entry fmt) (new_records fmt (map fst known) records) \<and>
             shaders_translated loaded = length (new_records fmt (map fst known) records) \<and>
             list_all (\<lambda>r. record_hash fmt r \<in> set (map fst (shaders loaded))) records \<and>
             list_all (hash_verified fmt)
               (map (loaded_entry fmt) (new_records fmt (map fst known) records)) \<and>
             final_shaders =
               known @ map (loaded_entry fmt)
                 (filter (\<lambda>r. \<not> (logical_processor_count fmt \<noteq> 1 \<and> translation_fails fmt r))
                    (new_records fmt (map fst known) records))"
proof -
  let ?st = "\<lparr>shaders = known, shaders_to_translate = [], shader_storage_valid_bytes = 8,
              shaders_translated = 0\<rparr>"
  let ?file = "pre @ concat records @ tail"
  let ?loaded = "foldl (accept fmt) ?st records"
  let ?new = "new_records fmt (map fst known) records"
  have "set (map fst (shaders ?loaded)) = set (map fst known @ map (record_hash fmt) records)"
    using foldl_accept_keys [of fmt ?st records] by simp
  then have stop: "tail_stops fmt (map fst (shaders ?loaded)) tail"
    using tail tail_stops_cong by blast
  have "replay_shaders fmt ?file 8 ?st =
        replay_shaders fmt ((pre @ concat records) @ tail) (length (pre @ concat records)) ?loaded"
    using replay_records [of fmt ?st records pre tail] records pre by simp
  also have "\<dots> = ?loaded" using stop by (rule replay_stop)
  finally have loaded: "replay_shaders fmt ?file 8 ?st = ?loaded" .
  have v: "shader_storage_valid_bytes ?loaded = 8 + length (concat records)"
    by (simp add: foldl_accept_valid_bytes)
  have t: "TruncateStdioFile ?file (8 + length (concat records)) = pre @ concat records"
    using pre by (simp add: TruncateStdioFile_def)
  have k: "list_all (\<lambda>r. record_hash fmt r \<in> set (map fst (shaders ?loaded))) records"
    unfolding foldl_accept_keys by (simp add: list_all_iff)
  have h: "list_all (hash_verified fmt) (map (loaded_entry fmt) ?new)"
    using records by (rule new_records_verified)
  have ok: "shader_storage_file_header_ok fmt ?file"
    using header pre by (simp add: header_ok_prefix)
  have n: "shaders ?loaded = known @ map (loaded_entry fmt) ?new"
    "shaders_to_translate ?loaded = map (\<lambda>r. (record_header fmt r, entry_shader fmt r)) ?new"
    "shaders_translated ?loaded = length ?new"
    using foldl_accept_new [of fmt ?st records] by simp_all
  have e: "erase_failed fmt ?loaded =
           known @ map (loaded_entry fmt)
             (filter (\<lambda>r. \<not> (logical_processor_count fmt \<noteq> 1 \<and> translation_fails fmt r)) ?new)"
    using n(1) n(2) new_records_distinct [of fmt "map fst known" records]
    by (intro erase_failed_new) simp_all
  have res: "InitializeShaderStorage fmt ?file known =
             (erase_failed fmt ?loaded, pre @ concat records, ?loaded)"
    using ok loaded v t by (simp add: InitializeShaderStorage_def Let_def)
  show ?thesis
    unfolding res prod.case using v n(1) n(3) k h e by (intro conjI) (rule refl | assumption)+
qed

theorem shader_storage_replay_witness:
  "length example_file_header = 8 \<and>
   shader_storage_file_header_ok example_format example_file_header \<and>
   records_accepted example_format (map fst []) [example_empty_record, example_record] \<and>
   tail_stops example_format
     (map fst [] @ map (record_hash example_format) [example_empty_record, example_record])
     example_partial_tail \<and>
   fst (snd (InitializeShaderStorage example_format
     (example_file_header @ concat [example_empty_record, example_record] @ example_partial_tail) [])) =
     example_file_header @ concat [example_empty_record, example_record] \<and>
   shader_storage_valid_bytes (snd (snd (InitializeShaderStorage example_format
     (example_file_header @ concat [example_empty_record, example_record] @ example_partial_tail) []))) =
     8 + length (concat [example_empty_record, example_record]) \<and>
   map fst (shaders (snd (snd (InitializeShaderStorage example_format
     (example_file_header @ concat [example_empty_record, example_record] @ example_partial_tail) [])))) =
     [0xEF46DB3751D8E999, 0x3AEFA6FD5CF2DEB4] \<and>
   translation_fails example_format example_empty_record \<and>
   map fst (fst (InitializeShaderStorage example_format
     (example_file_header @ concat [example_empty_record, example_record] @ example_partial_tail) [])) =
     [0x3AEFA6FD5CF2DEB4]"
proof -
  have example_hyps:
    "length example_file_header = 8"
    "shader_storage_file_header_ok example_format example_file_header"
    "records_accepted example_format (map fst []) [example_empty_record, example_record]"
    "tail_stops example_format
       (map fst [] @ map (record_hash example_format) [example_empty_record, example_record])
       example_partial_tail"
    by code_simp+
  have example_new:
    "new_records example_format (map fst []) [example_empty_record, example_record] =
       [example_empty_record, example_record]"
    "translation_fails example_format example_empty_record"
    "\<not> translation_fails example_format example_record"
    "logical_processor_count example_format = 0"
    "record_hash example_format example_empty_record = 0xEF46DB3751D8E999"
    "record_hash example_format example_record = 0x3AEFA6FD5CF2DEB4"
    by code_simp+
  show ?thesis
    using shader_storage_replay [where pre = example_file_header and fmt = example_format
      and records = "[example_empty_record, example_record]" and known = "[]"
      and tail = example_partial_tail] example_hyps
    by (simp add: case_prod_beta example_new loaded_entry_def del: records_accepted.simps)
qed

text \<open>
  The claim as stated fails for an entry whose stored hash is already in the dictionary.
  The second entry here is complete and its microcode does not have the stored hash; the
  replay accepts it without comparing, so that nothing is truncated and only one shader
  is loaded. When the microcode of such an entry is cut short, the entry is skipped all
  the same, by seeking over the bytes that its header announces: the missing bytes are
  counted as valid, and the file is extended to the announced end of the entry rather
  than cut before it.
\<close>

theorem shader_log_unverified_entry_counterexample:
  "shader_storage_file_header_ok example_format
     (example_file_header @ example_empty_record @ example_stale_record) \<and>
   record_complete example_format example_stale_record \<and>
   XXH64 example_format (record_ucode example_format example_stale_record) \<noteq>
     record_hash example_format example_stale_record \<and>
   fst (snd (InitializeShaderStorage example_format
     (example_file_header @ example_empty_record @ example_stale_record) [])) =
     example_file_header @ example_empty_record @ example_stale_record \<and>
   shader_storage_valid_bytes (snd (snd (InitializeShaderStorage example_format
     (example_file_header @ example_empty_record @ example_stale_record) []))) =
     length (example_file_header @ example_empty_record @ example_stale_record) \<and>
   fst (snd (InitializeShaderStorage example_format
     (example_file_header @ example_empty_record @ example_stale_record) [])) \<noteq>
     example_file_header @ example_empty_record \<and>
   shaders_translated (snd (snd (InitializeShaderStorage example_format
     (example_file_header @ example_empty_record @ example_stale_record) []))) = 1 \<and>
   length (example_file_header @ example_empty_record @ take 18 example_stale_record) = 42 \<and>
   shader_storage_valid_bytes (snd (snd (InitializeShaderStorage example_format
     (example_file_header @ example_empty_record @ take 18 example_stale_record) []))) = 44 \<and>
   length (fst (snd (InitializeShaderStorage example_format
     (example_file_header @ example_empty_record @ take 18 example_stale_record) []))) = 44"
  by code_simp

end
